(* ===== verification/Prelude.thy ===== *)
theory Prelude
  imports Main "HOL-Library.Word" "HOL-Library.Monad_Syntax"
begin

text \<open>
  Shared vocabulary of the development: the C integer types of the Hydrogen sources as
  machine words, the little-endian reading of a byte list that relates a
  \<open>long\<close> scratch register to the bytes it holds, the bit facts the
  encoder proofs share, and the admissibility fact used to prove that a
  \<^theory_text>\<open>partial_function (option)\<close> loop never returns.
\<close>

unbundle bit_operations_syntax

section \<open>C integer types\<close>

text \<open>
  The sources target an LP64 platform: \<open>char\<close> is 8 bits, \<open>short int\<close> 16,
  \<open>int\<close> and \<open>unsigned\<close> 32, \<open>long\<close> 64. A signed C value is a word read with
  \<open>sint\<close>; an unsigned one is read with \<open>unat\<close>.
\<close>

type_synonym byte = "8 word"
type_synonym c_short = "16 word"
type_synonym c_int = "32 word"
type_synonym c_unsigned = "32 word"
type_synonym c_long = "64 word"

named_theorems smf_eval "rules that evaluate the serialisers on concrete inputs"

section \<open>Little-endian value of a byte list\<close>

fun le_nat :: "byte list \<Rightarrow> nat" where
  "le_nat [] = 0"
| "le_nat (b # bs) = unat b + 256 * le_nat bs"

lemma le_nat_less: "le_nat bs < 256 ^ length bs"
proof (induction bs)
  case Nil
  then show ?case by simp
next
  case (Cons b bs)
  have "unat b < 256" using unsigned_less[of b] by simp
  moreover from Cons.IH have "256 * le_nat bs + 256 \<le> 256 * 256 ^ length bs" by simp
  ultimately show ?case by simp
qed

lemma le_nat_append: "le_nat (xs @ ys) = le_nat xs + 256 ^ length xs * le_nat ys"
  by (induction xs) (simp_all add: algebra_simps)

lemma le_nat_mono_tl: "le_nat bs \<le> le_nat (b # bs)"
  by simp

text \<open>A nat whose low byte is \<open>a\<close> and whose higher bytes are \<open>r\<close>.\<close>

lemma bit_small_nat: "a < 2 ^ n \<Longrightarrow> n \<le> k \<Longrightarrow> \<not> bit (a :: nat) k"
proof -
  assume "a < 2 ^ n" "n \<le> k"
  then have "a < 2 ^ k" using power_increasing[of n k "2::nat"] by linarith
  then show ?thesis by (simp add: bit_iff_odd)
qed

lemma bit_byte_plus: "a < 256 \<Longrightarrow> bit (a + 256 * r) k = (if k < 8 then bit a k else bit r (k - 8))"
  for a r :: nat
proof -
  assume a: "a < 256"
  then have hi: "\<And>k. 8 \<le> k \<Longrightarrow> \<not> bit a k" using bit_small_nat[of a 8] by simp
  have "a + 256 * r = a OR push_bit 8 r"
  proof -
    have "\<And>n. \<not> bit a n \<or> \<not> bit (push_bit 8 r) n"
      using hi by (auto simp: bit_push_bit_iff)
    then have "a + push_bit 8 r = a OR push_bit 8 r" by (rule disjunctive_add)
    then show ?thesis by (simp add: push_bit_eq_mult mult.commute)
  qed
  with hi show ?thesis
    by (auto simp: bit_or_iff bit_push_bit_iff)
qed

lemma unat_byte_less: "unat (b :: byte) < 256"
  using unsigned_less[of b] by simp

lemma bit_le_nat: "i < length bs \<Longrightarrow> j < 8 \<Longrightarrow> bit (le_nat bs) (8 * i + j) = bit (bs ! i) j"
proof (induction bs arbitrary: i)
  case Nil
  then show ?case by simp
next
  case (Cons b bs)
  then show ?case
    using unat_byte_less[of b] by (cases i) (simp_all add: bit_byte_plus bit_unsigned_iff)
qed

section \<open>Words built from byte lists\<close>

lemma bit_word_of_nat: "bit (word_of_nat m :: c_long) n = (n < 64 \<and> bit m n)"
  by (simp add: bit_of_nat_iff)

lemma bit_0x80: "bit (0x80 :: int) n = (n = 7)"
proof -
  have e: "(0x80 :: int) = 2 ^ 7" by simp
  show ?thesis by (simp only: e bit_exp_iff) auto
qed

lemma ucast_word_of_le_nat [simp]:
  "(ucast (word_of_nat (le_nat (b # bs)) :: c_long) :: byte) = b"
proof (rule bit_word_eqI)
  fix n assume "n < LENGTH(8)"
  then show "bit (ucast (word_of_nat (le_nat (b # bs)) :: c_long) :: byte) n = bit b n"
    using unat_byte_less[of b]
    by (simp add: bit_ucast_iff bit_word_of_nat bit_byte_plus bit_unsigned_iff del: le_nat.simps)
      (simp add: bit_byte_plus bit_unsigned_iff)
qed

lemma and_0x80_iff: "((x :: c_long) AND 0x80 \<noteq> 0) = bit x 7"
proof -
  have "x AND 0x80 = (if bit x 7 then 0x80 else 0)"
    by (rule bit_word_eqI) (auto simp: bit_and_iff bit_0x80)
  then show ?thesis by simp
qed

lemma bit7_word_of_le_nat:
  "bit (word_of_nat (le_nat (b # bs)) :: c_long) 7 = bit b 7"
  using unat_byte_less[of b]
  by (simp add: bit_word_of_nat del: le_nat.simps) (simp add: bit_byte_plus bit_unsigned_iff)

lemma signed_drop_bit_nonneg:
  "\<not> bit (w :: c_long) 63 \<Longrightarrow> signed_drop_bit n w = drop_bit n w"
  by (rule bit_word_eqI) (auto simp: bit_signed_drop_bit_iff bit_drop_bit_eq dest: bit_imp_le_length)

lemma not_bit63_of_nat: "m < 2 ^ 63 \<Longrightarrow> \<not> bit (word_of_nat m :: c_long) 63"
  using bit_small_nat[of m 63 63] by (simp add: bit_word_of_nat)

lemma drop_bit_word_of_nat: "n < 2 ^ 64 \<Longrightarrow> drop_bit 8 (word_of_nat n :: c_long) = word_of_nat (n div 256)"
  by (rule word_unat_eq_iff[THEN iffD2]) (simp add: unat_div unat_of_nat drop_bit_eq_div)

lemma drop_bit8_word_of_le_nat:
  assumes "le_nat (b # bs) < 2 ^ 63"
  shows "signed_drop_bit 8 (word_of_nat (le_nat (b # bs)) :: c_long) = word_of_nat (le_nat bs)"
proof -
  have "signed_drop_bit 8 (word_of_nat (le_nat (b # bs)) :: c_long)
      = word_of_nat (le_nat (b # bs) div 256)"
    using assms by (simp add: signed_drop_bit_nonneg not_bit63_of_nat drop_bit_word_of_nat del: le_nat.simps)
  also have "le_nat (b # bs) div 256 = le_nat bs"
    using unat_byte_less[of b] by simp
  finally show ?thesis .
qed

lemma sint_nonneg_iff: "(0 \<le> sint (w :: c_long)) = (\<not> bit w 63)"
  using bit_last_iff[of w] by (simp add: not_less)

lemma sint_nonneg_unat: "\<not> bit (w :: c_long) 63 \<Longrightarrow> sint w = int (unat w)"
proof -
  assume h: "\<not> bit w 63"
  have "take_bit 63 (uint w) = uint w"
  proof (rule bit_eqI)
    fix n show "bit (take_bit 63 (uint w)) n = bit (uint w) n"
      using h by (cases "n = 63") (auto simp: bit_take_bit_iff bit_uint_iff)
  qed
  moreover have "signed_take_bit 63 (uint w) = take_bit 63 (uint w)"
    using h by (simp add: signed_take_bit_eq_if_positive bit_uint_iff)
  ultimately show ?thesis by (simp add: sint_uint)
qed

lemma unat_and_0x7f: "unat ((w :: 'a::len word) AND 0x7f) = unat w mod 128"
proof -
  have "w AND 0x7f = take_bit 7 w" by (simp add: take_bit_eq_mask mask_eq_exp_minus_1)
  then show ?thesis by (simp only: unsigned_take_bit_eq) (simp add: take_bit_eq_mod)
qed

lemma and_0x7f_long: "(w :: c_long) AND 0x7f = word_of_nat (unat w mod 128)"
  by (rule word_unat_eq_iff[THEN iffD2]) (simp add: unat_and_0x7f unat_of_nat)

lemma c_long_overflow [simp]: "(18446744073709551616 :: c_long) = 0"
  by (rule word_unat_eq_iff[THEN iffD2]) simp

lemma sint_nonneg_eq_unat: "0 \<le> sint (w :: 'a::len word) \<Longrightarrow> sint w = int (unat w)"
proof -
  assume h: "0 \<le> sint w"
  then have nb: "\<not> bit w (LENGTH('a) - Suc 0)" using bit_last_iff[of w] by simp
  have "take_bit (LENGTH('a) - Suc 0) (uint w) = uint w"
  proof (rule bit_eqI)
    fix n show "bit (take_bit (LENGTH('a) - Suc 0) (uint w)) n = bit (uint w) n"
      using nb by (cases "n = LENGTH('a) - Suc 0") (auto simp: bit_take_bit_iff bit_uint_iff)
  qed
  moreover have "signed_take_bit (LENGTH('a) - Suc 0) (uint w) = take_bit (LENGTH('a) - Suc 0) (uint w)"
    using nb by (simp add: signed_take_bit_eq_if_positive bit_uint_iff)
  ultimately show ?thesis by (simp add: sint_uint)
qed
lemma ucast_via_short [simp]: "(ucast (ucast (x :: 'a::len word) :: c_short) :: byte) = ucast x"
  by (intro bit_word_eqI) (auto simp: bit_simps)
lemma unat_scast_int: "0 \<le> sint (d :: c_int) \<Longrightarrow> unat (scast d :: c_long) = unat d"
proof -
  assume h: "0 \<le> sint d"
  have "sint (scast d :: c_long) = sint d" by (rule sint_up_scast) (simp add: is_up)
  with h have "int (unat (scast d :: c_long)) = int (unat d)"
    by (metis sint_nonneg_eq_unat)
  then show ?thesis by (rule int_int_eq[THEN iffD1])
qed

lemma unat_of_char_byte [simp]: "unat (of_char c :: byte) = of_char c"
proof -
  have w: "(of_char c :: byte) = word_of_nat (of_char c)" by (simp add: of_nat_of_char)
  have "of_char c < (2::nat) ^ 8" using nat_of_char_less_256[of c] by simp
  then show ?thesis by (simp only: w unat_of_nat) simp
qed

section \<open>Never returning\<close>

text \<open>A list of results that all returned has one value per result.\<close>

lemma those_Some_length: "those xs = Some ys \<Longrightarrow> length ys = length xs"
  by (induction xs arbitrary: ys) (auto split: option.splits)

text \<open>
  The property ``the function returns \<open>None\<close> on every argument satisfying
  \<open>P\<close>'' is admissible in the flat order of \<open>option\<close>, so fixpoint induction
  proves that a \<^theory_text>\<open>partial_function (option)\<close> loop never returns there.
\<close>

lemma option_admissible_None:
  "ccpo.admissible (fun_lub (flat_lub None)) (fun_ord option_ord) (\<lambda>f. \<forall>x. P x \<longrightarrow> f x = None)"
  by (rule ccpo.admissibleI) (auto simp: fun_lub_def flat_lub_def)

section \<open>Conversions between C integer types\<close>

lemma ucast_scast_byte [simp]: "ucast (scast (b :: byte) :: c_short) = b"
  by (rule bit_word_eqI) (auto simp: bit_simps)

lemma ucast_short_minus_one [smf_eval]: "(ucast (- 1 :: c_short) :: byte) = 255"
  by (simp add: unsigned_minus_1_eq_mask mask_eq_exp_minus_1)

end
