(* ===== verification/VarLen.thy ===== *)
theory VarLen
  imports Prelude
begin

text \<open>
  The MIDI variable-length quantity as the Standard MIDI File format defines it (spec
  section 4.1): a reference encoder \<open>vlq_encode\<close> on unbounded naturals, and the
  decoder \<open>readVarLen\<close> that the spec asks for round-trip testing. Neither is a
  function of the Hydrogen sources: they are the contract that
  \<open>SMFBuffer::writeVarLen\<close> is proved against in theory \<open>SMFBuffer\<close>.
\<close>

unbundle bit_operations_syntax

section \<open>Reference encoder\<close>

text \<open>
  \<open>vlq_hi m\<close> are the bytes of the 7-bit groups of \<open>m\<close>, most significant first,
  each with its continuation bit set; the encoding of \<open>n\<close> is the groups above
  the lowest one, then the lowest group with its continuation bit clear.
\<close>

definition vlq_cont :: "nat \<Rightarrow> byte" where
  "vlq_cont m = word_of_nat (m mod 128) OR 0x80"

definition vlq_last :: "nat \<Rightarrow> byte" where
  "vlq_last m = word_of_nat (m mod 128)"

fun vlq_hi :: "nat \<Rightarrow> byte list" where
  "vlq_hi m = (if m = 0 then [] else vlq_hi (m div 128) @ [vlq_cont m])"

declare vlq_hi.simps [simp del]

definition vlq_encode :: "nat \<Rightarrow> byte list" where
  "vlq_encode n = vlq_hi (n div 128) @ [vlq_last n]"

section \<open>Reference decoder\<close>

text \<open>
  \<open>read_varlen_from acc k bs\<close> accumulates 7-bit groups into \<open>acc\<close> and counts
  the bytes read in \<open>k\<close>; it stops after the first byte whose high bit is clear
  and fails when the input ends before such a byte.
\<close>

fun read_varlen_from :: "nat \<Rightarrow> nat \<Rightarrow> byte list \<Rightarrow> (nat \<times> nat) option" where
  "read_varlen_from acc k [] = None"
| "read_varlen_from acc k (b # bs) =
     (let acc' = acc * 128 + unat (b AND 0x7f) in
      if bit b 7 then read_varlen_from acc' (Suc k) bs else Some (acc', Suc k))"

definition readVarLen :: "byte list \<Rightarrow> nat \<Rightarrow> (nat \<times> nat) option" where
  "readVarLen bytes offset = read_varlen_from 0 0 (drop offset bytes)"

section \<open>Shape of the encoding\<close>

lemma vlq_hi_0 [simp]: "vlq_hi 0 = []"
  by (simp add: vlq_hi.simps)

lemma vlq_hi_pos: "0 < m \<Longrightarrow> vlq_hi m = vlq_hi (m div 128) @ [vlq_cont m]"
  by (simp add: vlq_hi.simps [of m])

lemma unat_vlq_last [simp]: "unat (vlq_last m) = m mod 128"
  by (simp add: vlq_last_def unat_of_nat)

lemma unat_vlq_cont [simp]: "unat (vlq_cont m) = m mod 128 + 128"
proof -
  have "\<And>n. \<not> bit (vlq_last m) n \<or> \<not> bit (0x80 :: byte) n"
  proof -
    fix n
    have "m mod 128 < 2 ^ 7" by simp
    then have "\<not> bit (m mod 128) 7" using bit_small_nat[of "m mod 128" 7 7] by simp
    then show "\<not> bit (vlq_last m) n \<or> \<not> bit (0x80 :: byte) n"
      by (auto simp: vlq_last_def bit_of_nat_iff bit_0x80)
  qed
  then have "vlq_cont m = vlq_last m + 0x80"
    by (simp add: vlq_cont_def disjunctive_add flip: vlq_last_def)
  then show ?thesis by (simp add: unat_word_ariths vlq_last_def unat_of_nat)
qed

lemma bit7_vlq_bytes [simp]: "bit (vlq_cont m) 7" "\<not> bit (vlq_last m) 7"
proof -
  show "bit (vlq_cont m) 7" by (simp add: vlq_cont_def bit_or_iff bit_0x80)
  have "m mod 128 < 2 ^ 7" by simp
  then show "\<not> bit (vlq_last m) 7"
    using bit_small_nat[of "m mod 128" 7 7] by (simp add: vlq_last_def bit_of_nat_iff)
qed

lemma vlq_bytes_and_0x7f [simp]:
  "unat (vlq_cont m AND 0x7f) = m mod 128" "unat (vlq_last m AND 0x7f) = m mod 128"
  by (simp_all add: unat_and_0x7f)

lemma vlq_hi_cont: "b \<in> set (vlq_hi m) \<Longrightarrow> bit b 7"
proof (induction m rule: vlq_hi.induct)
  case (1 m)
  then show ?case
    by (cases "m = 0") (auto simp: vlq_hi_pos)
qed

lemma vlq_encode_ne [simp]: "vlq_encode n \<noteq> []"
  by (simp add: vlq_encode_def)

lemma butlast_vlq_encode [simp]: "butlast (vlq_encode n) = vlq_hi (n div 128)"
  by (simp add: vlq_encode_def)

lemma last_vlq_encode [simp]: "last (vlq_encode n) = vlq_last n"
  by (simp add: vlq_encode_def)

section \<open>Length of the encoding\<close>

lemma length_vlq_hi_le: "length (vlq_hi m) \<le> k \<longleftrightarrow> m < 128 ^ k"
proof (induction m arbitrary: k rule: vlq_hi.induct)
  case (1 m)
  show ?case
  proof (cases "m = 0")
    case True
    then show ?thesis by simp
  next
    case False
    show ?thesis
    proof (cases k)
      case 0
      with False show ?thesis by (simp add: vlq_hi_pos)
    next
      case (Suc k')
      have "length (vlq_hi (m div 128)) \<le> k' \<longleftrightarrow> m div 128 < 128 ^ k'"
        using "1.IH" False by blast
      also have "\<dots> \<longleftrightarrow> m < 128 ^ Suc k'"
        by (simp add: less_mult_imp_div_less div_less_iff_less_mult ac_simps)
      finally show ?thesis using False Suc by (simp add: vlq_hi_pos)
    qed
  qed
qed

lemma length_vlq_encode_le: "0 < k \<Longrightarrow> length (vlq_encode n) \<le> k \<longleftrightarrow> n < 128 ^ k"
proof -
  assume "0 < k"
  then obtain k' where k: "k = Suc k'" by (cases k) auto
  have "length (vlq_encode n) \<le> k \<longleftrightarrow> n div 128 < 128 ^ k'"
    using length_vlq_hi_le[of "n div 128" k'] by (simp add: vlq_encode_def k)
  also have "\<dots> \<longleftrightarrow> n < 128 ^ k"
    by (simp add: k div_less_iff_less_mult ac_simps)
  finally show ?thesis .
qed

section \<open>Decoding inverts encoding\<close>

lemma read_varlen_from_vlq_hi:
  "read_varlen_from acc k (vlq_hi m @ bs) =
     read_varlen_from (acc * 128 ^ length (vlq_hi m) + m) (k + length (vlq_hi m)) bs"
proof (induction m arbitrary: bs rule: vlq_hi.induct)
  case (1 m)
  show ?case
  proof (cases "m = 0")
    case True
    then show ?thesis by simp
  next
    case False
    let ?l = "length (vlq_hi (m div 128))"
    have "read_varlen_from acc k (vlq_hi m @ bs)
        = read_varlen_from (acc * 128 ^ ?l + m div 128) (k + ?l) (vlq_cont m # bs)"
      using "1.IH" False by (simp add: vlq_hi_pos)
    also have "\<dots> = read_varlen_from ((acc * 128 ^ ?l + m div 128) * 128 + m mod 128)
        (Suc (k + ?l)) bs"
      by simp
    also have "(acc * 128 ^ ?l + m div 128) * 128 + m mod 128 = acc * 128 ^ Suc ?l + m"
      by (simp add: algebra_simps)
    finally show ?thesis using False by (simp add: vlq_hi_pos)
  qed
qed

lemma read_varlen_from_vlq_encode:
  "read_varlen_from 0 0 (vlq_encode n @ rest) = Some (n, length (vlq_encode n))"
  by (simp add: vlq_encode_def read_varlen_from_vlq_hi)

lemma readVarLen_vlq_encode:
  "readVarLen (pre @ vlq_encode n @ rest) (length pre) = Some (n, length (vlq_encode n))"
  by (simp add: readVarLen_def read_varlen_from_vlq_encode)

section \<open>Value of the encoding as a little-endian register\<close>

lemma le_nat_vlq_encode_less:
  assumes "n < 2 ^ 56"
  shows "le_nat (vlq_encode n) < 2 ^ 63"
proof -
  let ?l = "length (vlq_hi (n div 128))"
  have l: "?l \<le> 7"
    using assms length_vlq_hi_le[of "n div 128" 7] by simp
  have c: "unat (vlq_last n) < 128" by simp
  have "le_nat (vlq_encode n) = le_nat (vlq_hi (n div 128)) + 256 ^ ?l * unat (vlq_last n)"
    by (simp add: vlq_encode_def le_nat_append)
  also have "\<dots> < 256 ^ ?l + 256 ^ ?l * 127"
    using le_nat_less[of "vlq_hi (n div 128)"] c by (intro add_less_le_mono) simp_all
  also have "\<dots> = 256 ^ ?l * 128" by simp
  also have "\<dots> \<le> 256 ^ 7 * 128"
    using l by (intro mult_right_mono power_increasing) simp_all
  finally show ?thesis by simp
qed

end
