(* ===== verification/SMFBuffer.thy ===== *)
theory SMFBuffer
  imports VarLen
begin

text \<open>
  \<open>SMFBuffer\<close> of \<^verbatim>\<open>src/src/lib/smf/SMFEvent.cpp\<close> (lines 27--88): an
  append-only byte vector with typed writers. The buffer is a record holding the
  \<^verbatim>\<open>std::vector<char>\<close>; each writer returns the updated record.
  \<open>writeVarLen\<close> keeps the two loops of the source: \<open>varlen_pack\<close> packs the
  7-bit groups into a \<open>long\<close> register, \<open>varlen_emit\<close> writes the register out
  low byte first. The second loop is a \<^verbatim>\<open>while (true)\<close> whose exit depends on the
  register's bits, so it is a \<^theory_text>\<open>partial_function (option)\<close>: \<open>None\<close> is
  ``never returns'', and the lemmas below say exactly when that happens.
\<close>

unbundle bit_operations_syntax

section \<open>The buffer and its writers\<close>

record SMFBuffer =
  m_buffer :: "byte list"

definition getBuffer :: "SMFBuffer \<Rightarrow> byte list" where
  "getBuffer buf = m_buffer buf"

definition SMFBuffer_empty :: SMFBuffer where
  "SMFBuffer_empty = \<lparr>m_buffer = []\<rparr>"

text \<open>\<^verbatim>\<open>writeByte(short int nByte)\<close>: \<^verbatim>\<open>push_back\<close> into a \<^verbatim>\<open>char\<close> vector keeps the low 8 bits.\<close>

definition writeByte :: "SMFBuffer \<Rightarrow> c_short \<Rightarrow> SMFBuffer" where
  "writeByte buf nByte = buf\<lparr>m_buffer := m_buffer buf @ [ucast nByte]\<rparr>"

text \<open>\<^verbatim>\<open>writeWord(int)\<close> and \<^verbatim>\<open>writeDWord(long)\<close>: arithmetic right shifts, each result
  converted to the \<^verbatim>\<open>short\<close> parameter of \<open>writeByte\<close>.\<close>

definition writeWord :: "SMFBuffer \<Rightarrow> c_int \<Rightarrow> SMFBuffer" where
  "writeWord buf nVal =
     writeByte (writeByte buf (ucast (signed_drop_bit 8 nVal))) (ucast nVal)"

definition writeDWord :: "SMFBuffer \<Rightarrow> c_long \<Rightarrow> SMFBuffer" where
  "writeDWord buf nVal =
     writeByte (writeByte (writeByte (writeByte buf
       (ucast (signed_drop_bit 24 nVal)))
       (ucast (signed_drop_bit 16 nVal)))
       (ucast (signed_drop_bit 8 nVal)))
       (ucast nVal)"

text \<open>
  The first loop of \<^verbatim>\<open>writeVarLen\<close>:
  \<^verbatim>\<open>while ((value >>= 7) > 0) { buffer <<= 8; buffer |= 0x80; buffer += (value & 0x7f); }\<close>
  The shift of \<^verbatim>\<open>value\<close> is arithmetic, the test signed, and \<^verbatim>\<open>buffer <<= 8\<close>
  wraps at 64 bits.
\<close>

function varlen_pack :: "c_long \<Rightarrow> c_long \<Rightarrow> c_long" where
  "varlen_pack value buffer =
     (let value' = signed_drop_bit 7 value in
      if 0 < sint value'
      then varlen_pack value' ((push_bit 8 buffer OR 0x80) + (value' AND 0x7f))
      else buffer)"
  by pat_completeness auto
termination
proof (relation "measure (\<lambda>(v, b). nat (sint v))")
  fix v b x :: c_long
  assume x: "x = signed_drop_bit 7 v" and pos: "0 < sint x"
  have "sint x = sint v div 128"
    using x by (simp add: sint_signed_drop_bit_eq drop_bit_eq_div)
  with pos show "((x, (push_bit 8 b OR 0x80) + (x AND 0x7f)), v, b)
      \<in> measure (\<lambda>(v, b). nat (sint v))"
    by (simp add: int_div_less_self)
qed simp

declare varlen_pack.simps [simp del]

text \<open>
  The second loop: \<^verbatim>\<open>while (true) { writeByte((char)buffer); if (buffer & 0x80) buffer >>= 8; else break; }\<close>
  The \<^verbatim>\<open>(char)\<close> cast takes the low byte, which the call sign-extends to \<^verbatim>\<open>short\<close>.
\<close>

partial_function (option) varlen_emit :: "SMFBuffer \<Rightarrow> c_long \<Rightarrow> SMFBuffer option" where
  "varlen_emit buf buffer =
     (let buf' = writeByte buf (scast (ucast buffer :: byte)) in
      if buffer AND 0x80 \<noteq> 0 then varlen_emit buf' (signed_drop_bit 8 buffer) else Some buf')"

declare varlen_emit.simps [code]

definition writeVarLen :: "SMFBuffer \<Rightarrow> c_long \<Rightarrow> SMFBuffer option" where
  "writeVarLen buf value = varlen_emit buf (varlen_pack value (value AND 0x7f))"

text \<open>
  \<^verbatim>\<open>writeString(std::string)\<close>: the length (a \<^verbatim>\<open>size_t\<close> passed as \<^verbatim>\<open>long\<close>) as a
  variable-length quantity, then each character; a \<^verbatim>\<open>char\<close> is sign-extended to the
  \<^verbatim>\<open>short\<close> parameter. The character loop (lines 59--61) counts with an
  \<^verbatim>\<open>unsigned i\<close> (32 bits) compared, widened, with the 64-bit length: \<open>i + 1\<close> wraps
  at \<open>2^32\<close>, so on a longer string the loop never ends. It is a
  \<^theory_text>\<open>partial_function (option)\<close> in which \<open>None\<close> is that non-termination.
\<close>

partial_function (option) write_chars :: "SMFBuffer \<Rightarrow> string \<Rightarrow> c_unsigned \<Rightarrow> SMFBuffer option" where
  "write_chars buf sMsg i =
     (if unat i < length sMsg
      then write_chars (writeByte buf (scast (of_char (sMsg ! unat i) :: byte))) sMsg (i + 1)
      else Some buf)"

definition writeString :: "SMFBuffer \<Rightarrow> string \<Rightarrow> SMFBuffer option" where
  "writeString buf sMsg = do {
     buf' \<leftarrow> writeVarLen buf (word_of_nat (length sMsg));
     write_chars buf' sMsg 0
   }"

text \<open>The value a byte sequence denotes when read high byte first (spec section 4.2).\<close>

definition be_nat :: "byte list \<Rightarrow> nat" where
  "be_nat bs = foldl (\<lambda>acc b. acc * 256 + unat b) 0 bs"

section \<open>Buffer operations as a step function\<close>

text \<open>
  The writers of \<open>SMFBuffer\<close> as one operation type, the interface through which the
  event and track serialisers drive the buffer; a run stops when a write does not return.
\<close>

datatype buffer_op =
    OpByte c_short
  | OpWord c_int
  | OpDWord c_long
  | OpVarLen c_long
  | OpString string

fun buffer_step :: "SMFBuffer \<Rightarrow> buffer_op \<Rightarrow> SMFBuffer option" where
  "buffer_step buf (OpByte v) = Some (writeByte buf v)"
| "buffer_step buf (OpWord v) = Some (writeWord buf v)"
| "buffer_step buf (OpDWord v) = Some (writeDWord buf v)"
| "buffer_step buf (OpVarLen v) = writeVarLen buf v"
| "buffer_step buf (OpString s) = writeString buf s"

fun buffer_run :: "SMFBuffer \<Rightarrow> buffer_op list \<Rightarrow> SMFBuffer option" where
  "buffer_run buf [] = Some buf"
| "buffer_run buf (op # ops) = buffer_step buf op \<bind> (\<lambda>buf'. buffer_run buf' ops)"

definition extends :: "SMFBuffer \<Rightarrow> SMFBuffer \<Rightarrow> bool" where
  "extends buf buf' \<longleftrightarrow> (\<exists>bs. buf' = buf\<lparr>m_buffer := m_buffer buf @ bs\<rparr>)"

text \<open>
  A register every byte of which has its continuation bit set.
\<close>

definition all_cont :: "c_long \<Rightarrow> bool" where
  "all_cont x \<longleftrightarrow> (\<forall>i<8. bit x (8 * i + 7))"

section \<open>Basic facts about the writers\<close>

lemma writeByte_append [simp]: "m_buffer (writeByte buf v) = m_buffer buf @ [ucast v]"
  by (simp add: writeByte_def)

lemma writeByte_scast [simp]:
  "writeByte buf (scast b) = buf\<lparr>m_buffer := m_buffer buf @ [b]\<rparr>"
  by (simp add: writeByte_def)

lemma write_chars_drop:
  assumes "length s < 2 ^ 32"
  shows "write_chars buf s i = Some (buf\<lparr>m_buffer := m_buffer buf @ map of_char (drop (unat i) s)\<rparr>)"
  using assms
proof (induction "length s - unat i" arbitrary: buf i)
  case 0
  then show ?case by (simp add: write_chars.simps)
next
  case (Suc k)
  then have lt: "unat i < length s" by simp
  with Suc.prems have i1: "unat (i + 1) = Suc (unat i)" by (simp add: unat_word_ariths)
  have "write_chars (writeByte buf (scast (of_char (s ! unat i) :: byte))) s (i + 1) =
      Some ((writeByte buf (scast (of_char (s ! unat i) :: byte)))\<lparr>m_buffer :=
        m_buffer (writeByte buf (scast (of_char (s ! unat i) :: byte))) @ map of_char (drop (unat (i + 1)) s)\<rparr>)"
    using Suc by (intro Suc.hyps) (simp_all add: i1)
  moreover have "drop (unat i) s = s ! unat i # drop (Suc (unat i)) s" using lt by (simp add: Cons_nth_drop_Suc)
  ultimately show ?case using lt i1
    by (simp add: write_chars.simps[of buf s i] writeByte_def)
qed

lemma write_chars_long:
  "2 ^ 32 \<le> length s \<Longrightarrow> write_chars buf s i = None"
proof (induction arbitrary: buf s i rule: write_chars.fixp_induct)
  case 1
  show ?case
    using option_admissible_None[of "\<lambda>p. 2 ^ 32 \<le> length (snd (fst p))"] by (simp add: split_paired_All)
next
  case 2
  then show ?case by simp
next
  case (3 f)
  have "unat i < 2 ^ 32" using unsigned_less[of i] by simp
  then have "unat i < length s" using 3(2) by simp
  with 3 show ?case by simp
qed

section \<open>The packing loop builds the reference encoding\<close>

lemma push_bit_or_0x80:
  "(push_bit 8 (word_of_nat N :: c_long) OR 0x80) + word_of_nat c = word_of_nat (c + 128 + 256 * N)"
proof -
  have "push_bit 8 (word_of_nat N :: c_long) + 0x80 = push_bit 8 (word_of_nat N) OR 0x80"
    by (rule disjunctive_add) (auto simp: bit_push_bit_iff bit_0x80)
  then have "push_bit 8 (word_of_nat N :: c_long) OR 0x80 = push_bit 8 (word_of_nat N) + 0x80"
    by simp
  then show ?thesis by (simp add: push_bit_eq_mult of_nat_mult algebra_simps)
qed

lemma varlen_pack_le_nat:
  "\<not> bit w 63 \<Longrightarrow> buffer = word_of_nat (le_nat L) \<Longrightarrow>
   varlen_pack w buffer = word_of_nat (le_nat (vlq_hi (unat w div 128) @ L))"
proof (induction w buffer arbitrary: L rule: varlen_pack.induct)
  case (1 w buffer)
  let ?w' = "signed_drop_bit 7 w" and ?q = "unat w div 128"
  have w': "?w' = drop_bit 7 w" using "1.prems"(1) by (simp add: signed_drop_bit_nonneg)
  have u: "unat ?w' = ?q" by (simp add: w' unat_div drop_bit_eq_div)
  have nb: "\<not> bit ?w' 63" by (auto simp: w' bit_drop_bit_eq dest: bit_imp_le_length)
  have pos: "(0 < sint ?w') = (0 < ?q)" using nb u by (simp add: sint_nonneg_unat)
  show ?case
  proof (cases "0 < ?q")
    case True
    let ?L' = "vlq_cont ?q # L"
    have step: "(push_bit 8 buffer OR 0x80) + (?w' AND 0x7f) = word_of_nat (le_nat ?L')"
      using "1.prems"(2) u by (simp add: and_0x7f_long push_bit_or_0x80 del: le_nat.simps) simp
    have "varlen_pack w buffer = varlen_pack ?w' ((push_bit 8 buffer OR 0x80) + (?w' AND 0x7f))"
      using True pos by (simp add: varlen_pack.simps [of w buffer] Let_def)
    also have "\<dots> = word_of_nat (le_nat (vlq_hi (?q div 128) @ ?L'))"
      using "1.IH" [OF refl _ nb step] True pos u by simp
    finally show ?thesis using True by (simp add: vlq_hi_pos)
  next
    case False
    then have "varlen_pack w buffer = buffer"
      using pos by (simp add: varlen_pack.simps [of w buffer] Let_def)
    with False "1.prems"(2) show ?thesis by simp
  qed
qed

section \<open>The output loop writes the register low byte first\<close>

lemma varlen_emit_le_nat:
  "L \<noteq> [] \<Longrightarrow> \<forall>b \<in> set (butlast L). bit b 7 \<Longrightarrow> \<not> bit (last L) 7 \<Longrightarrow> le_nat L < 2 ^ 63 \<Longrightarrow>
   varlen_emit buf (word_of_nat (le_nat L)) = Some (buf\<lparr>m_buffer := m_buffer buf @ L\<rparr>)"
proof (induction L arbitrary: buf)
  case Nil
  then show ?case by simp
next
  case (Cons b L)
  let ?w = "word_of_nat (le_nat (b # L)) :: c_long"
  let ?buf' = "buf\<lparr>m_buffer := m_buffer buf @ [b]\<rparr>"
  have emit: "varlen_emit buf ?w =
      (if bit b 7 then varlen_emit ?buf' (signed_drop_bit 8 ?w) else Some ?buf')"
    by (simp add: varlen_emit.simps [of buf ?w] and_0x80_iff bit7_word_of_le_nat del: le_nat.simps)
  show ?case
  proof (cases "L = []")
    case True
    with Cons.prems emit show ?thesis by simp
  next
    case False
    with Cons.prems have b: "bit b 7" by simp
    have "varlen_emit ?buf' (signed_drop_bit 8 ?w) = varlen_emit ?buf' (word_of_nat (le_nat L))"
      using Cons.prems(4) by (simp only: drop_bit8_word_of_le_nat)
    also have "\<dots> = Some (?buf'\<lparr>m_buffer := m_buffer ?buf' @ L\<rparr>)"
      using Cons.prems False le_nat_mono_tl[of L b] by (intro Cons.IH) simp_all
    finally show ?thesis using emit b by simp
  qed
qed

section \<open>Where the output loop never stops\<close>

text \<open>
  If every byte of the register has its high bit set and the register is negative, the
  arithmetic shift keeps both properties, so \<open>varlen_emit\<close> writes forever.
\<close>

lemma all_cont_shift: "all_cont x \<Longrightarrow> all_cont (signed_drop_bit 8 x)"
  unfolding all_cont_def
proof (intro allI impI)
  fix i :: nat assume h: "\<forall>i<8. bit x (8 * i + 7)" and i: "i < 8"
  show "bit (signed_drop_bit 8 x) (8 * i + 7)"
  proof (cases "i = 7")
    case True
    then show ?thesis using h[rule_format, of 7] by (simp add: bit_signed_drop_bit_iff)
  next
    case False
    from i False have "i + 1 < 8" by simp
    with h have "bit x (8 * (i + 1) + 7)" by blast
    with False i show ?thesis by (simp add: bit_signed_drop_bit_iff algebra_simps)
  qed
qed

lemma all_cont_and: "all_cont x \<Longrightarrow> x AND 0x80 \<noteq> 0"
  by (auto simp: all_cont_def and_0x80_iff dest: spec[of _ 0])

lemma varlen_emit_all_cont: "all_cont x \<Longrightarrow> varlen_emit buf x = None"
proof (induction arbitrary: buf x rule: varlen_emit.fixp_induct)
  case 1
  show ?case
    using option_admissible_None[of "\<lambda>p. all_cont (snd p)"] by (simp add: split_paired_All)
next
  case 2
  then show ?case by simp
next
  case (3 f)
  then show ?case by (simp add: all_cont_and all_cont_shift Let_def)
qed

section \<open>writeVarLen on every input\<close>

lemma varlen_pack_initial:
  "\<not> bit v 63 \<Longrightarrow> varlen_pack v (v AND 0x7f) = word_of_nat (le_nat (vlq_encode (unat v)))"
  by (rule varlen_pack_le_nat [of v _ "[vlq_last (unat v)]", THEN trans])
     (simp_all add: and_0x7f_long vlq_encode_def)

lemma writeVarLen_vlq:
  assumes "0 \<le> sint v" and "sint v < 2 ^ 56"
  shows "writeVarLen buf v = Some (buf\<lparr>m_buffer := m_buffer buf @ vlq_encode (unat v)\<rparr>)"
proof -
  have nb: "\<not> bit v 63" using assms(1) by (simp add: sint_nonneg_iff)
  then have "int (unat v) < 2 ^ 56" using assms(2) by (simp only: sint_nonneg_unat[OF nb])
  then have "unat v < 2 ^ 56" by (simp del: of_nat_unat)
  then have "le_nat (vlq_encode (unat v)) < 2 ^ 63" by (rule le_nat_vlq_encode_less)
  then show ?thesis
    using nb by (simp add: writeVarLen_def varlen_pack_initial varlen_emit_le_nat vlq_hi_cont)
qed

lemma writeVarLen_neg:
  assumes "sint v < 0"
  shows "writeVarLen buf v = Some (buf\<lparr>m_buffer := m_buffer buf @ [ucast (v AND 0x7f)]\<rparr>)"
proof -
  have "sint (signed_drop_bit 7 v) < 0"
    using assms by (simp add: sint_signed_drop_bit_eq drop_bit_eq_div)
  then have "varlen_pack v (v AND 0x7f) = word_of_nat (le_nat [vlq_last (unat v)])"
    by (simp add: varlen_pack.simps [of v] and_0x7f_long)
  moreover have "ucast (v AND 0x7f) = vlq_last (unat v)"
    by (simp add: and_0x7f_long vlq_last_def unsigned_of_nat take_bit_nat_eq_self)
  moreover have "le_nat [vlq_last (unat v)] < 2 ^ 63" by simp
  ultimately show ?thesis
    by (simp add: writeVarLen_def varlen_emit_le_nat del: le_nat.simps)
qed

lemma length_vlq_hi_eq:
  "128 ^ k \<le> m \<Longrightarrow> m < 128 ^ Suc k \<Longrightarrow> length (vlq_hi m) = Suc k"
  using length_vlq_hi_le[of m k] length_vlq_hi_le[of m "Suc k"] by simp

lemma varlen_pack_all_cont:
  assumes "2 ^ 56 \<le> sint v"
  shows "all_cont (varlen_pack v (v AND 0x7f))"
proof -
  have "0 \<le> sint v" using assms by (rule order_trans[rotated]) simp
  then have nb: "\<not> bit v 63" by (simp add: sint_nonneg_iff)
  let ?n = "unat v" let ?H = "vlq_hi (?n div 128)"
  have "2 ^ 56 \<le> int ?n" using assms by (simp only: sint_nonneg_unat[OF nb])
  then have n1: "2 ^ 56 \<le> ?n" by (simp del: of_nat_unat)
  have n2: "?n < 2 ^ 63"
  proof (rule ccontr)
    assume "\<not> ?n < 2 ^ 63"
    moreover have "?n < 2 ^ LENGTH(64)" by (rule unsigned_less)
    ultimately have "?n div 2 ^ 63 = 1" by (intro div_nat_eqI) simp_all
    then have "bit ?n 63" by (simp add: bit_iff_odd)
    with nb show False by (simp add: bit_unsigned_iff)
  qed
  note n = n1 n2
  have a: "128 ^ 7 \<le> ?n div 128" using n1 div_le_mono[of "2 ^ 56" ?n 128] by simp
  have b: "?n div 128 < 128 ^ Suc 7" using n2 by (simp add: div_less_iff_less_mult)
  have len: "length ?H = 8" using length_vlq_hi_eq[OF a b] by simp
  have "word_of_nat (le_nat (vlq_encode ?n)) = (word_of_nat (le_nat ?H) :: c_long)"
    using len by (simp add: vlq_encode_def le_nat_append of_nat_mult)
  moreover have "all_cont (word_of_nat (le_nat ?H))"
    unfolding all_cont_def
  proof (intro allI impI)
    fix i :: nat assume "i < 8"
    then have "?H ! i \<in> set ?H" using len by (intro nth_mem) simp
    then have "bit (?H ! i) 7" by (rule vlq_hi_cont)
    with \<open>i < 8\<close> len show "bit (word_of_nat (le_nat ?H) :: c_long) (8 * i + 7)"
      by (simp add: bit_word_of_nat bit_le_nat)
  qed
  ultimately show ?thesis using nb by (simp add: varlen_pack_initial)
qed

lemma writeVarLen_none:
  assumes "2 ^ 56 \<le> sint v"
  shows "writeVarLen buf v = None"
  using varlen_pack_all_cont[OF assms] by (simp add: writeVarLen_def varlen_emit_all_cont)

lemma sint_int_as_long: "sint (scast (x :: c_int) :: c_long) = sint x"
  by (rule sint_up_scast) (simp add: is_up)

lemma writeVarLen_int:
  "\<exists>bs. writeVarLen buf (scast (x :: c_int)) = Some (buf\<lparr>m_buffer := m_buffer buf @ bs\<rparr>)"
proof (cases "0 \<le> sint x")
  case True
  moreover have "sint x < 2 ^ 56"
    using sint_less[of x] by (rule less_le_trans) simp
  ultimately show ?thesis by (auto simp: writeVarLen_vlq sint_int_as_long)
next
  case False
  then show ?thesis by (auto simp: writeVarLen_neg sint_int_as_long)
qed

section \<open>Big-endian words\<close>

lemma unat_signed_drop_bit_byte:
  "n + 8 < LENGTH('a) \<Longrightarrow> unat (signed_drop_bit n (v :: 'a::len word)) mod 256 = unat v div 2 ^ n mod 256"
proof -
  assume n: "n + 8 < LENGTH('a)"
  have "take_bit 8 (signed_drop_bit n v) = take_bit 8 (drop_bit n v)"
    using n by (intro bit_word_eqI) (auto simp: bit_simps)
  then have "take_bit 8 (unat (signed_drop_bit n v)) = take_bit 8 (unat (drop_bit n v))"
    by (metis unsigned_take_bit_eq)
  then show ?thesis by (simp only: unat_drop_bit_eq) (simp add: drop_bit_eq_div take_bit_eq_mod)
qed

lemma unat_byte_of [simp]: "unat (ucast (x :: 'a::len word) :: byte) = unat x mod 256"
  by (simp only: unsigned_ucast_eq) (simp add: take_bit_eq_mod)

lemma be_nat_4:
  "((u div 2^24 mod 256 * 256 + u div 2^16 mod 256) * 256 + u div 2^8 mod 256) * 256 + u mod 256
   = u mod (2::nat) ^ 32"
proof -
  have split: "\<And>a m :: nat. a mod (256 * m) = a div 256 mod m * 256 + a mod 256"
    by (simp add: mod_mult2_eq)
  have "u mod 2^32 = u div 256 mod 2^24 * 256 + u mod 256" using split[of u "2^24"] by simp
  also have "u div 256 mod 2^24 = u div 2^16 mod 2^16 * 256 + u div 256 mod 256"
    using split[of "u div 256" "2^16"] by (simp flip: div_mult2_eq)
  also have "u div 2^16 mod 2^16 = u div 2^24 mod 256 * 256 + u div 2^16 mod 256"
    using split[of "u div 2^16" "2^8"] by (simp flip: div_mult2_eq)
  finally show ?thesis by (simp add: algebra_simps)
qed

section \<open>The buffer only grows\<close>

lemma extends_refl [intro]: "extends buf buf"
  by (auto simp: extends_def intro: exI[of _ "[]"])

lemma extends_trans: "extends a b \<Longrightarrow> extends b c \<Longrightarrow> extends a c"
  by (auto simp: extends_def)

lemma extends_append [intro]: "extends buf (buf\<lparr>m_buffer := m_buffer buf @ bs\<rparr>)"
  by (auto simp: extends_def)

lemma extends_writeByte [intro]: "extends buf (writeByte buf v)"
  by (auto simp: writeByte_def)

lemma varlen_emit_extends:
  assumes "varlen_emit buf x = Some buf'"
  shows "extends buf buf'"
  by (rule varlen_emit.raw_induct[where P = "\<lambda>buf x buf'. extends buf buf'", OF _ assms])
     (auto simp: Let_def split: if_splits intro: extends_trans[OF extends_append])

lemma extends_writeWord: "extends buf (writeWord buf v)"
  unfolding writeWord_def by (blast intro: extends_trans extends_writeByte)

lemma extends_writeDWord: "extends buf (writeDWord buf v)"
  unfolding writeDWord_def by (blast intro: extends_trans extends_writeByte)

lemma extends_writeVarLen: "writeVarLen buf v = Some buf' \<Longrightarrow> extends buf buf'"
  unfolding writeVarLen_def by (rule varlen_emit_extends)

lemma extends_writeString: "writeString buf s = Some buf' \<Longrightarrow> extends buf buf'"
proof -
  assume "writeString buf s = Some buf'"
  then obtain b where b: "writeVarLen buf (word_of_nat (length s)) = Some b"
    and eq: "write_chars b s 0 = Some buf'"
    by (auto simp: writeString_def split: Option.bind_splits)
  have "length s < 2 ^ 32" using eq write_chars_long[of s b 0] by (cases "length s < 2 ^ 32") auto
  then have "extends b buf'" using eq write_chars_drop[of s b 0] by auto
  with extends_writeVarLen[OF b] show ?thesis by (blast intro: extends_trans)
qed

lemma buffer_step_extends: "buffer_step buf op = Some buf' \<Longrightarrow> extends buf buf'"
  by (cases op) (auto intro: extends_writeWord extends_writeDWord extends_writeVarLen extends_writeString)

lemma buffer_run_extends: "buffer_run buf ops = Some buf' \<Longrightarrow> extends buf buf'"
proof (induction ops arbitrary: buf)
  case Nil
  then show ?case by auto
next
  case (Cons op ops)
  then obtain b where "buffer_step buf op = Some b" "buffer_run b ops = Some buf'"
    by (auto split: Option.bind_splits)
  with Cons.IH show ?case by (blast intro: extends_trans buffer_step_extends)
qed

lemma sint_length_long: "n < 2 ^ 63 \<Longrightarrow> sint (word_of_nat n :: c_long) = int n"
  by (simp add: sint_nonneg_unat not_bit63_of_nat unat_of_nat)

lemma writeString_eq:
  assumes "length s < 2 ^ 32"
  shows "writeString buf s =
    Some (buf\<lparr>m_buffer := m_buffer buf @ vlq_encode (length s) @ map of_char s\<rparr>)"
proof -
  have "sint (word_of_nat (length s) :: c_long) = int (length s)"
    using assms by (intro sint_length_long) simp
  with assms have "writeVarLen buf (word_of_nat (length s)) =
      Some (buf\<lparr>m_buffer := m_buffer buf @ vlq_encode (length s)\<rparr>)"
    by (simp add: writeVarLen_vlq unat_of_nat)
  then show ?thesis using write_chars_drop[OF assms, of _ 0] by (simp add: writeString_def)
qed

lemma writeString_long: "2 ^ 32 \<le> length s \<Longrightarrow> writeString buf s = None"
  by (simp add: writeString_def write_chars_long split: Option.bind_split)

declare varlen_pack.simps [smf_eval] varlen_emit.simps [smf_eval] writeVarLen_def [smf_eval]
  writeByte_def [smf_eval] SMFBuffer_empty_def [smf_eval] getBuffer_def [smf_eval]

section \<open>Properties of the buffer\<close>

text \<open>C1: on every \<open>long\<close> value from 0 to \<open>2^56 - 1\<close> the two loops of
  \<open>writeVarLen\<close> return and append exactly the MIDI variable-length quantity of the value
  (7-bit groups, most significant first, continuation bit on all but the last byte).\<close>

theorem writeVarLen_equiv:
  "0 \<le> sint v \<Longrightarrow> sint v < 2 ^ 56 \<Longrightarrow>
   writeVarLen buf v = Some (buf\<lparr>m_buffer := m_buffer buf @ vlq_encode (unat v)\<rparr>)"
  by (rule writeVarLen_vlq)

lemma writeVarLen_equiv_witness:
  "0 \<le> sint (0x3FFF :: c_long) \<and> sint (0x3FFF :: c_long) < 2 ^ 56 \<and>
   writeVarLen SMFBuffer_empty 0x3FFF = Some (SMFBuffer_empty\<lparr>m_buffer := [] @ vlq_encode 0x3FFF\<rparr>)"
  using writeVarLen_equiv[of "0x3FFF" SMFBuffer_empty] by (simp add: SMFBuffer_empty_def)

text \<open>C2: round trip. For \<open>0 \<le> v < 2^28\<close>, \<open>writeVarLen\<close> returns, writes at most
  four bytes, and decoding at the old end of the buffer gives back \<open>v\<close> and the number of
  bytes written, whatever follows.\<close>

theorem writeVarLen_roundtrip:
  assumes "0 \<le> sint v" and "sint v < 2 ^ 28"
  shows "\<exists>buf'. writeVarLen buf v = Some buf' \<and>
    length (getBuffer buf') - length (getBuffer buf) \<le> 4 \<and>
    readVarLen (getBuffer buf' @ rest) (length (getBuffer buf)) =
      Some (unat v, length (getBuffer buf') - length (getBuffer buf))"
proof -
  have nb: "\<not> bit v 63" using assms(1) by (simp add: sint_nonneg_iff)
  have "int (unat v) < 2 ^ 28" using assms(2) by (simp only: sint_nonneg_unat[OF nb])
  then have "unat v < 128 ^ 4" by (simp del: of_nat_unat)
  then have "length (vlq_encode (unat v)) \<le> 4" by (simp add: length_vlq_encode_le)
  moreover have "sint v < 2 ^ 56" using assms(2) by simp
  ultimately show ?thesis
    using assms(1) readVarLen_vlq_encode[of "m_buffer buf" "unat v" rest]
    by (simp add: writeVarLen_vlq getBuffer_def)
qed

lemma writeVarLen_roundtrip_witness:
  "0 \<le> sint (0x80 :: c_long) \<and> sint (0x80 :: c_long) < 2 ^ 28 \<and>
   (\<exists>buf'. writeVarLen SMFBuffer_empty 0x80 = Some buf' \<and>
      length (getBuffer buf') - length (getBuffer SMFBuffer_empty) \<le> 4 \<and>
      readVarLen (getBuffer buf' @ [0x90]) (length (getBuffer SMFBuffer_empty)) =
        Some (unat (0x80 :: c_long), length (getBuffer buf') - length (getBuffer SMFBuffer_empty)))"
  using writeVarLen_roundtrip[of "0x80" SMFBuffer_empty "[0x90]"] by simp

text \<open>C3: non-termination. For a \<open>long\<close> of \<open>2^56\<close> or more the packing loop shifts
  the lowest group out of the register and leaves it negative with every continuation
  bit set, so the output loop never ends (it writes \<open>0xFF\<close> forever).\<close>

theorem writeVarLen_diverges:
  "2 ^ 56 \<le> sint v \<Longrightarrow> writeVarLen buf v = None"
  by (rule writeVarLen_none)

lemma writeVarLen_diverges_witness:
  "2 ^ 56 \<le> sint (2 ^ 56 :: c_long) \<and> writeVarLen SMFBuffer_empty (2 ^ 56) = None"
  using writeVarLen_diverges[of "2 ^ 56" SMFBuffer_empty] by simp

text \<open>C4: bounds. On \<open>0 \<le> v < 2^56\<close> \<open>writeVarLen\<close> writes between one and eight
  bytes, and at most four exactly when \<open>v < 2^28\<close>; from \<open>2^28\<close> on it writes five or
  more bytes and reports no error.\<close>

theorem writeVarLen_length:
  assumes "0 \<le> sint v" and "sint v < 2 ^ 56"
  shows "\<exists>bs. writeVarLen buf v = Some (buf\<lparr>m_buffer := m_buffer buf @ bs\<rparr>) \<and>
    1 \<le> length bs \<and> length bs \<le> 8 \<and> (length bs \<le> 4 \<longleftrightarrow> sint v < 2 ^ 28)"
proof -
  have nb: "\<not> bit v 63" using assms(1) by (simp add: sint_nonneg_iff)
  have s: "sint v = int (unat v)" by (rule sint_nonneg_unat[OF nb])
  have "unat v < 128 ^ 8" using assms(2) by (simp add: s del: of_nat_unat)
  then have "length (vlq_encode (unat v)) \<le> 8" by (simp add: length_vlq_encode_le)
  moreover have "length (vlq_encode (unat v)) \<le> 4 \<longleftrightarrow> sint v < 2 ^ 28"
    by (simp add: length_vlq_encode_le s del: of_nat_unat)
  moreover have "1 \<le> length (vlq_encode (unat v))"
    by (simp add: Suc_le_eq)
  ultimately show ?thesis
    using assms by (intro exI[of _ "vlq_encode (unat v)"]) (simp add: writeVarLen_vlq)
qed

lemma writeVarLen_length_witness:
  "0 \<le> sint (2 ^ 28 :: c_long) \<and> sint (2 ^ 28 :: c_long) < 2 ^ 56 \<and>
   (\<exists>bs. writeVarLen SMFBuffer_empty (2 ^ 28) = Some (SMFBuffer_empty\<lparr>m_buffer := m_buffer SMFBuffer_empty @ bs\<rparr>) \<and>
      1 \<le> length bs \<and> length bs \<le> 8 \<and> (length bs \<le> 4 \<longleftrightarrow> sint (2 ^ 28 :: c_long) < 2 ^ 28))"
  using writeVarLen_length[of "2 ^ 28" SMFBuffer_empty] by simp

text \<open>C5: a negative \<open>long\<close> (the \<open>-1\<close> an unassigned delta-time holds) leaves the first
  loop at once and is written as the single byte \<open>value & 0x7f\<close>, with no error.\<close>

theorem writeVarLen_negative:
  "sint v < 0 \<Longrightarrow> writeVarLen buf v = Some (buf\<lparr>m_buffer := m_buffer buf @ [ucast (v AND 0x7f)]\<rparr>)"
  by (rule writeVarLen_neg)

lemma writeVarLen_negative_witness:
  "sint (-1 :: c_long) < 0 \<and> writeVarLen SMFBuffer_empty (-1) = Some \<lparr>m_buffer = [0x7F]\<rparr>"
  using writeVarLen_negative[of "-1" SMFBuffer_empty] by (simp add: SMFBuffer_empty_def)

text \<open>C6: the buffer is append-only. Whatever sequence of writes runs on it, as long as
  every write returns, the bytes already written are kept and new bytes only go after them.\<close>

theorem buffer_run_append_only:
  "buffer_run buf ops = Some buf' \<Longrightarrow>
   \<exists>bs. getBuffer buf' = getBuffer buf @ bs \<and> SMFBuffer.more buf' = SMFBuffer.more buf"
  using buffer_run_extends[of buf ops buf'] by (auto simp: extends_def getBuffer_def)

lemma buffer_run_append_only_witness:
  "buffer_run SMFBuffer_empty [OpByte 0xFF, OpVarLen 0x80, OpString ''ab''] =
     Some \<lparr>m_buffer = [0xFF, 0x81, 0x00, 0x02, 0x61, 0x62]\<rparr> \<and>
   (\<exists>bs. getBuffer \<lparr>m_buffer = [0xFF, 0x81, 0x00, 0x02, 0x61, 0x62]\<rparr> = getBuffer SMFBuffer_empty @ bs \<and>
      SMFBuffer.more \<lparr>m_buffer = [0xFF, 0x81, 0x00, 0x02, 0x61, 0x62]\<rparr> = SMFBuffer.more SMFBuffer_empty)"
proof -
  have run: "buffer_run SMFBuffer_empty [OpByte 0xFF, OpVarLen 0x80, OpString ''ab''] =
     Some \<lparr>m_buffer = [0xFF, 0x81, 0x00, 0x02, 0x61, 0x62]\<rparr>"
    by (simp add: smf_eval writeString_def write_chars.simps)
  show ?thesis using run buffer_run_append_only[OF run] by simp
qed

lemma writeDWord_bytes:
  "\<exists>bs. writeDWord buf v = buf\<lparr>m_buffer := m_buffer buf @ bs\<rparr> \<and> length bs = 4 \<and>
     be_nat bs = unat v mod 2 ^ 32"
proof -
  let ?b = "\<lambda>n. (ucast (ucast (signed_drop_bit n v) :: c_short) :: byte)"
  have "unat v div 2^24 mod 256 * 2^24 + unat v div 2^16 mod 256 * 2^16 + unat v div 256 mod 256 * 256
      + unat v mod 256 = unat v mod 2 ^ 32"
    using be_nat_4[of "unat v"] by (simp add: algebra_simps)
  then show ?thesis
    by (intro exI[of _ "[?b 24, ?b 16, ?b 8, ucast (ucast v :: c_short)]"] conjI)
       (simp_all add: writeDWord_def writeByte_def be_nat_def unat_signed_drop_bit_byte algebra_simps)
qed

lemma writeWord_bytes:
  "\<exists>bs. writeWord buf v = buf\<lparr>m_buffer := m_buffer buf @ bs\<rparr> \<and> length bs = 2 \<and>
     be_nat bs = unat v mod 2 ^ 16"
proof -
  have "(unat v div 256 mod 256) * 256 + unat v mod 256 = unat v mod 2 ^ 16"
    using mod_mult2_eq[of "unat v" 256 256] by simp
  then show ?thesis
    by (intro exI[of _ "[ucast (ucast (signed_drop_bit 8 v) :: c_short), ucast (ucast v :: c_short)]"] conjI)
       (simp_all add: writeWord_def writeByte_def be_nat_def unat_signed_drop_bit_byte)
qed

text \<open>C7: \<open>writeDWord\<close> appends four bytes and \<open>writeWord\<close> two, high byte first:
  read big-endian they are the value modulo \<open>2^32\<close>, respectively \<open>2^16\<close>.\<close>

theorem writers_big_endian:
  "(\<exists>bs. writeDWord buf v = buf\<lparr>m_buffer := m_buffer buf @ bs\<rparr> \<and> length bs = 4 \<and>
     be_nat bs = unat v mod 2 ^ 32) \<and>
   (\<exists>bs. writeWord buf w = buf\<lparr>m_buffer := m_buffer buf @ bs\<rparr> \<and> length bs = 2 \<and>
     be_nat bs = unat w mod 2 ^ 16)"
  using writeDWord_bytes writeWord_bytes by blast

text \<open>C8: \<open>writeString\<close> returns exactly on strings shorter than \<open>2^32\<close>, having
  written the length of the string as a variable-length quantity and then its bytes
  unchanged. On a longer string the 32-bit counter of the character loop wraps before it
  reaches the length and the loop never ends.\<close>

theorem writeString_layout:
  "writeString buf s = (if length s < 2 ^ 32
     then Some (buf\<lparr>m_buffer := m_buffer buf @ vlq_encode (length s) @ map of_char s\<rparr>) else None)"
  using writeString_eq[of s buf] writeString_long[of s buf] by simp

end
