(* ===== verification/SMFEvent.thy ===== *)
theory SMFEvent
  imports SMFBuffer
begin

text \<open>
  The event classes of \<^verbatim>\<open>src/src/lib/smf/SMFEvent.cpp\<close> (lines 93--187). The common
  base \<open>SMFEvent\<close> holds the absolute tick and the delta-time, initialised to the
  ``unassigned'' value \<open>-1\<close>; the three subclasses are the constructors of
  \<open>SMFEventKind\<close>. A C++ constructor is a function returning the object and the
  diagnostics it logs; the virtual \<open>getBuffer\<close> is \<open>SMFEvent_getBuffer\<close>, which
  dispatches to one definition per class, each filling a fresh \<open>SMFBuffer\<close> through the
  writers of theory \<open>SMFBuffer\<close>. The result is an \<open>option\<close> because
  \<open>writeVarLen\<close> is. For the round-trip theorems the theory also holds a decoder of
  single events (spec sections 6 and 8) and the abstract MIDI messages it returns.
\<close>

unbundle bit_operations_syntax

section \<open>Event data\<close>

text \<open>The status and meta-type constants of \<open>SMFBase\<close> (declared in SMFEvent.h).\<close>

definition NOTE_ON :: c_int where "NOTE_ON = 0x90"
definition NOTE_OFF :: c_int where "NOTE_OFF = 0x80"
definition TRACK_NAME :: c_int where "TRACK_NAME = 0x03"

datatype SMFEventKind =
    SMFNoteOnEvent (m_nChannel: c_int) (m_nPitch: c_int) (m_nVelocity: c_int)
  | SMFNoteOffEvent (m_nChannel: c_int) (m_nPitch: c_int) (m_nVelocity: c_int)
  | SMFTrackNameMetaEvent (m_sTrackName: string)

record SMFEvent =
  m_nTicks :: c_unsigned
  m_nDeltaTime :: c_int
  m_kind :: SMFEventKind

text \<open>What \<^verbatim>\<open>errorLog\<close> receives: the message and the offending channel.\<close>

datatype diagnostic = ErrorLog string c_int

section \<open>Constructors\<close>

definition SMFEvent_ctor :: "c_unsigned \<Rightarrow> SMFEventKind \<Rightarrow> SMFEvent" where
  "SMFEvent_ctor nTicks k = \<lparr>m_nTicks = nTicks, m_nDeltaTime = -1, m_kind = k\<rparr>"

definition SMFTrackNameMetaEvent_ctor :: "string \<Rightarrow> c_unsigned \<Rightarrow> SMFEvent \<times> diagnostic list" where
  "SMFTrackNameMetaEvent_ctor sTrackName nTicks =
     ((SMFEvent_ctor nTicks (SMFTrackNameMetaEvent sTrackName))\<lparr>m_nDeltaTime := 0\<rparr>, [])"

definition SMFNoteOnEvent_ctor ::
  "c_unsigned \<Rightarrow> c_int \<Rightarrow> c_int \<Rightarrow> c_int \<Rightarrow> SMFEvent \<times> diagnostic list" where
  "SMFNoteOnEvent_ctor nTicks nChannel nPitch nVelocity =
     (SMFEvent_ctor nTicks (SMFNoteOnEvent nChannel nPitch nVelocity),
      if 16 \<le> sint nChannel then [ErrorLog ''[SMFNoteOnEvent] nChannel >= 16! nChannel='' nChannel] else [])"

definition SMFNoteOffEvent_ctor ::
  "c_unsigned \<Rightarrow> c_int \<Rightarrow> c_int \<Rightarrow> c_int \<Rightarrow> SMFEvent \<times> diagnostic list" where
  "SMFNoteOffEvent_ctor nTicks nChannel nPitch nVelocity =
     (SMFEvent_ctor nTicks (SMFNoteOffEvent nChannel nPitch nVelocity),
      if 16 \<le> sint nChannel then [ErrorLog ''[SMFNoteOffEvent] nChannel >= 16! nChannel='' nChannel] else [])"

section \<open>Serialisation\<close>

definition SMFTrackNameMetaEvent_getBuffer :: "c_int \<Rightarrow> string \<Rightarrow> byte list option" where
  "SMFTrackNameMetaEvent_getBuffer nDeltaTime sTrackName = do {
     buf \<leftarrow> writeVarLen SMFBuffer_empty (scast nDeltaTime);
     buf \<leftarrow> writeString (writeByte (writeByte buf 0xFF) (ucast TRACK_NAME)) sTrackName;
     Some (getBuffer buf)
   }"

definition SMFNoteOnEvent_getBuffer :: "c_int \<Rightarrow> c_int \<Rightarrow> c_int \<Rightarrow> c_int \<Rightarrow> byte list option" where
  "SMFNoteOnEvent_getBuffer nDeltaTime nChannel nPitch nVelocity = do {
     buf \<leftarrow> writeVarLen SMFBuffer_empty (scast nDeltaTime);
     Some (getBuffer (writeByte (writeByte (writeByte buf
       (ucast (NOTE_ON + nChannel))) (ucast nPitch)) (ucast nVelocity)))
   }"

definition SMFNoteOffEvent_getBuffer :: "c_int \<Rightarrow> c_int \<Rightarrow> c_int \<Rightarrow> c_int \<Rightarrow> byte list option" where
  "SMFNoteOffEvent_getBuffer nDeltaTime nChannel nPitch nVelocity = do {
     buf \<leftarrow> writeVarLen SMFBuffer_empty (scast nDeltaTime);
     Some (getBuffer (writeByte (writeByte (writeByte buf
       (ucast (NOTE_OFF + nChannel))) (ucast nPitch)) (ucast nVelocity)))
   }"

fun SMFEvent_getBuffer :: "SMFEvent \<Rightarrow> byte list option" where
  "SMFEvent_getBuffer e = (case m_kind e of
      SMFNoteOnEvent c p v \<Rightarrow> SMFNoteOnEvent_getBuffer (m_nDeltaTime e) c p v
    | SMFNoteOffEvent c p v \<Rightarrow> SMFNoteOffEvent_getBuffer (m_nDeltaTime e) c p v
    | SMFTrackNameMetaEvent s \<Rightarrow> SMFTrackNameMetaEvent_getBuffer (m_nDeltaTime e) s)"

section \<open>Decoding single events\<close>

text \<open>
  The MIDI messages an event stream denotes (spec section 3), with channel, key and
  velocity as numbers, and the decoder of one event: a delta-time, a status byte, then
  two data bytes below \<open>0x80\<close> for a note, or \<open>0xFF\<close>, a meta type and its payload.
\<close>

datatype midi_msg =
    MsgNoteOn nat nat nat
  | MsgNoteOff nat nat nat
  | MsgTrackName string
  | MsgEndOfTrack

definition parse_note :: "(nat \<Rightarrow> nat \<Rightarrow> nat \<Rightarrow> midi_msg) \<Rightarrow> byte \<Rightarrow> byte list \<Rightarrow> (midi_msg \<times> byte list) option" where
  "parse_note mk s bs = (case bs of
      p # v # rest \<Rightarrow>
        if unat p < 128 \<and> unat v < 128 then Some (mk (unat s mod 16) (unat p) (unat v), rest) else None
    | _ \<Rightarrow> None)"

definition parse_meta :: "byte list \<Rightarrow> (midi_msg \<times> byte list) option" where
  "parse_meta bs = (case bs of
      t # rest \<Rightarrow>
        if t = 0x03 then
          (case read_varlen_from 0 0 rest of
             None \<Rightarrow> None
           | Some (len, k) \<Rightarrow>
               if len \<le> length (drop k rest)
               then Some (MsgTrackName (map (\<lambda>b. char_of (unat b)) (take len (drop k rest))), drop len (drop k rest))
               else None)
        else if t = 0x2F then (case rest of b # rest' \<Rightarrow> if b = 0 then Some (MsgEndOfTrack, rest') else None | [] \<Rightarrow> None)
        else None
    | [] \<Rightarrow> None)"

definition parse_event :: "byte list \<Rightarrow> (nat \<times> midi_msg \<times> byte list) option" where
  "parse_event bs = (case read_varlen_from 0 0 bs of
      None \<Rightarrow> None
    | Some (delta, k) \<Rightarrow>
        (case drop k bs of
           [] \<Rightarrow> None
         | s # rest \<Rightarrow>
             map_option (\<lambda>(m, rest'). (delta, m, rest'))
               (if s = 0xFF then parse_meta rest
                else if unat s div 16 = 9 then parse_note MsgNoteOn s rest
                else if unat s div 16 = 8 then parse_note MsgNoteOff s rest
                else None)))"

text \<open>
  The message a well-formed event object stands for, and what well-formed means (spec
  section 4.3): an assigned delta-time, a channel in \<open>[0, 15]\<close>, key and velocity in
  \<open>[0, 127]\<close>, a track name of legal length.
\<close>

fun msg_of :: "SMFEventKind \<Rightarrow> midi_msg" where
  "msg_of (SMFNoteOnEvent c p v) = MsgNoteOn (unat c) (unat p) (unat v)"
| "msg_of (SMFNoteOffEvent c p v) = MsgNoteOff (unat c) (unat p) (unat v)"
| "msg_of (SMFTrackNameMetaEvent s) = MsgTrackName s"

definition valid_kind :: "SMFEventKind \<Rightarrow> bool" where
  "valid_kind k = (case k of
      SMFNoteOnEvent c p v \<Rightarrow>
        0 \<le> sint c \<and> sint c < 16 \<and> 0 \<le> sint p \<and> sint p < 128 \<and> 0 \<le> sint v \<and> sint v < 128
    | SMFNoteOffEvent c p v \<Rightarrow>
        0 \<le> sint c \<and> sint c < 16 \<and> 0 \<le> sint p \<and> sint p < 128 \<and> 0 \<le> sint v \<and> sint v < 128
    | SMFTrackNameMetaEvent s \<Rightarrow> length s < 2 ^ 28)"

definition valid_event :: "SMFEvent \<Rightarrow> bool" where
  "valid_event e \<longleftrightarrow> 0 \<le> sint (m_nDeltaTime e) \<and> valid_kind (m_kind e)"

section \<open>Bytes of each event class\<close>

lemma writeVarLen_delta:
  "0 \<le> sint (d :: c_int) \<Longrightarrow>
   writeVarLen buf (scast d) = Some (buf\<lparr>m_buffer := m_buffer buf @ vlq_encode (unat d)\<rparr>)"
proof -
  assume d: "0 \<le> sint d"
  have s: "sint (scast d :: c_long) = sint d" by (rule sint_up_scast) (simp add: is_up)
  have "sint d < 2 ^ 56" using sint_less[of d] by (rule less_le_trans) simp
  with d s show ?thesis by (simp add: writeVarLen_vlq unat_scast_int)
qed

lemma writeVarLen_delta_neg:
  "sint (d :: c_int) < 0 \<Longrightarrow>
   writeVarLen buf (scast d) = Some (buf\<lparr>m_buffer := m_buffer buf @ [ucast (scast d AND (0x7f :: c_long))]\<rparr>)"
proof -
  assume "sint d < 0"
  moreover have "sint (scast d :: c_long) = sint d" by (rule sint_up_scast) (simp add: is_up)
  ultimately show ?thesis by (simp add: writeVarLen_neg)
qed

lemma note_on_bytes:
  "0 \<le> sint d \<Longrightarrow> SMFNoteOnEvent_getBuffer d c p v =
     Some (vlq_encode (unat d) @ [ucast (NOTE_ON + c), ucast p, ucast v])"
  by (simp add: SMFNoteOnEvent_getBuffer_def writeVarLen_delta SMFBuffer_empty_def getBuffer_def)

lemma note_off_bytes:
  "0 \<le> sint d \<Longrightarrow> SMFNoteOffEvent_getBuffer d c p v =
     Some (vlq_encode (unat d) @ [ucast (NOTE_OFF + c), ucast p, ucast v])"
  by (simp add: SMFNoteOffEvent_getBuffer_def writeVarLen_delta SMFBuffer_empty_def getBuffer_def)

lemma track_name_bytes:
  "0 \<le> sint d \<Longrightarrow> length s < 2 ^ 32 \<Longrightarrow> SMFTrackNameMetaEvent_getBuffer d s =
     Some (vlq_encode (unat d) @ [0xFF, 0x03] @ vlq_encode (length s) @ map of_char s)"
  by (simp add: SMFTrackNameMetaEvent_getBuffer_def writeVarLen_delta SMFBuffer_empty_def
      getBuffer_def writeString_eq TRACK_NAME_def)

section \<open>Decoding what the classes write\<close>

lemma unat_small_int: "0 \<le> sint (c :: c_int) \<Longrightarrow> sint c < n \<Longrightarrow> unat c < nat n"
  by (metis sint_nonneg_eq_unat zless_nat_eq_int_zless)

lemma status_byte:
  assumes "0 \<le> sint (c :: c_int)" and "sint c < 16" and that: "unat base \<in> {0x80, 0x90}"
  shows "unat (ucast (base + c) :: byte) = unat base + unat c"
proof -
  have "unat c < 16" using unat_small_int[of c 16] assms by simp
  with that have "unat base + unat c < 256" by auto
  moreover have "unat (base + c) = unat base + unat c"
    using \<open>unat c < 16\<close> that by (intro unat_add_lem[THEN iffD1]) auto
  ultimately show ?thesis by simp
qed

lemma parse_note_bytes:
  assumes "0 \<le> sint (c :: c_int)" "sint c < 16" "0 \<le> sint (p :: c_int)" "sint p < 128" "0 \<le> sint (v :: c_int)" "sint v < 128"
    and "unat base \<in> {0x80, 0x90}"
  shows "parse_note mk (ucast (base + c)) (ucast p # ucast v # rest) = Some (mk (unat c) (unat p) (unat v), rest)"
proof -
  have "unat c < 16" "unat p < 128" "unat v < 128"
    using unat_small_int[of c 16] unat_small_int[of p 128] unat_small_int[of v 128] assms by simp_all
  moreover from this(1) have "(128 + unat c) mod 16 = unat c" "(144 + unat c) mod 16 = unat c"
    by presburger+
  ultimately show ?thesis
    using status_byte[OF assms(1,2) assms(7)] assms(7) by (auto simp: parse_note_def)
qed

lemma parse_event_vlq:
  "parse_event (vlq_encode n @ st # rest) =
     map_option (\<lambda>(m, rest'). (n, m, rest'))
       (if st = 0xFF then parse_meta rest
        else if unat st div 16 = 9 then parse_note MsgNoteOn st rest
        else if unat st div 16 = 8 then parse_note MsgNoteOff st rest
        else None)"
  by (simp add: parse_event_def read_varlen_from_vlq_encode)

lemma note_status:
  assumes "0 \<le> sint (c :: c_int)" "sint c < 16" "unat base \<in> {0x80, 0x90}"
  shows "(ucast (base + c) :: byte) \<noteq> 0xFF" "unat (ucast (base + c) :: byte) div 16 = unat base div 16"
proof -
  have u: "unat (ucast (base + c) :: byte) = unat base + unat c" by (rule status_byte[OF assms])
  have "unat c < 16" using unat_small_int[of c 16] assms by simp
  then have "unat base + unat c < 255" "(unat base + unat c) div 16 = unat base div 16"
    using assms(3) by auto
  then show "unat (ucast (base + c) :: byte) div 16 = unat base div 16" using u by simp
  show "(ucast (base + c) :: byte) \<noteq> 0xFF"
  proof
    assume "(ucast (base + c) :: byte) = 0xFF"
    then have "unat (ucast (base + c) :: byte) = 255" by simp
    with u \<open>unat base + unat c < 255\<close> show False by simp
  qed
qed

lemma note_on_roundtrip:
  assumes "0 \<le> sint d" "valid_kind (SMFNoteOnEvent c p v)"
  shows "parse_event (vlq_encode (unat d) @ [ucast (NOTE_ON + c), ucast p, ucast v] @ rest) =
    Some (unat d, MsgNoteOn (unat c) (unat p) (unat v), rest)"
proof -
  have b: "unat NOTE_ON \<in> {0x80, 0x90}" "unat NOTE_ON div 16 = 9" by (simp_all add: NOTE_ON_def)
  show ?thesis using assms note_status[OF _ _ b(1), of c] parse_note_bytes[OF _ _ _ _ _ _ b(1)]
    by (simp add: parse_event_vlq valid_kind_def b(2))
qed

lemma note_off_roundtrip:
  assumes "0 \<le> sint d" "valid_kind (SMFNoteOffEvent c p v)"
  shows "parse_event (vlq_encode (unat d) @ [ucast (NOTE_OFF + c), ucast p, ucast v] @ rest) =
    Some (unat d, MsgNoteOff (unat c) (unat p) (unat v), rest)"
proof -
  have b: "unat NOTE_OFF \<in> {0x80, 0x90}" "unat NOTE_OFF div 16 = 8" by (simp_all add: NOTE_OFF_def)
  show ?thesis using assms note_status[OF _ _ b(1), of c] parse_note_bytes[OF _ _ _ _ _ _ b(1)]
    by (simp add: parse_event_vlq valid_kind_def b(2))
qed

lemma track_name_roundtrip:
  "parse_event (vlq_encode n @ [0xFF, 0x03] @ vlq_encode (length s) @ map of_char s @ rest) =
    Some (n, MsgTrackName s, rest)"
proof -
  have "parse_meta (0x03 # vlq_encode (length s) @ map of_char s @ rest) = Some (MsgTrackName s, rest)"
    by (simp add: parse_meta_def read_varlen_from_vlq_encode comp_def)
  then show ?thesis by (simp add: parse_event_vlq)
qed

lemma sint_add_16:
  assumes "0 \<le> sint (ch :: c_int)" "sint ch < 16"
  shows "sint (ch + 16) = sint ch + 16"
proof -
  have "signed_take_bit 31 (sint ch + 16) = sint ch + 16"
    using assms by (intro signed_take_bit_int_eq_self) simp_all
  then show ?thesis by (simp add: sint_word_ariths)
qed

lemma note_off_shifted:
  "NOTE_OFF + (ch + 16) = NOTE_ON + ch"
  by (simp add: NOTE_OFF_def NOTE_ON_def)

lemma note_on_shifted:
  "NOTE_ON + (ch + 16) = 0xA0 + ch"
  by (simp add: NOTE_ON_def)

lemma valid_event_bytes:
  assumes "valid_event e"
  shows "\<exists>bs. SMFEvent_getBuffer e = Some bs \<and> bs \<noteq> [] \<and>
    (\<forall>rest. parse_event (bs @ rest) = Some (unat (m_nDeltaTime e), msg_of (m_kind e), rest))"
proof (cases "m_kind e")
  case (SMFNoteOnEvent c p v)
  then show ?thesis using assms note_on_roundtrip[of "m_nDeltaTime e" c p v]
    by (simp add: valid_event_def note_on_bytes)
next
  case (SMFNoteOffEvent c p v)
  then show ?thesis using assms note_off_roundtrip[of "m_nDeltaTime e" c p v]
    by (simp add: valid_event_def note_off_bytes)
next
  case (SMFTrackNameMetaEvent s)
  then have "length s < 2 ^ 32" using assms by (simp add: valid_event_def valid_kind_def)
  with SMFTrackNameMetaEvent show ?thesis using assms track_name_roundtrip[of "unat (m_nDeltaTime e)" s]
    by (simp add: valid_event_def track_name_bytes)
qed

section \<open>Properties of the event classes\<close>

text \<open>
  C9. Every well-formed event object serialises, and the decoder reads back its
  delta-time and its MIDI message and stops exactly at its last byte, whatever follows.
\<close>

theorem SMFEvent_roundtrip:
  assumes "valid_event e"
  shows "\<exists>bs. SMFEvent_getBuffer e = Some bs \<and>
    parse_event (bs @ rest) = Some (unat (m_nDeltaTime e), msg_of (m_kind e), rest)"
  using valid_event_bytes[OF assms] by blast

lemma SMFEvent_roundtrip_witness:
  "valid_event ((fst (SMFNoteOnEvent_ctor 0 0 60 100))\<lparr>m_nDeltaTime := 0\<rparr>) \<and>
   SMFEvent_getBuffer ((fst (SMFNoteOnEvent_ctor 0 0 60 100))\<lparr>m_nDeltaTime := 0\<rparr>) = Some [0, 0x90, 0x3C, 0x64] \<and>
   parse_event [0, 0x90, 0x3C, 0x64] = Some (0, MsgNoteOn 0 60 100, [])"
proof -
  have v: "valid_event ((fst (SMFNoteOnEvent_ctor 0 0 60 100))\<lparr>m_nDeltaTime := 0\<rparr>)"
    by (simp add: valid_event_def valid_kind_def SMFNoteOnEvent_ctor_def SMFEvent_ctor_def)
  have b: "SMFEvent_getBuffer ((fst (SMFNoteOnEvent_ctor 0 0 60 100))\<lparr>m_nDeltaTime := 0\<rparr>) = Some [0, 0x90, 0x3C, 0x64]"
    by (simp add: SMFNoteOnEvent_ctor_def SMFEvent_ctor_def SMFNoteOnEvent_getBuffer_def NOTE_ON_def smf_eval)
  show ?thesis using SMFEvent_roundtrip[OF v, of "[]"] v b
    by (simp add: SMFNoteOnEvent_ctor_def SMFEvent_ctor_def)
qed

text \<open>
  C10. A channel of 16 or more is only logged: a note on channel \<open>ch + 16\<close>
  (\<open>0 \<le> ch < 16\<close>) logs its diagnostic and is still built, and the status byte wraps
  into the adjacent range. A note-off is written as a note-on on channel \<open>ch\<close>
  (\<open>0x80 + ch + 16 = 0x90 + ch\<close>) and decodes as one; a note-on gets status
  \<open>0xA0 + ch\<close>, polyphonic key pressure. The spec (sections 4.3 and 8) forbids exactly
  this wrap; its example, a note-on on channel 16, gets status \<open>0xA0\<close>.
\<close>

theorem note_off_channel_overflow:
  assumes "valid_kind (SMFNoteOnEvent ch p v)"
  shows "snd (SMFNoteOffEvent_ctor t (ch + 16) p v) \<noteq> [] \<and>
    (\<exists>bs. SMFEvent_getBuffer ((fst (SMFNoteOffEvent_ctor t (ch + 16) p v))\<lparr>m_nDeltaTime := 0\<rparr>) = Some bs \<and>
      parse_event bs = Some (0, MsgNoteOn (unat ch) (unat p) (unat v), [])) \<and>
    snd (SMFNoteOnEvent_ctor t (ch + 16) p v) \<noteq> [] \<and>
    SMFEvent_getBuffer ((fst (SMFNoteOnEvent_ctor t (ch + 16) p v))\<lparr>m_nDeltaTime := 0\<rparr>) =
      Some [0x00, ucast (0xA0 + ch), ucast p, ucast v]"
proof -
  have c: "0 \<le> sint ch" "sint ch < 16" using assms by (simp_all add: valid_kind_def)
  have "SMFNoteOffEvent_getBuffer 0 (ch + 16) p v = Some (vlq_encode 0 @ [ucast (NOTE_ON + ch), ucast p, ucast v])"
    by (simp add: note_off_bytes note_off_shifted)
  moreover have "parse_event (vlq_encode 0 @ [ucast (NOTE_ON + ch), ucast p, ucast v] @ []) =
      Some (0, MsgNoteOn (unat ch) (unat p) (unat v), [])"
    using note_on_roundtrip[of "0 :: c_int" ch p v "[]"] assms by simp
  moreover have "SMFNoteOnEvent_getBuffer 0 (ch + 16) p v = Some [0x00, ucast (0xA0 + ch), ucast p, ucast v]"
    by (simp add: note_on_bytes note_on_shifted vlq_encode_def vlq_last_def)
  ultimately show ?thesis
    using c by (simp add: SMFNoteOffEvent_ctor_def SMFNoteOnEvent_ctor_def SMFEvent_ctor_def sint_add_16[OF c])
qed

lemma note_off_channel_overflow_witness:
  "valid_kind (SMFNoteOnEvent 0 60 100) \<and>
   snd (SMFNoteOffEvent_ctor 96 16 60 100) = [ErrorLog ''[SMFNoteOffEvent] nChannel >= 16! nChannel='' 16] \<and>
   SMFEvent_getBuffer ((fst (SMFNoteOffEvent_ctor 96 16 60 100))\<lparr>m_nDeltaTime := 0\<rparr>) = Some [0x00, 0x90, 0x3C, 0x64] \<and>
   parse_event [0x00, 0x90, 0x3C, 0x64] = Some (0, MsgNoteOn 0 60 100, []) \<and>
   snd (SMFNoteOnEvent_ctor 0 16 60 100) = [ErrorLog ''[SMFNoteOnEvent] nChannel >= 16! nChannel='' 16] \<and>
   SMFEvent_getBuffer ((fst (SMFNoteOnEvent_ctor 0 16 60 100))\<lparr>m_nDeltaTime := 0\<rparr>) = Some [0x00, 0xA0, 0x3C, 0x64]"
proof -
  have v: "valid_kind (SMFNoteOnEvent 0 60 100)" by (simp add: valid_kind_def)
  show ?thesis using note_off_channel_overflow[OF v, of 96] note_off_channel_overflow[OF v, of 0] v
    by (simp add: SMFNoteOffEvent_ctor_def SMFNoteOnEvent_ctor_def SMFEvent_ctor_def SMFNoteOffEvent_getBuffer_def NOTE_OFF_def smf_eval)
qed

text \<open>
  C12. An event whose delta-time was never assigned is not refused: a note-on straight
  from its constructor carries the \<open>-1\<close> of the base constructor, which the
  variable-length writer turns into the single byte \<open>0x7F\<close>, a delta of 127 ticks.
  The spec (section 3) requires serialisation to fail on an unassigned delta-time.
\<close>

theorem unassigned_delta_written:
  "SMFEvent_getBuffer (fst (SMFNoteOnEvent_ctor t c p v)) =
     Some [0x7F, ucast (NOTE_ON + c), ucast p, ucast v]"
proof -
  have "writeVarLen SMFBuffer_empty (scast (-1 :: c_int)) = Some \<lparr>m_buffer = [0x7F]\<rparr>"
    using writeVarLen_delta_neg[of "-1 :: c_int" SMFBuffer_empty] by (simp add: SMFBuffer_empty_def)
  then show ?thesis
    by (simp add: SMFNoteOnEvent_ctor_def SMFEvent_ctor_def SMFNoteOnEvent_getBuffer_def getBuffer_def)
qed

text \<open>
  C14. Serialisation returns on every event, whatever its delta-time (assigned or not, it
  is an \<open>int\<close>), except exactly on a track name of \<open>2^32\<close> characters or more, where
  the character loop of \<open>writeString\<close> never ends.
\<close>

theorem SMFEvent_getBuffer_total:
  "SMFEvent_getBuffer e = None \<longleftrightarrow>
     (case m_kind e of SMFTrackNameMetaEvent s \<Rightarrow> 2 ^ 32 \<le> length s | _ \<Rightarrow> False)"
proof -
  obtain bs where w: "writeVarLen SMFBuffer_empty (scast (m_nDeltaTime e)) = Some \<lparr>m_buffer = bs\<rparr>"
    using writeVarLen_int[of SMFBuffer_empty "m_nDeltaTime e"] by (auto simp: SMFBuffer_empty_def)
  show ?thesis
  proof (cases "m_kind e")
    case (SMFTrackNameMetaEvent s)
    with w show ?thesis
      by (cases "length s < 2 ^ 32") (simp_all add: SMFTrackNameMetaEvent_getBuffer_def writeString_eq writeString_long)
  qed (use w in \<open>simp_all add: SMFNoteOnEvent_getBuffer_def SMFNoteOffEvent_getBuffer_def\<close>)
qed

end
