(* ===== verification/SMFTrack.thy ===== *)
theory SMFTrack
  imports SMFEvent
begin

text \<open>
  The track and file writer of the SMF export. Its code (\<open>SMFTrack\<close>, \<open>SMFWriter\<close>)
  is not among the sources, so this theory follows spec section 4.4, built on the modelled
  event classes and buffer writers: \<open>assign_deltas\<close> turns absolute ticks into
  delta-times (an \<open>OrderingViolation\<close> when a tick decreases, an
  \<open>EncodingRangeError\<close> for a delta of \<open>2^28\<close> or more or an event outside the
  format's ranges), \<open>track_body\<close> serialises the events with \<open>SMFEvent_getBuffer\<close>
  and appends the end-of-track event, \<open>track_chunk\<close> and \<open>smf_header\<close> frame the
  bytes with \<open>writeDWord\<close> and \<open>writeWord\<close>, and \<open>smf_file\<close> assembles a file.
  The results are options because \<open>getBuffer\<close> is: \<open>None\<close> is a serialisation that
  never returns. A parser of tracks and files is the contract for the round-trip theorems.
\<close>

section \<open>Delta-times\<close>

datatype smf_error = OrderingViolation nat | EncodingRangeError nat

text \<open>
  Step 1 of spec section 4.4: \<open>delta[0] = tick[0]\<close>, \<open>delta[i] = tick[i] - tick[i-1]\<close>;
  a track name keeps the delta-time 0 its constructor gave it (spec section 4.3). \<open>i\<close> is
  the index of the event, \<open>prev\<close> the tick of the one before.
\<close>

fun assign_deltas :: "nat \<Rightarrow> nat \<Rightarrow> SMFEvent list \<Rightarrow> smf_error + SMFEvent list" where
  "assign_deltas i prev [] = Inr []"
| "assign_deltas i prev (e # es) =
     (let t = unat (m_nTicks e) in
      if t < prev then Inl (OrderingViolation i)
      else if 2 ^ 28 \<le> t - prev \<or> \<not> valid_kind (m_kind e) then Inl (EncodingRangeError i)
      else
        (let d = (case m_kind e of SMFTrackNameMetaEvent _ \<Rightarrow> 0 | _ \<Rightarrow> t - prev) in
         case assign_deltas (Suc i) t es of
           Inl err \<Rightarrow> Inl err
         | Inr es' \<Rightarrow> Inr (e\<lparr>m_nDeltaTime := word_of_nat d\<rparr> # es')))"

section \<open>Track and file bytes\<close>

text \<open>The synthesised end-of-track event: delta 0, \<open>0xFF\<close>, type \<open>0x2F\<close>, length 0.\<close>

definition EOT_bytes :: "byte list" where
  "EOT_bytes = [0x00, 0xFF, 0x2F, 0x00]"

text \<open>Steps 2 and 3: the events' bytes in order, then the end-of-track event.\<close>

definition track_body :: "SMFEvent list \<Rightarrow> (smf_error + byte list) option" where
  "track_body evs = (case assign_deltas 0 0 evs of
      Inl err \<Rightarrow> Some (Inl err)
    | Inr es \<Rightarrow> map_option (\<lambda>bss. Inr (concat bss @ EOT_bytes)) (those (map SMFEvent_getBuffer es)))"

text \<open>Step 4: \<open>MTrk\<close> and the body length, written big-endian into a scratch buffer.\<close>

definition track_chunk :: "byte list \<Rightarrow> byte list" where
  "track_chunk body =
     getBuffer (writeDWord (writeDWord SMFBuffer_empty 0x4D54726B) (word_of_nat (length body))) @ body"

text \<open>Step 5: \<open>MThd\<close>, the length 6, format, track count and division.\<close>

definition smf_header :: "c_int \<Rightarrow> c_int \<Rightarrow> c_int \<Rightarrow> byte list" where
  "smf_header format ntracks division =
     getBuffer (writeWord (writeWord (writeWord (writeDWord (writeDWord SMFBuffer_empty 0x4D546864) 6)
       format) ntracks) division)"

fun seq_results :: "('e + 'a) list \<Rightarrow> 'e + 'a list" where
  "seq_results [] = Inr []"
| "seq_results (Inl err # _) = Inl err"
| "seq_results (Inr x # rs) = (case seq_results rs of Inl err \<Rightarrow> Inl err | Inr xs \<Rightarrow> Inr (x # xs))"

definition smf_file :: "c_int \<Rightarrow> c_int \<Rightarrow> SMFEvent list list \<Rightarrow> (smf_error + byte list) option" where
  "smf_file format division tracks = map_option
     (\<lambda>rs. case seq_results rs of
        Inl err \<Rightarrow> Inl err
      | Inr bodies \<Rightarrow> Inr (smf_header format (word_of_nat (length tracks)) division @ concat (map track_chunk bodies)))
     (those (map track_body tracks))"

section \<open>Reading tracks and files\<close>

text \<open>Events up to the end-of-track event, which must end the body.\<close>

function parse_track_events :: "byte list \<Rightarrow> (nat \<times> midi_msg) list option" where
  "parse_track_events bs = (case parse_event bs of
      None \<Rightarrow> None
    | Some (d, MsgEndOfTrack, rest) \<Rightarrow> if rest = [] then Some [] else None
    | Some (d, m, rest) \<Rightarrow>
        if length rest < length bs then map_option (Cons (d, m)) (parse_track_events rest) else None)"
  by pat_completeness auto
termination
  by (relation "measure length") auto

declare parse_track_events.simps [simp del]

definition parse_chunk :: "byte list \<Rightarrow> byte list \<Rightarrow> (byte list \<times> byte list) option" where
  "parse_chunk tag bs =
     (if 8 \<le> length bs \<and> take 4 bs = tag then
        (let len = be_nat (take 4 (drop 4 bs)); rest = drop 8 bs in
         if len \<le> length rest then Some (take len rest, drop len rest) else None)
      else None)"

definition MTrk :: "byte list" where "MTrk = [0x4D, 0x54, 0x72, 0x6B]"
definition MThd :: "byte list" where "MThd = [0x4D, 0x54, 0x68, 0x64]"

fun parse_tracks :: "nat \<Rightarrow> byte list \<Rightarrow> (nat \<times> midi_msg) list list option" where
  "parse_tracks 0 bs = (if bs = [] then Some [] else None)"
| "parse_tracks (Suc n) bs = do {
     (body, rest) \<leftarrow> parse_chunk MTrk bs;
     evs \<leftarrow> parse_track_events body;
     trs \<leftarrow> parse_tracks n rest;
     Some (evs # trs)
   }"

definition parse_file :: "byte list \<Rightarrow> (nat \<times> nat \<times> (nat \<times> midi_msg) list list) option" where
  "parse_file bs = do {
     (hdr, rest) \<leftarrow> parse_chunk MThd bs;
     if length hdr = 6 then do {
       trs \<leftarrow> parse_tracks (be_nat (take 2 (drop 2 hdr))) rest;
       Some (be_nat (take 2 hdr), be_nat (drop 4 hdr), trs)
     } else None
   }"

section \<open>What a track denotes\<close>

text \<open>
  The contract: the delta-times the spec prescribes, paired with the events' messages.
\<close>

fun track_spec :: "nat \<Rightarrow> SMFEvent list \<Rightarrow> (nat \<times> midi_msg) list" where
  "track_spec prev [] = []"
| "track_spec prev (e # es) =
     (let t = unat (m_nTicks e) in
      ((case m_kind e of SMFTrackNameMetaEvent _ \<Rightarrow> 0 | _ \<Rightarrow> t - prev), msg_of (m_kind e)) # track_spec t es)"

text \<open>A track the writer accepts: ticks in order, gaps below \<open>2^28\<close>, events in range.\<close>

fun track_ok :: "nat \<Rightarrow> SMFEvent list \<Rightarrow> bool" where
  "track_ok prev [] = True"
| "track_ok prev (e # es) =
     (let t = unat (m_nTicks e) in prev \<le> t \<and> t - prev < 2 ^ 28 \<and> valid_kind (m_kind e) \<and> track_ok t es)"

text \<open>
  The size contract of spec section 6: an event takes its delta-time's quantity and its
  message bytes (status and two data bytes, or \<open>0xFF\<close>, type, length quantity and
  text); a body adds the four bytes of end-of-track.
\<close>

fun msg_size :: "midi_msg \<Rightarrow> nat" where
  "msg_size (MsgNoteOn c p v) = 3"
| "msg_size (MsgNoteOff c p v) = 3"
| "msg_size (MsgTrackName s) = 2 + length (vlq_encode (length s)) + length s"
| "msg_size MsgEndOfTrack = 3"

definition track_size :: "SMFEvent list \<Rightarrow> nat" where
  "track_size evs =
     sum_list (map (\<lambda>(d, m). length (vlq_encode d) + msg_size m) (track_spec 0 evs)) + length EOT_bytes"

section \<open>Delta assignment\<close>

lemma small_delta_int:
  assumes "d < 2 ^ 28"
  shows "0 \<le> sint (word_of_nat d :: c_int)" "unat (word_of_nat d :: c_int) = d"
proof -
  have "\<not> bit d 31" using bit_small_nat[of d 28 31] assms by simp
  then have "\<not> bit (word_of_nat d :: c_int) 31" by (simp add: bit_of_nat_iff)
  then show "0 \<le> sint (word_of_nat d :: c_int)" using bit_last_iff[of "word_of_nat d :: c_int"] by simp
  show "unat (word_of_nat d :: c_int) = d" using assms by (simp add: unat_of_nat)
qed

lemma assign_deltas_ok:
  assumes "track_ok prev evs"
  shows "\<exists>es. assign_deltas i prev evs = Inr es \<and> list_all valid_event es \<and>
    map (\<lambda>e. (unat (m_nDeltaTime e), msg_of (m_kind e))) es = track_spec prev evs"
  using assms
proof (induction evs arbitrary: i prev)
  case Nil
  then show ?case by simp
next
  case (Cons e es)
  let ?t = "unat (m_nTicks e)"
  let ?d = "case m_kind e of SMFTrackNameMetaEvent _ \<Rightarrow> 0 | _ \<Rightarrow> ?t - prev"
  have ok: "prev \<le> ?t" "?t - prev < 2 ^ 28" "valid_kind (m_kind e)" "track_ok ?t es"
    using Cons.prems by (simp_all add: Let_def)
  obtain es' where es': "assign_deltas (Suc i) ?t es = Inr es'" "list_all valid_event es'"
    "map (\<lambda>e. (unat (m_nDeltaTime e), msg_of (m_kind e))) es' = track_spec ?t es"
    using Cons.IH[OF ok(4)] by blast
  have "?d < 2 ^ 28" using ok(2) by (simp split: SMFEventKind.split)
  note d = small_delta_int[OF this]
  have "valid_event (e\<lparr>m_nDeltaTime := word_of_nat ?d\<rparr>)" using ok(3) d(1) by (simp add: valid_event_def)
  with ok es' d show ?case by (simp add: Let_def not_less)
qed

section \<open>Reading back a track body\<close>

lemma msg_of_not_EOT [simp]: "msg_of k \<noteq> MsgEndOfTrack"
  by (cases k) simp_all

lemma parse_event_EOT: "parse_event EOT_bytes = Some (0, MsgEndOfTrack, [])"
  by (simp add: EOT_bytes_def parse_event_def parse_meta_def)

lemma parse_track_events_EOT: "parse_track_events EOT_bytes = Some []"
  by (simp add: parse_track_events.simps[of EOT_bytes] parse_event_EOT)

lemma parse_track_events_cons:
  assumes "bs \<noteq> []" "parse_event (bs @ rest) = Some (d, m, rest)" "m \<noteq> MsgEndOfTrack"
  shows "parse_track_events (bs @ rest) = map_option (Cons (d, m)) (parse_track_events rest)"
proof -
  have "length rest < length (bs @ rest)" using assms(1) by simp
  with assms(2,3) show ?thesis
    by (subst parse_track_events.simps) (cases m; simp)
qed

lemma track_events_roundtrip:
  assumes "list_all valid_event es"
  shows "\<exists>bss. those (map SMFEvent_getBuffer es) = Some bss \<and>
    parse_track_events (concat bss @ EOT_bytes) = Some (map (\<lambda>e. (unat (m_nDeltaTime e), msg_of (m_kind e))) es)"
  using assms
proof (induction es)
  case Nil
  then show ?case by (simp add: parse_track_events_EOT)
next
  case (Cons e es)
  then obtain bss where bss: "those (map SMFEvent_getBuffer es) = Some bss"
    "parse_track_events (concat bss @ EOT_bytes) = Some (map (\<lambda>e. (unat (m_nDeltaTime e), msg_of (m_kind e))) es)"
    by (auto simp del: SMFEvent_getBuffer.simps)
  obtain bs where bs: "SMFEvent_getBuffer e = Some bs" "bs \<noteq> []"
    "\<And>rest. parse_event (bs @ rest) = Some (unat (m_nDeltaTime e), msg_of (m_kind e), rest)"
    using valid_event_bytes Cons.prems by (auto simp del: SMFEvent_getBuffer.simps)
  have "parse_track_events (bs @ concat bss @ EOT_bytes) =
      map_option (Cons (unat (m_nDeltaTime e), msg_of (m_kind e))) (parse_track_events (concat bss @ EOT_bytes))"
    by (rule parse_track_events_cons[OF bs(2) bs(3)]) simp
  with bs bss show ?case by (intro exI[of _ "bs # bss"]) (simp del: SMFEvent_getBuffer.simps)
qed

lemma track_body_ok:
  assumes "track_ok 0 evs"
  shows "\<exists>body. track_body evs = Some (Inr body) \<and> parse_track_events body = Some (track_spec 0 evs)"
proof -
  obtain es where es: "assign_deltas 0 0 evs = Inr es" "list_all valid_event es"
    "map (\<lambda>e. (unat (m_nDeltaTime e), msg_of (m_kind e))) es = track_spec 0 evs"
    using assign_deltas_ok[OF assms] by blast
  obtain bss where "those (map SMFEvent_getBuffer es) = Some bss"
    "parse_track_events (concat bss @ EOT_bytes) = Some (track_spec 0 evs)"
    using track_events_roundtrip[OF es(2)] es(3) by auto
  with es(1) show ?thesis by (simp add: track_body_def)
qed

section \<open>Sizes\<close>

lemma event_length:
  assumes "valid_event e" "SMFEvent_getBuffer e = Some bs"
  shows "length bs = length (vlq_encode (unat (m_nDeltaTime e))) + msg_size (msg_of (m_kind e))"
proof (cases "m_kind e")
  case (SMFTrackNameMetaEvent s)
  then have "length s < 2 ^ 32" using assms(1) by (simp add: valid_event_def valid_kind_def)
  with SMFTrackNameMetaEvent assms show ?thesis by (auto simp: valid_event_def track_name_bytes)
qed (use assms in \<open>auto simp: valid_event_def note_on_bytes note_off_bytes\<close>)

lemma events_length:
  assumes "list_all valid_event es" "those (map SMFEvent_getBuffer es) = Some bss"
  shows "length (concat bss) =
    sum_list (map (\<lambda>(d, m). length (vlq_encode d) + msg_size m) (map (\<lambda>e. (unat (m_nDeltaTime e), msg_of (m_kind e))) es))"
  using assms
proof (induction es arbitrary: bss)
  case (Cons e es)
  then obtain bs bss' where b: "SMFEvent_getBuffer e = Some bs" "those (map SMFEvent_getBuffer es) = Some bss'"
    "bss = bs # bss'" by (auto simp del: SMFEvent_getBuffer.simps split: option.splits)
  with Cons event_length[of e bs] show ?case by (simp del: SMFEvent_getBuffer.simps)
qed simp

lemma track_body_length:
  assumes "track_ok 0 evs"
  shows "\<exists>body. track_body evs = Some (Inr body) \<and> length body = track_size evs"
proof -
  obtain es where es: "assign_deltas 0 0 evs = Inr es" "list_all valid_event es"
    "map (\<lambda>e. (unat (m_nDeltaTime e), msg_of (m_kind e))) es = track_spec 0 evs"
    using assign_deltas_ok[OF assms] by blast
  obtain bss where bss: "those (map SMFEvent_getBuffer es) = Some bss"
    using track_events_roundtrip[OF es(2)] by blast
  show ?thesis using events_length[OF es(2) bss] es(1,3) bss by (simp add: track_body_def track_size_def)
qed

lemma track_spec_size_le:
  "track_ok prev evs \<Longrightarrow> sum_list (map (\<lambda>(d, m). length (vlq_encode d) + msg_size m) (track_spec prev evs)) \<le>
    sum_list (map (\<lambda>e. case m_kind e of SMFTrackNameMetaEvent s \<Rightarrow> 10 + length s | _ \<Rightarrow> 7) evs)"
proof (induction prev evs rule: track_spec.induct)
  case (2 prev e es)
  let ?t = "unat (m_nTicks e)"
  have d: "length (vlq_encode (case m_kind e of SMFTrackNameMetaEvent _ \<Rightarrow> 0 | _ \<Rightarrow> ?t - prev)) \<le> 4"
    using 2(2) length_vlq_encode_le[of 4] by (simp add: Let_def split: SMFEventKind.split)
  have m: "msg_size (msg_of (m_kind e)) \<le> (case m_kind e of SMFTrackNameMetaEvent s \<Rightarrow> 6 + length s | _ \<Rightarrow> 3)"
    using 2(2) length_vlq_encode_le[of 4] by (cases "m_kind e") (simp_all add: Let_def valid_kind_def)
  have "track_ok ?t es" using 2(2) by (simp add: Let_def)
  with 2(1) d m show ?case by (simp add: Let_def split: SMFEventKind.splits)
qed simp

section \<open>Errors of the track writer\<close>

lemma assign_deltas_Inr_ok: "assign_deltas i prev evs = Inr es \<Longrightarrow> track_ok prev evs"
  by (induction i prev evs arbitrary: es rule: assign_deltas.induct)
    (auto simp: Let_def split: if_splits sum.splits)

lemma track_body_Inl: "track_body evs = Some (Inl err) \<longleftrightarrow> assign_deltas 0 0 evs = Inl err"
  by (auto simp: track_body_def split: sum.split)

lemma track_body_Inr: "(\<exists>body. track_body evs = Some (Inr body)) \<longleftrightarrow> track_ok 0 evs"
  using track_body_ok[of evs] assign_deltas_Inr_ok[of 0 0 evs]
  by (auto simp: track_body_def split: sum.splits)

text \<open>The track writer always returns: the ranges it checks make every event serialisable.\<close>

lemma track_body_Some: "\<exists>r. track_body evs = Some r"
proof (cases "assign_deltas 0 0 evs")
  case (Inr es)
  then show ?thesis using track_body_Inr[of evs] assign_deltas_Inr_ok[OF Inr] by blast
qed (simp add: track_body_def)

lemma those_track_body: "those (map track_body tracks) = Some (map (\<lambda>evs. the (track_body evs)) tracks)"
proof (induction tracks)
  case (Cons evs tracks)
  obtain r where "track_body evs = Some r" using track_body_Some by blast
  with Cons show ?case by simp
qed simp

lemma seq_results_Inl:
  "seq_results (map g xs) = Inl err \<longleftrightarrow>
     (\<exists>pre x post. xs = pre @ x # post \<and> (\<forall>y\<in>set pre. \<exists>v. g y = Inr v) \<and> g x = Inl err)"
proof (induction xs)
  case (Cons a xs)
  show ?case
  proof (cases "g a")
    case (Inl e)
    then show ?thesis by (auto simp: Cons_eq_append_conv intro!: exI[of _ "[]"])
  next
    case (Inr v)
    then have "seq_results (map g (a # xs)) = Inl err \<longleftrightarrow> seq_results (map g xs) = Inl err"
      by (simp split: sum.split)
    also have "\<dots> \<longleftrightarrow> (\<exists>pre x post. a # xs = pre @ x # post \<and> (\<forall>y\<in>set pre. \<exists>v. g y = Inr v) \<and> g x = Inl err)"
      (is "_ \<longleftrightarrow> ?R")
    proof
      assume "seq_results (map g xs) = Inl err"
      then obtain pre x post where "xs = pre @ x # post" "\<forall>y\<in>set pre. \<exists>v. g y = Inr v" "g x = Inl err"
        using Cons.IH by blast
      with Inr show ?R by (intro exI[of _ "a # pre"] exI[of _ x] exI[of _ post]) auto
    next
      assume ?R
      then obtain pre x post where p: "a # xs = pre @ x # post" "\<forall>y\<in>set pre. \<exists>v. g y = Inr v" "g x = Inl err"
        by blast
      with Inr obtain pre' where "pre = a # pre'" by (cases pre) auto
      with p show "seq_results (map g xs) = Inl err" using Cons.IH by auto
    qed
    finally show ?thesis .
  qed
qed simp

section \<open>Chunks and files\<close>

lemma writeDWord_MTrk: "writeDWord SMFBuffer_empty 0x4D54726B = \<lparr>m_buffer = MTrk\<rparr>"
  by (simp add: writeDWord_def smf_eval MTrk_def)

lemma writeDWord_MThd: "writeDWord (writeDWord SMFBuffer_empty 0x4D546864) 6 = \<lparr>m_buffer = MThd @ [0, 0, 0, 6]\<rparr>"
  by (simp add: writeDWord_def smf_eval MThd_def)

lemma track_chunk_eq:
  assumes "length body < 2 ^ 32"
  shows "\<exists>hb. track_chunk body = MTrk @ hb @ body \<and> length hb = 4 \<and> be_nat hb = length body"
proof -
  obtain hb where "writeDWord \<lparr>m_buffer = MTrk\<rparr> (word_of_nat (length body)) = \<lparr>m_buffer = MTrk @ hb\<rparr>"
    "length hb = 4" "be_nat hb = unat (word_of_nat (length body) :: c_long) mod 2 ^ 32"
    using writeDWord_bytes[of "\<lparr>m_buffer = MTrk\<rparr>" "word_of_nat (length body)"] by auto
  moreover have "unat (word_of_nat (length body) :: c_long) mod 2 ^ 32 = length body"
    using assms by (simp add: unat_of_nat)
  ultimately show ?thesis by (simp add: track_chunk_def writeDWord_MTrk getBuffer_def)
qed

lemma parse_chunk_eq:
  "length tag = 4 \<Longrightarrow> length hb = 4 \<Longrightarrow> be_nat hb = length body \<Longrightarrow>
   parse_chunk tag (tag @ hb @ body @ rest) = Some (body, rest)"
  by (simp add: parse_chunk_def)

lemma parse_tracks_chunks:
  assumes "\<forall>b\<in>set bodies. length b < 2 ^ 32"
  shows "parse_tracks (length bodies) (concat (map track_chunk bodies)) = those (map parse_track_events bodies)"
  using assms
proof (induction bodies)
  case Nil
  then show ?case by simp
next
  case (Cons b bodies)
  obtain hb where "track_chunk b = MTrk @ hb @ b" "length hb = 4" "be_nat hb = length b"
    using track_chunk_eq Cons.prems by auto
  then have "parse_chunk MTrk (track_chunk b @ concat (map track_chunk bodies)) = Some (b, concat (map track_chunk bodies))"
    using parse_chunk_eq[of MTrk hb b "concat (map track_chunk bodies)"] by (simp add: MTrk_def)
  with Cons show ?case by (auto split: option.split simp: map_option_case)
qed

lemma smf_header_eq:
  "\<exists>f n d. smf_header format ntracks division = MThd @ [0, 0, 0, 6] @ f @ n @ d \<and>
     length f = 2 \<and> length n = 2 \<and> length d = 2 \<and> be_nat f = unat format mod 2 ^ 16 \<and>
     be_nat n = unat ntracks mod 2 ^ 16 \<and> be_nat d = unat division mod 2 ^ 16"
proof -
  let ?b0 = "writeDWord (writeDWord SMFBuffer_empty 0x4D546864) 6"
  obtain f where f: "writeWord ?b0 format = ?b0\<lparr>m_buffer := m_buffer ?b0 @ f\<rparr>" "length f = 2"
    "be_nat f = unat format mod 2 ^ 16" using writeWord_bytes by blast
  obtain n where n: "writeWord (writeWord ?b0 format) ntracks =
      (writeWord ?b0 format)\<lparr>m_buffer := m_buffer (writeWord ?b0 format) @ n\<rparr>" "length n = 2"
    "be_nat n = unat ntracks mod 2 ^ 16" using writeWord_bytes by blast
  obtain d where d: "writeWord (writeWord (writeWord ?b0 format) ntracks) division =
      (writeWord (writeWord ?b0 format) ntracks)\<lparr>m_buffer := m_buffer (writeWord (writeWord ?b0 format) ntracks) @ d\<rparr>"
    "length d = 2" "be_nat d = unat division mod 2 ^ 16" using writeWord_bytes by blast
  show ?thesis using f n d
    by (intro exI[of _ f] exI[of _ n] exI[of _ d]) (simp add: smf_header_def getBuffer_def writeDWord_MThd)
qed

lemma seq_results_Inr [simp]: "seq_results (map Inr xs) = Inr xs"
  by (induction xs) simp_all

lemma track_bodies_ok:
  assumes "list_all (track_ok 0) tracks"
    and "\<forall>evs\<in>set tracks. \<forall>body. track_body evs = Some (Inr body) \<longrightarrow> length body < 2 ^ 32"
  shows "\<exists>bodies. those (map track_body tracks) = Some (map Inr bodies) \<and> length bodies = length tracks \<and>
    those (map parse_track_events bodies) = Some (map (track_spec 0) tracks) \<and> (\<forall>b\<in>set bodies. length b < 2 ^ 32)"
  using assms
proof (induction tracks)
  case Nil
  then show ?case by simp
next
  case (Cons evs tracks)
  obtain body where b: "track_body evs = Some (Inr body)" "parse_track_events body = Some (track_spec 0 evs)"
    using track_body_ok Cons.prems(1) by auto
  obtain bodies where "those (map track_body tracks) = Some (map Inr bodies)" "length bodies = length tracks"
    "those (map parse_track_events bodies) = Some (map (track_spec 0) tracks)" "\<forall>b\<in>set bodies. length b < 2 ^ 32"
    using Cons by auto
  with b Cons.prems(2) show ?case by (intro exI[of _ "body # bodies"]) auto
qed

lemma track_size_bodies:
  "list_all (track_ok 0) tracks \<Longrightarrow> \<forall>evs\<in>set tracks. track_size evs < 2 ^ 32 \<Longrightarrow>
     \<forall>evs\<in>set tracks. \<forall>body. track_body evs = Some (Inr body) \<longrightarrow> length body < 2 ^ 32"
  using track_body_length by (fastforce simp: list_all_iff)

lemma those_track_body_Inr:
  "those (map track_body tracks) = Some (map Inr bodies) \<Longrightarrow> b \<in> set bodies \<Longrightarrow>
     \<exists>evs\<in>set tracks. track_body evs = Some (Inr b)"
proof (induction tracks arbitrary: bodies)
  case (Cons evs tracks)
  then obtain r rs where "track_body evs = Some r" "those (map track_body tracks) = Some rs"
    "map Inr bodies = r # rs" by (auto split: option.splits)
  moreover from this(3) obtain b0 bs where "bodies = b0 # bs" "r = Inr b0" "rs = map Inr bs" by auto
  ultimately show ?case using Cons by auto
qed simp

lemma parse_file_eq:
  assumes "length bodies < 2 ^ 16" "\<forall>b\<in>set bodies. length b < 2 ^ 32"
  shows "parse_file (smf_header format (word_of_nat (length bodies)) division @ concat (map track_chunk bodies)) =
    map_option (\<lambda>trs. (unat format mod 2 ^ 16, unat division mod 2 ^ 16, trs)) (those (map parse_track_events bodies))"
proof -
  obtain f n d where h: "smf_header format (word_of_nat (length bodies)) division = MThd @ [0, 0, 0, 6] @ f @ n @ d"
    "length f = 2" "length n = 2" "length d = 2" "be_nat f = unat format mod 2 ^ 16"
    "be_nat n = unat (word_of_nat (length bodies) :: c_int) mod 2 ^ 16" "be_nat d = unat division mod 2 ^ 16"
    using smf_header_eq by blast
  have n: "be_nat n = length bodies" using h(6) assms(1) by (simp add: unat_of_nat)
  have "parse_chunk MThd (MThd @ [0, 0, 0, 6] @ (f @ n @ d) @ concat (map track_chunk bodies)) =
      Some (f @ n @ d, concat (map track_chunk bodies))"
    using h(2-4) by (intro parse_chunk_eq) (simp_all add: MThd_def be_nat_def)
  then show ?thesis using h n parse_tracks_chunks[OF assms(2)]
    by (simp add: parse_file_def map_option_case split: option.split)
qed

section \<open>Properties of the track and file writer\<close>

text \<open>
  C25. Refinement of a track: for events in tick order with gaps below \<open>2^28\<close> and payloads
  in range, the writer returns a body that ends with the end-of-track event, and reading the
  body back gives exactly the delta-times of spec section 4.4 with the events' messages.
\<close>

theorem track_roundtrip:
  assumes "track_ok 0 evs"
  shows "\<exists>body. track_body evs = Some (Inr body) \<and> (\<exists>pre. body = pre @ EOT_bytes) \<and>
    parse_track_events body = Some (track_spec 0 evs)"
proof -
  obtain es where es: "assign_deltas 0 0 evs = Inr es" "list_all valid_event es"
    using assign_deltas_ok[OF assms] by blast
  obtain body where "track_body evs = Some (Inr body)" "parse_track_events body = Some (track_spec 0 evs)"
    using track_body_ok[OF assms] by blast
  moreover obtain bss where "those (map SMFEvent_getBuffer es) = Some bss"
    using track_events_roundtrip[OF es(2)] by blast
  ultimately show ?thesis using es(1) by (auto simp: track_body_def)
qed

lemma track_roundtrip_witness:
  "track_body [fst (SMFNoteOnEvent_ctor 0 0 60 100), fst (SMFNoteOffEvent_ctor 96 0 60 0)] =
     Some (Inr [0x00, 0x90, 0x3C, 0x64, 0x60, 0x80, 0x3C, 0x00, 0x00, 0xFF, 0x2F, 0x00]) \<and>
   parse_track_events [0x00, 0x90, 0x3C, 0x64, 0x60, 0x80, 0x3C, 0x00, 0x00, 0xFF, 0x2F, 0x00] =
     Some [(0, MsgNoteOn 0 60 100), (96, MsgNoteOff 0 60 0)]"
proof -
  let ?evs = "[fst (SMFNoteOnEvent_ctor 0 0 60 100), fst (SMFNoteOffEvent_ctor 96 0 60 0)]"
  have ok: "track_ok 0 ?evs"
    by (simp add: SMFNoteOnEvent_ctor_def SMFNoteOffEvent_ctor_def SMFEvent_ctor_def valid_kind_def)
  have b: "track_body ?evs = Some (Inr [0x00, 0x90, 0x3C, 0x64, 0x60, 0x80, 0x3C, 0x00, 0x00, 0xFF, 0x2F, 0x00])"
    by (simp add: track_body_def SMFNoteOnEvent_ctor_def SMFNoteOffEvent_ctor_def SMFEvent_ctor_def
        valid_kind_def SMFNoteOnEvent_getBuffer_def SMFNoteOffEvent_getBuffer_def NOTE_ON_def NOTE_OFF_def
        EOT_bytes_def smf_eval)
  have "track_spec 0 ?evs = [(0, MsgNoteOn 0 60 100), (96, MsgNoteOff 0 60 0)]"
    by (simp add: SMFNoteOnEvent_ctor_def SMFNoteOffEvent_ctor_def SMFEvent_ctor_def)
  then show ?thesis using track_roundtrip[OF ok] b by auto
qed

text \<open>
  Delta assignment stops at the first event whose tick is below its predecessor's and
  reports its index as an \<open>OrderingViolation\<close>.
\<close>

theorem ordering_violation:
  assumes "track_ok 0 (pre @ [e1])" "unat (m_nTicks e2) < unat (m_nTicks e1)"
  shows "assign_deltas 0 0 (pre @ e1 # e2 # post) = Inl (OrderingViolation (Suc (length pre)))"
proof -
  have "track_ok p (pre @ [e1]) \<Longrightarrow> assign_deltas i p (pre @ e1 # e2 # post) =
      Inl (OrderingViolation (i + Suc (length pre)))" for i p
  proof (induction pre arbitrary: i p)
    case Nil
    then show ?case using assms(2) by (simp add: Let_def)
  next
    case (Cons e pre)
    then show ?case by (simp add: Let_def not_less)
  qed
  from this[OF assms(1), of 0] show ?thesis by simp
qed

lemma ordering_violation_witness:
  "assign_deltas 0 0 [fst (SMFNoteOnEvent_ctor 0 0 60 100), fst (SMFNoteOnEvent_ctor 96 0 60 100),
     fst (SMFNoteOffEvent_ctor 48 0 60 0)] = Inl (OrderingViolation 2)"
proof -
  have "track_ok 0 ([fst (SMFNoteOnEvent_ctor 0 0 60 100)] @ [fst (SMFNoteOnEvent_ctor 96 0 60 100)])"
    by (simp add: SMFNoteOnEvent_ctor_def SMFNoteOffEvent_ctor_def SMFTrackNameMetaEvent_ctor_def SMFEvent_ctor_def valid_kind_def)
  moreover have "unat (m_nTicks (fst (SMFNoteOffEvent_ctor 48 0 60 0))) < unat (m_nTicks (fst (SMFNoteOnEvent_ctor 96 0 60 100)))"
    by (simp add: SMFNoteOnEvent_ctor_def SMFNoteOffEvent_ctor_def SMFTrackNameMetaEvent_ctor_def SMFEvent_ctor_def valid_kind_def)
  ultimately show ?thesis using ordering_violation[of "[fst (SMFNoteOnEvent_ctor 0 0 60 100)]"] by simp
qed

text \<open>
  C11. The file writer always returns, since every event of a track it accepts can be
  serialised (track names are below \<open>2^28\<close>, far from the \<open>2^32\<close> at which
  \<open>writeString\<close> stops returning). It fails exactly when some track's delta assignment
  fails, and then it reports the error of the first such track: every track before it is
  accepted, and the tracks after it are not looked at.
\<close>

theorem smf_file_error:
  "(\<exists>r. smf_file format division tracks = Some r) \<and>
   (smf_file format division tracks = Some (Inl err) \<longleftrightarrow>
     (\<exists>pre bad post. tracks = pre @ bad # post \<and> list_all (track_ok 0) pre \<and> assign_deltas 0 0 bad = Inl err))"
proof -
  have total: "\<exists>r. smf_file format division tracks = Some r" by (simp add: smf_file_def those_track_body)
  let ?g = "\<lambda>evs. the (track_body evs)"
  have ok: "(\<exists>v. ?g evs = Inr v) \<longleftrightarrow> track_ok 0 evs" for evs
    using track_body_Inr[of evs] track_body_Some[of evs] by auto
  have bad: "?g evs = Inl err \<longleftrightarrow> assign_deltas 0 0 evs = Inl err" for evs
    using track_body_Inl[of evs err] track_body_Some[of evs] by auto
  have "smf_file format division tracks = Some (Inl err) \<longleftrightarrow> seq_results (map ?g tracks) = Inl err"
    by (auto simp: smf_file_def those_track_body split: sum.split)
  also have "\<dots> \<longleftrightarrow> (\<exists>pre bad post. tracks = pre @ bad # post \<and> (\<forall>y\<in>set pre. \<exists>v. ?g y = Inr v) \<and> ?g bad = Inl err)"
    by (rule seq_results_Inl)
  finally show ?thesis using total by (simp only: ok bad list_all_iff simp_thms)
qed

lemma smf_file_error_witness:
  "smf_file 1 96 [[fst (SMFNoteOnEvent_ctor 0 0 60 100)],
     [fst (SMFNoteOnEvent_ctor 0 0 60 100), fst (SMFNoteOnEvent_ctor 96 0 60 100), fst (SMFNoteOffEvent_ctor 48 0 60 0)],
     [fst (SMFNoteOnEvent_ctor 96 0 60 100), fst (SMFNoteOnEvent_ctor 0 0 60 100)]] =
   Some (Inl (OrderingViolation 2))"
proof -
  let ?pre = "[[fst (SMFNoteOnEvent_ctor 0 0 60 100)]]"
  let ?bad = "[fst (SMFNoteOnEvent_ctor 0 0 60 100), fst (SMFNoteOnEvent_ctor 96 0 60 100), fst (SMFNoteOffEvent_ctor 48 0 60 0)]"
  let ?post = "[[fst (SMFNoteOnEvent_ctor 96 0 60 100), fst (SMFNoteOnEvent_ctor 0 0 60 100)]]"
  have pre: "list_all (track_ok 0) ?pre" and bad: "assign_deltas 0 0 ?bad = Inl (OrderingViolation 2)"
    by (simp_all add: SMFNoteOnEvent_ctor_def SMFNoteOffEvent_ctor_def SMFEvent_ctor_def valid_kind_def Let_def)
  show ?thesis
    by (rule smf_file_error[THEN conjunct2, THEN iffD2], intro exI[of _ ?pre] exI[of _ ?bad] exI[of _ ?post])
      (simp only: pre bad append_Cons append_Nil simp_thms)
qed

text \<open>
  C26. A track chunk is \<open>MTrk\<close>, the body length as four big-endian bytes, and the
  body: the chunk reader recovers exactly the body and stops after it.
\<close>

theorem track_chunk_roundtrip:
  assumes "length body < 2 ^ 32"
  shows "parse_chunk MTrk (track_chunk body @ rest) = Some (body, rest) \<and>
    be_nat (take 4 (drop 4 (track_chunk body))) = length body \<and> length (track_chunk body) = length body + 8"
proof -
  obtain hb where "track_chunk body = MTrk @ hb @ body" "length hb = 4" "be_nat hb = length body"
    using track_chunk_eq[OF assms] by blast
  then show ?thesis using parse_chunk_eq[of MTrk hb body rest] by (simp add: MTrk_def)
qed

lemma track_chunk_roundtrip_witness:
  "parse_chunk MTrk (track_chunk EOT_bytes) = Some (EOT_bytes, []) \<and> take 4 (drop 4 (track_chunk EOT_bytes)) = [0, 0, 0, 4]"
proof -
  have "length EOT_bytes < 2 ^ 32" by (simp add: EOT_bytes_def)
  from track_chunk_roundtrip[OF this, of "[]"] show ?thesis
    by (simp add: track_chunk_def writeDWord_MTrk getBuffer_def writeDWord_def smf_eval EOT_bytes_def MTrk_def)
qed

text \<open>
  C27. Refinement of a file: for tracks the writer accepts (fewer than \<open>2^16\<close> of them,
  each of a serialised size \<open>track_size\<close> below \<open>2^32\<close> bytes), the file reader recovers the format, the division and the
  delta-times and messages of spec section 4.4 for every track, in order.
\<close>

theorem smf_file_roundtrip:
  assumes "list_all (track_ok 0) tracks" "length tracks < 2 ^ 16"
    and "\<forall>evs\<in>set tracks. track_size evs < 2 ^ 32"
  shows "\<exists>bytes. smf_file format division tracks = Some (Inr bytes) \<and>
    parse_file bytes = Some (unat format mod 2 ^ 16, unat division mod 2 ^ 16, map (track_spec 0) tracks)"
proof -
  obtain bodies where b: "those (map track_body tracks) = Some (map Inr bodies)" "length bodies = length tracks"
    "those (map parse_track_events bodies) = Some (map (track_spec 0) tracks)" "\<forall>b\<in>set bodies. length b < 2 ^ 32"
    using track_bodies_ok[OF assms(1) track_size_bodies[OF assms(1,3)]] by blast
  have "parse_file (smf_header format (word_of_nat (length bodies)) division @ concat (map track_chunk bodies)) =
      Some (unat format mod 2 ^ 16, unat division mod 2 ^ 16, map (track_spec 0) tracks)"
    using parse_file_eq[of bodies format division] b assms(2) by simp
  with b show ?thesis by (simp add: smf_file_def)
qed

lemma smf_file_roundtrip_witness:
  "parse_file (projr (the (smf_file 1 96 [[fst (SMFTrackNameMetaEvent_ctor ''Drums'' 0)],
     [fst (SMFNoteOnEvent_ctor 0 9 36 127), fst (SMFNoteOffEvent_ctor 48 9 36 0)]]))) =
   Some (1, 96, [[(0, MsgTrackName ''Drums'')], [(0, MsgNoteOn 9 36 127), (48, MsgNoteOff 9 36 0)]])"
proof -
  let ?tr = "[[fst (SMFTrackNameMetaEvent_ctor ''Drums'' 0)],
     [fst (SMFNoteOnEvent_ctor 0 9 36 127), fst (SMFNoteOffEvent_ctor 48 9 36 0)]]"
  have ok: "list_all (track_ok 0) ?tr" by (simp add: SMFNoteOnEvent_ctor_def SMFNoteOffEvent_ctor_def SMFTrackNameMetaEvent_ctor_def SMFEvent_ctor_def valid_kind_def)
  have len: "\<forall>evs\<in>set ?tr. track_size evs < 2 ^ 32"
    by (simp add: track_size_def SMFNoteOnEvent_ctor_def SMFNoteOffEvent_ctor_def SMFTrackNameMetaEvent_ctor_def
        SMFEvent_ctor_def EOT_bytes_def vlq_encode_def)
  obtain bytes where "smf_file 1 96 ?tr = Some (Inr bytes)"
    "parse_file bytes = Some (unat (1 :: c_int) mod 2 ^ 16, unat (96 :: c_int) mod 2 ^ 16, map (track_spec 0) ?tr)"
    using smf_file_roundtrip[OF ok _ len, of 1 96] by auto
  then show ?thesis by (simp add: SMFNoteOnEvent_ctor_def SMFNoteOffEvent_ctor_def SMFTrackNameMetaEvent_ctor_def SMFEvent_ctor_def valid_kind_def)
qed

text \<open>
  C13. The size of a track body: for an accepted track the body is exactly \<open>track_size\<close>
  bytes, the events' delta-time quantities and messages and the end-of-track event, and at
  most seven bytes per note and ten plus the name's length per track name, plus four.
\<close>

theorem track_body_size:
  assumes "track_ok 0 evs"
  shows "\<exists>body. track_body evs = Some (Inr body) \<and> length body = track_size evs \<and>
    length body \<le> 4 + sum_list (map (\<lambda>e. case m_kind e of SMFTrackNameMetaEvent s \<Rightarrow> 10 + length s | _ \<Rightarrow> 7) evs)"
  using track_body_length[OF assms] track_spec_size_le[OF assms] by (auto simp: track_size_def EOT_bytes_def)

lemma track_body_size_witness:
  "\<exists>body. track_body [fst (SMFNoteOnEvent_ctor 0 0 60 100), fst (SMFNoteOffEvent_ctor 96 0 60 0)] = Some (Inr body) \<and>
     length body = 12"
proof -
  let ?evs = "[fst (SMFNoteOnEvent_ctor 0 0 60 100), fst (SMFNoteOffEvent_ctor 96 0 60 0)]"
  have ok: "track_ok 0 ?evs" and sz: "track_size ?evs = 12"
    by (simp_all add: track_size_def SMFNoteOnEvent_ctor_def SMFNoteOffEvent_ctor_def SMFEvent_ctor_def
        valid_kind_def EOT_bytes_def vlq_encode_def)
  show ?thesis using track_body_size[OF ok] sz by auto
qed

end
