(* ===== verification/SMFGrammar.thy ===== *)
theory SMFGrammar
  imports SMFTrack
begin

text \<open>
  The byte grammar of spec section 6 as inductive predicates: the type of an event stream.
  A delta-time or length is a legal variable-length quantity (one to four bytes, the
  continuation bit on all but the last); a channel event is a delta-time, a status byte
  from \<open>0x80\<close> to \<open>0xBF\<close> (the messages with two data bytes) and two data bytes below
  \<open>0x80\<close>; a meta event is a delta-time, \<open>0xFF\<close>, a type byte below \<open>0x80\<close> and a
  length-prefixed payload; a track body is events ending with the end-of-track event.
  The theorem of this theory is that every file the writer accepts is typed by it, down to
  each event of each track.
\<close>

definition is_vlq :: "byte list \<Rightarrow> bool" where
  "is_vlq d \<longleftrightarrow> d \<noteq> [] \<and> length d \<le> 4 \<and> list_all (\<lambda>b. bit b 7) (butlast d) \<and> \<not> bit (last d) 7"

inductive smf_event :: "byte list \<Rightarrow> bool" where
  channel_event: "is_vlq d \<Longrightarrow> 0x80 \<le> unat st \<Longrightarrow> unat st < 0xC0 \<Longrightarrow> unat p < 0x80 \<Longrightarrow> unat v < 0x80 \<Longrightarrow>
    smf_event (d @ [st, p, v])"
| meta_event: "is_vlq d \<Longrightarrow> unat t < 0x80 \<Longrightarrow> is_vlq l \<Longrightarrow>
    read_varlen_from 0 0 l = Some (length payload, length l) \<Longrightarrow>
    smf_event (d @ [0xFF, t] @ l @ payload)"

inductive smf_track :: "byte list \<Rightarrow> bool" where
  track_end: "smf_track [0x00, 0xFF, 0x2F, 0x00]"
| track_event: "smf_event e \<Longrightarrow> smf_track r \<Longrightarrow> smf_track (e @ r)"

text \<open>The chunk layer: \<open>n\<close> track chunks, each \<open>MTrk\<close>, a four-byte big-endian length
  equal to the length of the well-typed body that follows.\<close>

inductive smf_chunks :: "nat \<Rightarrow> byte list \<Rightarrow> bool" where
  chunks_end: "smf_chunks 0 []"
| chunks_track: "length hl = 4 \<Longrightarrow> be_nat hl = length body \<Longrightarrow> smf_track body \<Longrightarrow> smf_chunks n rest \<Longrightarrow>
    smf_chunks (Suc n) (MTrk @ hl @ body @ rest)"

text \<open>A file: \<open>MThd\<close>, the length 6, a format of 0, 1 or 2, the track count, the division,
  then as many track chunks as the header counts.\<close>

inductive smf_typed_file :: "byte list \<Rightarrow> bool" where
  typed_file: "length f = 2 \<Longrightarrow> length n = 2 \<Longrightarrow> length d = 2 \<Longrightarrow> be_nat f \<le> 2 \<Longrightarrow>
    smf_chunks (be_nat n) cs \<Longrightarrow> smf_typed_file (MThd @ [0, 0, 0, 6] @ f @ n @ d @ cs)"

section \<open>Typing single events\<close>

lemma is_vlq_encode: "n < 2 ^ 28 \<Longrightarrow> is_vlq (vlq_encode n)"
proof -
  assume "n < 2 ^ 28"
  then have "length (vlq_encode n) \<le> 4" using length_vlq_encode_le[of 4 n] by simp
  moreover have "list_all (\<lambda>b. bit b 7) (vlq_hi (n div 128))"
    by (simp add: list_all_iff vlq_hi_cont)
  ultimately show ?thesis by (simp add: is_vlq_def)
qed

lemma note_event_typed:
  fixes d c p v base :: c_int
  assumes "unat d < 2 ^ 28" "0 \<le> sint c" "sint c < 16" "0 \<le> sint p" "sint p < 128" "0 \<le> sint v" "sint v < 128"
    and "unat base \<in> {0x80, 0x90}"
  shows "smf_event (vlq_encode (unat d) @ [ucast (base + c), ucast p, ucast v])"
proof (rule channel_event)
  have "unat p < 128" "unat v < 128" using unat_small_int[of p 128] unat_small_int[of v 128] assms by simp_all
  then show "unat (ucast p :: byte) < 0x80" "unat (ucast v :: byte) < 0x80" by simp_all
  have "unat (ucast (base + c) :: byte) = unat base + unat c" by (rule status_byte) (use assms in simp_all)
  moreover have "unat c < 16" using unat_small_int[of c 16] assms by simp
  ultimately show "0x80 \<le> unat (ucast (base + c) :: byte)" "unat (ucast (base + c) :: byte) < 0xC0"
    using assms(8) by auto
qed (use assms in \<open>simp add: is_vlq_encode\<close>)

lemma valid_event_typed:
  assumes "valid_event e" "unat (m_nDeltaTime e) < 2 ^ 28" "SMFEvent_getBuffer e = Some bs"
  shows "smf_event bs"
proof (cases "m_kind e")
  case (SMFNoteOnEvent c p v)
  have "unat NOTE_ON \<in> {0x80, 0x90}" by (simp add: NOTE_ON_def)
  with SMFNoteOnEvent assms show ?thesis
    using note_event_typed[of "m_nDeltaTime e" c p v NOTE_ON]
    by (simp add: valid_event_def valid_kind_def note_on_bytes)
next
  case (SMFNoteOffEvent c p v)
  have "unat NOTE_OFF \<in> {0x80, 0x90}" by (simp add: NOTE_OFF_def)
  with SMFNoteOffEvent assms show ?thesis
    using note_event_typed[of "m_nDeltaTime e" c p v NOTE_OFF]
    by (simp add: valid_event_def valid_kind_def note_off_bytes)
next
  case (SMFTrackNameMetaEvent s)
  then have s: "length s < 2 ^ 28" using assms(1) by (simp add: valid_event_def valid_kind_def)
  have "smf_event (vlq_encode (unat (m_nDeltaTime e)) @ [0xFF, 0x03] @ vlq_encode (length s) @ map of_char s)"
    using read_varlen_from_vlq_encode[of "length s" "[]"] s assms(2)
    by (intro meta_event) (simp_all add: is_vlq_encode)
  with SMFTrackNameMetaEvent assms s show ?thesis
    by (simp add: valid_event_def track_name_bytes)
qed

section \<open>Typing track bodies\<close>

lemma track_spec_deltas: "track_ok prev evs \<Longrightarrow> (d, m) \<in> set (track_spec prev evs) \<Longrightarrow> d < 2 ^ 28"
  by (induction prev evs rule: track_spec.induct) (auto simp: Let_def split: SMFEventKind.splits)

lemma typed_events_track:
  assumes "list_all (\<lambda>e. valid_event e \<and> unat (m_nDeltaTime e) < 2 ^ 28) es"
    and "those (map SMFEvent_getBuffer es) = Some bss"
  shows "smf_track (concat bss @ EOT_bytes)"
  using assms
proof (induction es arbitrary: bss)
  case Nil
  then show ?case by (simp add: EOT_bytes_def track_end)
next
  case (Cons e es)
  then obtain bs bss' where b: "SMFEvent_getBuffer e = Some bs" "those (map SMFEvent_getBuffer es) = Some bss'"
    "bss = bs # bss'" by (auto simp del: SMFEvent_getBuffer.simps split: option.splits)
  have "smf_event bs" using Cons.prems(1) b(1) by (intro valid_event_typed) auto
  moreover have "smf_track (concat bss' @ EOT_bytes)" using Cons b by (simp del: SMFEvent_getBuffer.simps)
  ultimately show ?case using b(3) by (simp add: track_event)
qed

lemma assigned_deltas_small:
  assumes "track_ok 0 evs" "assign_deltas 0 0 evs = Inr es"
    "map (\<lambda>e. (unat (m_nDeltaTime e), msg_of (m_kind e))) es = track_spec 0 evs"
  shows "list_all (\<lambda>e. unat (m_nDeltaTime e) < 2 ^ 28) es"
proof (unfold list_all_iff, intro ballI)
  fix e assume "e \<in> set es"
  then have "(unat (m_nDeltaTime e), msg_of (m_kind e)) \<in> set (track_spec 0 evs)"
    using assms(3) by (metis (mono_tags, lifting) image_eqI list.set_map)
  then show "unat (m_nDeltaTime e) < 2 ^ 28" using track_spec_deltas[OF assms(1)] by blast
qed

section \<open>Every accepted file is well typed\<close>

text \<open>Whenever the writer accepts a track, its body is a well-typed event stream.\<close>

lemma track_body_typed:
  assumes "track_ok 0 evs"
  shows "\<exists>body. track_body evs = Some (Inr body) \<and> smf_track body"
proof -
  obtain es where es: "assign_deltas 0 0 evs = Inr es" "list_all valid_event es"
    "map (\<lambda>e. (unat (m_nDeltaTime e), msg_of (m_kind e))) es = track_spec 0 evs"
    using assign_deltas_ok[OF assms] by blast
  obtain bss where bss: "those (map SMFEvent_getBuffer es) = Some bss"
    using track_events_roundtrip[OF es(2)] by blast
  have "list_all (\<lambda>e. valid_event e \<and> unat (m_nDeltaTime e) < 2 ^ 28) es"
    using es(2) assigned_deltas_small[OF assms es(1,3)] by (simp add: list_all_iff)
  then have "smf_track (concat bss @ EOT_bytes)" using bss by (rule typed_events_track)
  with es(1) bss show ?thesis by (simp add: track_body_def)
qed

lemma typed_chunks:
  "\<forall>b\<in>set bodies. smf_track b \<and> length b < 2 ^ 32 \<Longrightarrow> smf_chunks (length bodies) (concat (map track_chunk bodies))"
proof (induction bodies)
  case (Cons b bodies)
  then obtain hb where "track_chunk b = MTrk @ hb @ b" "length hb = 4" "be_nat hb = length b"
    using track_chunk_eq[of b] by auto
  with Cons show ?case by (simp add: chunks_track)
qed (simp add: chunks_end)

text \<open>
  C30. Whenever the writer accepts a file (tracks accepted, fewer than \<open>2^16\<close> of them,
  each of size below \<open>2^32\<close>, a format of 0, 1 or 2), the bytes it produces are a
  well-typed Standard MIDI File of spec section 6: a header whose track count is the number
  of chunks that follow, each chunk's length field the length of its body, and each body an
  event stream of legal delta-times and channel or meta events closed by end-of-track.
\<close>

theorem smf_file_typed:
  assumes "list_all (track_ok 0) tracks" "length tracks < 2 ^ 16" "\<forall>evs\<in>set tracks. track_size evs < 2 ^ 32"
    and "unat format \<le> 2"
  shows "\<exists>bytes. smf_file format division tracks = Some (Inr bytes) \<and> smf_typed_file bytes"
proof -
  obtain bodies where b: "those (map track_body tracks) = Some (map Inr bodies)" "length bodies = length tracks"
    "\<forall>b\<in>set bodies. length b < 2 ^ 32"
    using track_bodies_ok[OF assms(1) track_size_bodies[OF assms(1,3)]] by blast
  have "\<forall>b\<in>set bodies. smf_track b"
  proof
    fix bd assume "bd \<in> set bodies"
    then obtain evs where "evs \<in> set tracks" "track_body evs = Some (Inr bd)" using those_track_body_Inr[OF b(1)] by blast
    then show "smf_track bd" using track_body_typed[of evs] assms(1) by (auto simp: list_all_iff)
  qed
  then have c: "smf_chunks (length bodies) (concat (map track_chunk bodies))" using b(3) typed_chunks by blast
  obtain f n d where h: "smf_header format (word_of_nat (length bodies)) division = MThd @ [0, 0, 0, 6] @ f @ n @ d"
    "length f = 2" "length n = 2" "length d = 2" "be_nat f = unat format mod 2 ^ 16"
    "be_nat n = unat (word_of_nat (length bodies) :: c_int) mod 2 ^ 16"
    using smf_header_eq by blast
  have "be_nat n = length bodies" using h(6) b(2) assms(2) by (simp add: unat_of_nat)
  moreover have "be_nat f \<le> 2" using h(5) assms(4) by simp
  ultimately have "smf_typed_file (smf_header format (word_of_nat (length bodies)) division @ concat (map track_chunk bodies))"
    using h(1-4) c typed_file[of f n d] by simp
  with b show ?thesis by (simp add: smf_file_def)
qed

lemma smf_file_typed_witness:
  "\<exists>bytes. smf_file 1 96 [[fst (SMFTrackNameMetaEvent_ctor ''drums'' 0), fst (SMFNoteOnEvent_ctor 0 9 36 100),
      fst (SMFNoteOffEvent_ctor 48 9 36 0)]] = Some (Inr bytes) \<and> smf_typed_file bytes"
  by (rule smf_file_typed)
    (simp_all add: SMFTrackNameMetaEvent_ctor_def SMFNoteOnEvent_ctor_def SMFNoteOffEvent_ctor_def
      SMFEvent_ctor_def valid_kind_def track_size_def EOT_bytes_def vlq_encode_def)

end
