(* ===== verification/Drumkit.thy ===== *)
theory Drumkit
  imports Prelude
begin

text \<open>
  Drumkit installation and removal of \<^verbatim>\<open>src/libs/hydrogen/src/sound_library.cpp\<close>.
  \<open>Drumkit::install\<close> decompresses a \<^verbatim>\<open>.h2drumkit\<close> archive (a gzipped tar file)
  into a temporary tar file whose name it derives from the archive's name, then unpacks it
  into the data directory. The zlib and libtar calls are modelled through their results:
  \<open>gzread\<close> by the bytes the compressed stream still holds, \<open>tar_open\<close>,
  \<open>tar_extract_all\<close> and \<open>tar_close\<close> by the success flags of an
  \<open>install_env\<close>. The calls the function makes are recorded as a trace of
  \<open>io_call\<close>s, and behaviour the C++ standard leaves undefined (a \<open>strcpy\<close> past a
  1024-byte array, a use of the handle a failed \<open>tar_open\<close> left behind) ends the run
  with a \<open>ub\<close> value. \<open>Drumkit::removeDrumkit\<close> builds a shell command; its meaning
  is given by a small model of how \<^verbatim>\<open>/bin/sh\<close> splits a command line into
  commands and words. The model takes \<open>fopen\<close> and \<open>gzopen\<close> to succeed (on
  failure zlib's \<open>gzread\<close> returns \<open>-1\<close> and the copy loop is skipped, while a
  failed \<open>fopen\<close> is not checked by the code either).
\<close>

section \<open>Qt string operations\<close>

text \<open>
  \<open>QString::indexOf\<close>: the first position at which the needle occurs, \<open>-1\<close> if
  none; \<open>QString::left(n)\<close>: the first \<open>n\<close> characters, or the whole string when
  \<open>n\<close> is negative or at least its size.
\<close>

fun qt_indexOf :: "string \<Rightarrow> string \<Rightarrow> int" where
  "qt_indexOf hay needle =
     (if take (length needle) hay = needle then 0
      else case hay of
        [] \<Rightarrow> -1
      | _ # rest \<Rightarrow> (let r = qt_indexOf rest needle in if r < 0 then -1 else r + 1))"

declare qt_indexOf.simps [simp del]

definition qt_left :: "string \<Rightarrow> int \<Rightarrow> string" where
  "qt_left s n = (if n < 0 \<or> int (length s) \<le> n then s else take (nat n) s)"

section \<open>Decompression\<close>

text \<open>
  The name of the temporary tar file (lines 138--139): everything before the first dot,
  followed by \<^verbatim>\<open>.tar\<close>.
\<close>

definition gunzipped_name :: "string \<Rightarrow> string" where
  "gunzipped_name filename = qt_left filename (qt_indexOf filename ''.'') @ ''.tar''"

text \<open>
  \<open>gzread(gzipFile, buf, len)\<close> on a stream that still holds the bytes \<open>d\<close>: it copies
  the first \<open>min len |d|\<close> of them into the front of \<open>buf\<close>, leaves the rest of
  \<open>buf\<close> as it was, and returns their number.
\<close>

definition gzread :: "byte list \<Rightarrow> byte list \<Rightarrow> nat \<Rightarrow> int \<times> byte list \<times> byte list" where
  "gzread d buf len = (let n = min len (length d) in (int n, take n d @ drop n buf, drop n d))"

text \<open>
  The copy loop (lines 142--144): while \<open>gzread\<close> returns a positive count, write the
  whole 4096-byte buffer. The result is the list of blocks passed to \<open>fwrite\<close>.
\<close>

function gunzip_loop :: "byte list \<Rightarrow> byte list \<Rightarrow> byte list list" where
  "gunzip_loop d buf = (case gzread d buf 4096 of (n, buf', d') \<Rightarrow>
     if 0 < n then take 4096 buf' # gunzip_loop d' buf' else [])"
  by pat_completeness auto
termination
  by (relation "measure (\<lambda>(d, buf). length d)") (auto simp: gzread_def Let_def)

declare gunzip_loop.simps [simp del]

text \<open>The bytes the temporary tar file holds after the loop.\<close>

definition gunzip_file :: "byte list \<Rightarrow> byte list \<Rightarrow> byte list" where
  "gunzip_file d buf = concat (gunzip_loop d buf)"

section \<open>Installation\<close>

text \<open>
  The calls \<open>install\<close> makes, with their arguments, and the log lines it writes
  (\<open>_INFOLOG\<close>, \<open>_ERRORLOG\<close>; the \<open>strerror\<close> text is left out).
\<close>

datatype io_call =
    LogInfo string
  | LogError string
  | Fopen string string
  | Gzopen string string
  | Fwrite "byte list"
  | Gzclose
  | Fclose
  | TarOpen string
  | TarExtractAll string
  | TarClose
  | System string

text \<open>
  What the libraries answer: the bytes the archive decompresses to, the uninitialised
  contents of the stack array \<open>buf[4096]\<close>, and whether each libtar call succeeds.
\<close>

record install_env =
  gz_data :: "byte list"
  stale_buf :: "byte list"
  tar_open_ok :: bool
  tar_extract_ok :: bool
  tar_close_ok :: bool

text \<open>Undefined behaviour that ends a run of \<open>install\<close>.\<close>

datatype ub = StrcpyOverflow string | TarHandleUninitialised

text \<open>\<open>strcpy\<close> into a \<open>char[1024]\<close> array: the string and its terminator must fit.\<close>

definition strcpy_1024 :: "string \<Rightarrow> ub + string" where
  "strcpy_1024 s = (if length s < 1024 then Inr s else Inl (StrcpyOverflow s))"

definition Drumkit_install :: "install_env \<Rightarrow> string \<Rightarrow> string \<Rightarrow> (ub + unit) \<times> io_call list" where
  "Drumkit_install env dataDir filename = (
     let gunzippedName = gunzipped_name filename;
         tr0 = [LogInfo (''[Drumkit::install] drumkit = '' @ filename),
                Fopen gunzippedName ''wb'', Gzopen filename ''rb'']
               @ map Fwrite (gunzip_loop (gz_data env) (stale_buf env)) @ [Gzclose, Fclose]
     in case strcpy_1024 gunzippedName of
       Inl u \<Rightarrow> (Inl u, tr0)
     | Inr tarfilename \<Rightarrow>
         let tr1 = tr0 @ [TarOpen tarfilename]
                   @ (if tar_open_ok env then [] else [LogError ''[Drumkit::install] tar_open(): ''])
         in case strcpy_1024 dataDir of
           Inl u \<Rightarrow> (Inl u, tr1)
         | Inr destDir \<Rightarrow>
             if \<not> tar_open_ok env then (Inl TarHandleUninitialised, tr1)
             else (Inr (), tr1 @ [TarExtractAll destDir]
                   @ (if tar_extract_ok env then [] else [LogError ''[Drumkit::install] tar_extract_all(): ''])
                   @ [TarClose]
                   @ (if tar_close_ok env then [] else [LogError ''[Drumkit::install] tar_close(): ''])))"

section \<open>Removal\<close>

datatype h2_exception = H2Exception string

text \<open>The command of lines 245--247; \<open>CHR 0x22\<close> is the double quote.\<close>

definition removeDrumkit_cmd :: "string \<Rightarrow> string \<Rightarrow> string" where
  "removeDrumkit_cmd dataDir sDrumkitName = ''rm -rf '' @ [CHR 0x22] @ dataDir @ sDrumkitName @ [CHR 0x22]"

text \<open>\<open>system\<close> is the shell's exit status for a command.\<close>

definition Drumkit_removeDrumkit ::
  "(string \<Rightarrow> int) \<Rightarrow> string \<Rightarrow> string \<Rightarrow> (h2_exception + unit) \<times> io_call list" where
  "Drumkit_removeDrumkit system dataDir sDrumkitName = (
     let cmd = removeDrumkit_cmd dataDir sDrumkitName;
         tr = [LogInfo (''Removing drumkit: '' @ sDrumkitName), LogInfo cmd, System cmd]
     in if system cmd \<noteq> 0
        then (Inl (H2Exception (''Error executing '' @ [CHR 0x27] @ cmd @ [CHR 0x27])),
              tr @ [LogError (''Error executing '' @ [CHR 0x27] @ cmd @ [CHR 0x27])])
        else (Inr (), tr))"

section \<open>How the shell reads a command line\<close>

text \<open>
  The part of the POSIX shell grammar that matters for \<open>removeDrumkit\<close>: outside
  double quotes a blank ends a word and \<open>;\<close> ends a command; inside them every
  character but the closing quote belongs to the word. (\<open>$\<close>, backquote and
  backslash, which stay special inside double quotes, are excluded by \<open>sh_plain\<close>.)
  \<open>cur\<close> is the word being read, \<open>None\<close> between words.
\<close>

datatype sh_tok = ShWord string | ShSep

definition sh_flush :: "string option \<Rightarrow> sh_tok list" where
  "sh_flush cur = (case cur of None \<Rightarrow> [] | Some w \<Rightarrow> [ShWord w])"

fun sh_lex :: "bool \<Rightarrow> string option \<Rightarrow> string \<Rightarrow> sh_tok list" where
  "sh_lex q cur [] = sh_flush cur"
| "sh_lex True cur (c # cs) =
     (if c = CHR 0x22 then sh_lex False cur cs else sh_lex True (Some (case_option [] id cur @ [c])) cs)"
| "sh_lex False cur (c # cs) =
     (if c = CHR 0x22 then sh_lex True (Some (case_option [] id cur)) cs
      else if c = CHR '' '' then sh_flush cur @ sh_lex False None cs
      else if c = CHR '';'' then sh_flush cur @ ShSep # sh_lex False None cs
      else sh_lex False (Some (case_option [] id cur @ [c])) cs)"

fun sh_split :: "string list \<Rightarrow> sh_tok list \<Rightarrow> string list list" where
  "sh_split ws [] = [ws]"
| "sh_split ws (ShWord w # ts) = sh_split (ws @ [w]) ts"
| "sh_split ws (ShSep # ts) = ws # sh_split [] ts"

definition sh_commands :: "string \<Rightarrow> string list list" where
  "sh_commands s = filter (\<lambda>ws. ws \<noteq> []) (sh_split [] (sh_lex False None s))"

definition sh_plain :: "string \<Rightarrow> bool" where
  "sh_plain s \<longleftrightarrow> (\<forall>c\<in>set s. c \<notin> {CHR 0x22, CHR ''$'', CHR 0x60, CHR 0x5C})"

text \<open>The bytes a trace writes to the temporary tar file.\<close>

fun written_bytes :: "io_call list \<Rightarrow> byte list" where
  "written_bytes [] = []"
| "written_bytes (Fwrite bs # cs) = bs @ written_bytes cs"
| "written_bytes (_ # cs) = written_bytes cs"

section \<open>The derived tar file name\<close>

lemma qt_indexOf_char:
  "qt_indexOf s [c] = (if c \<in> set s then int (length (takeWhile (\<lambda>x. x \<noteq> c) s)) else -1)"
proof (induction s)
  case Nil
  then show ?case by (simp add: qt_indexOf.simps)
next
  case (Cons a s)
  then show ?case by (subst qt_indexOf.simps) (auto simp: Let_def)
qed

lemma qt_left_indexOf_char:
  "qt_left s (qt_indexOf s [c]) = takeWhile (\<lambda>x. x \<noteq> c) s"
proof (cases "c \<in> set s")
  case True
  then have "length (takeWhile (\<lambda>x. x \<noteq> c) s) < length s"
    by (induction s) auto
  with True show ?thesis by (simp add: qt_left_def qt_indexOf_char takeWhile_eq_take [symmetric])
next
  case False
  then have "takeWhile (\<lambda>x. x \<noteq> c) s = s" by (induction s) auto
  with False show ?thesis by (simp add: qt_left_def qt_indexOf_char del: takeWhile_eq_all_conv)
qed

lemma gunzipped_name_eq: "gunzipped_name f = takeWhile (\<lambda>x. x \<noteq> CHR ''.'') f @ ''.tar''"
  by (simp add: gunzipped_name_def qt_left_indexOf_char [of f "CHR ''.''", simplified])

section \<open>The decompression loop\<close>

lemma gunzip_loop_Nil [simp]: "gunzip_loop [] buf = []"
  by (simp add: gunzip_loop.simps gzread_def)

lemma gunzip_loop_Cons:
  assumes "d \<noteq> []" "length buf = 4096"
  shows "gunzip_loop d buf =
    (take 4096 d @ drop (length d) buf) # gunzip_loop (drop 4096 d) (take 4096 d @ drop (length d) buf)"
proof -
  have "take (min 4096 (length d)) d = take 4096 d" by (simp add: min_def)
  moreover have "drop (min 4096 (length d)) buf = drop (length d) buf" using assms(2) by (simp add: min_def)
  moreover have "drop (min 4096 (length d)) d = drop 4096 d" by (simp add: min_def)
  moreover have "length (take 4096 d @ drop (length d) buf) = 4096" using assms(2) by (simp add: min_def)
  ultimately show ?thesis using assms(1)
    by (simp add: gunzip_loop.simps[of d] gzread_def Let_def)
qed

lemma gunzip_file_padding:
  "length buf = 4096 \<Longrightarrow>
   \<exists>pad. gunzip_file d buf = d @ pad \<and> length pad = (4096 - length d mod 4096) mod 4096"
proof (induction "length d" arbitrary: d buf rule: less_induct)
  case less
  show ?case
  proof (cases "d = []")
    case True
    then show ?thesis by (simp add: gunzip_file_def)
  next
    case ne: False
    let ?buf' = "take 4096 d @ drop (length d) buf"
    have l: "length ?buf' = 4096" using less.prems by (simp add: min_def)
    show ?thesis
    proof (cases "length d < 4096")
      case True
      then have "gunzip_file d buf = d @ drop (length d) buf"
        using ne less.prems by (simp add: gunzip_file_def gunzip_loop_Cons)
      then show ?thesis using True ne less.prems by simp
    next
      case False
      then have "length (drop 4096 d) < length d" using ne by simp
      from less.hyps[OF this l] obtain pad where
        p: "gunzip_file (drop 4096 d) ?buf' = drop 4096 d @ pad"
           "length pad = (4096 - length (drop 4096 d) mod 4096) mod 4096" by blast
      have "gunzip_file d buf = take 4096 d @ gunzip_file (drop 4096 d) ?buf'"
        using ne less.prems False by (simp add: gunzip_file_def gunzip_loop_Cons)
      moreover have "length d mod 4096 = length (drop 4096 d) mod 4096"
        using False by (simp add: mod_if)
      ultimately show ?thesis using p by (intro exI[of _ pad]) simp
    qed
  qed
qed

section \<open>Reading the removal command\<close>

lemma sh_lex_quoted:
  "CHR 0x22 \<notin> set x \<Longrightarrow> sh_lex True (Some w) (x @ CHR 0x22 # rest) = sh_lex False (Some (w @ x)) rest"
  by (induction x arbitrary: w) auto

lemma sh_plain_append [simp]: "sh_plain (xs @ ys) \<longleftrightarrow> sh_plain xs \<and> sh_plain ys"
  by (auto simp: sh_plain_def)

lemma sh_plain_no_quote: "sh_plain s \<Longrightarrow> CHR 0x22 \<notin> set s"
  by (auto simp: sh_plain_def)

lemma sh_lex_rm:
  "CHR 0x22 \<notin> set p \<Longrightarrow>
   sh_lex False None (''rm -rf '' @ CHR 0x22 # p @ CHR 0x22 # rest) =
     ShWord ''rm'' # ShWord ''-rf'' # sh_lex False (Some p) rest"
  by (simp add: sh_lex_quoted sh_flush_def)

lemma removeDrumkit_cmd_eq:
  "removeDrumkit_cmd dataDir n = ''rm -rf '' @ CHR 0x22 # (dataDir @ n) @ CHR 0x22 # []"
  by (simp add: removeDrumkit_cmd_def)

lemma sh_commands_rm:
  "CHR 0x22 \<notin> set p \<Longrightarrow> sh_commands (''rm -rf '' @ CHR 0x22 # p @ CHR 0x22 # []) = [[''rm'', ''-rf'', p]]"
  using sh_lex_rm[of p "[]"] by (simp add: sh_commands_def sh_flush_def)

section \<open>Installation runs\<close>

lemma written_bytes_append [simp]: "written_bytes (xs @ ys) = written_bytes xs @ written_bytes ys"
  by (induction xs rule: written_bytes.induct) simp_all

lemma written_bytes_map_Fwrite [simp]: "written_bytes (map Fwrite bss) = concat bss"
  by (induction bss) simp_all

lemma install_written_bytes:
  "written_bytes (snd (Drumkit_install env dataDir filename)) = gunzip_file (gz_data env) (stale_buf env)"
  by (simp add: Drumkit_install_def gunzip_file_def Let_def split: sum.split)

lemma strcpy_1024_ok [simp]: "length s < 1024 \<Longrightarrow> strcpy_1024 s = Inr s"
  by (simp add: strcpy_1024_def)

lemma strcpy_1024_overflow [simp]: "\<not> length s < 1024 \<Longrightarrow> strcpy_1024 s = Inl (StrcpyOverflow s)"
  by (simp add: strcpy_1024_def)

section \<open>Properties of installation and removal\<close>

text \<open>
  C19. The temporary tar file \<open>install\<close> writes holds the decompressed archive followed
  by padding up to the next multiple of 4096 bytes: each pass of the copy loop writes the
  whole buffer, not the count \<open>gzread\<close> returned, so the last block carries stale bytes
  of the previous block (or of uninitialised stack memory).
\<close>

theorem install_tar_file_padded:
  assumes "length (stale_buf env) = 4096"
  shows "\<exists>pad. written_bytes (snd (Drumkit_install env dataDir filename)) = gz_data env @ pad \<and>
    length pad = (4096 - length (gz_data env) mod 4096) mod 4096"
  using gunzip_file_padding[OF assms, of "gz_data env"] by (simp add: install_written_bytes)

lemma install_tar_file_padded_witness:
  "\<exists>pad. written_bytes (snd (Drumkit_install
      \<lparr>gz_data = replicate 5000 1, stale_buf = replicate 4096 0, tar_open_ok = True,
       tar_extract_ok = True, tar_close_ok = True\<rparr> ''/d/'' ''k.h2drumkit'')) = replicate 5000 1 @ pad \<and>
    length pad = 3192"
  using install_tar_file_padded[of "\<lparr>gz_data = replicate 5000 (1 :: byte), stale_buf = replicate 4096 0,
      tar_open_ok = True, tar_extract_ok = True, tar_close_ok = True\<rparr>" "''/d/''" "''k.h2drumkit''"]
  by simp

text \<open>
  C20. A failed \<open>tar_open\<close> is only logged: \<open>install\<close> goes on and passes the
  handle \<open>tar_open\<close> did not set to \<open>tar_extract_all\<close>, which is undefined
  behaviour, whenever the two path names fit their arrays.
\<close>

theorem install_tar_open_failure:
  assumes "\<not> tar_open_ok env" "length (gunzipped_name filename) < 1024" "length dataDir < 1024"
  shows "fst (Drumkit_install env dataDir filename) = Inl TarHandleUninitialised \<and>
    LogError ''[Drumkit::install] tar_open(): '' \<in> set (snd (Drumkit_install env dataDir filename))"
  using assms by (simp add: Drumkit_install_def Let_def)

lemma install_tar_open_failure_witness:
  "fst (Drumkit_install \<lparr>gz_data = [], stale_buf = [], tar_open_ok = False, tar_extract_ok = True,
     tar_close_ok = True\<rparr> ''/d/'' ''k.h2drumkit'') = Inl TarHandleUninitialised"
  using install_tar_open_failure[of "\<lparr>gz_data = [], stale_buf = [], tar_open_ok = False,
      tar_extract_ok = True, tar_close_ok = True\<rparr>" "''k.h2drumkit''" "''/d/''"]
  by (simp add: gunzipped_name_eq)

text \<open>
  C21. Once the tar file is open, \<open>install\<close> returns normally whatever
  \<open>tar_extract_all\<close> and \<open>tar_close\<close> report: a failed extraction leaves only a log
  line, and the caller cannot tell an installed drumkit from a missing one.
\<close>

theorem install_errors_only_logged:
  assumes "tar_open_ok env" "length (gunzipped_name filename) < 1024" "length dataDir < 1024"
  shows "fst (Drumkit_install env dataDir filename) = Inr () \<and>
    TarExtractAll dataDir \<in> set (snd (Drumkit_install env dataDir filename)) \<and>
    (LogError ''[Drumkit::install] tar_extract_all(): '' \<in> set (snd (Drumkit_install env dataDir filename))
      \<longleftrightarrow> \<not> tar_extract_ok env)"
  using assms by (auto simp: Drumkit_install_def Let_def)

lemma install_errors_only_logged_witness:
  "fst (Drumkit_install \<lparr>gz_data = [], stale_buf = [], tar_open_ok = True, tar_extract_ok = False,
     tar_close_ok = False\<rparr> ''/d/'' ''k.h2drumkit'') = Inr ()"
  using install_errors_only_logged[of "\<lparr>gz_data = [], stale_buf = [], tar_open_ok = True,
      tar_extract_ok = False, tar_close_ok = False\<rparr>" "''k.h2drumkit''" "''/d/''"]
  by (simp add: gunzipped_name_eq)

text \<open>
  C22. The tar file name is copied with \<open>strcpy\<close> into \<open>char tarfilename[1024]\<close>
  without a length check: from 1024 characters on the copy overruns the array.
\<close>

theorem install_strcpy_overflow:
  assumes "1024 \<le> length (gunzipped_name filename)"
  shows "fst (Drumkit_install env dataDir filename) = Inl (StrcpyOverflow (gunzipped_name filename))"
  using assms by (simp add: Drumkit_install_def Let_def)

lemma install_strcpy_overflow_witness:
  "fst (Drumkit_install \<lparr>gz_data = [], stale_buf = [], tar_open_ok = True, tar_extract_ok = True,
     tar_close_ok = True\<rparr> ''/d/'' (replicate 1020 (CHR ''a'') @ ''.h2drumkit'')) =
   Inl (StrcpyOverflow (replicate 1020 (CHR ''a'') @ ''.tar''))"
proof -
  have n: "gunzipped_name (replicate 1020 (CHR ''a'') @ ''.h2drumkit'') = replicate 1020 (CHR ''a'') @ ''.tar''"
    unfolding gunzipped_name_eq by (subst takeWhile_append2) auto
  show ?thesis
    using install_strcpy_overflow[of "replicate 1020 (CHR ''a'') @ ''.h2drumkit''"] by (simp add: n)
qed

text \<open>
  C23. The tar file name is cut at the first dot of the whole path, not of the file
  name: for an archive in a directory whose path has a dot (such as
  \<^verbatim>\<open>~/.hydrogen\<close>), the temporary file is created outside that directory, at the
  part of the path before the dot.
\<close>

theorem gunzipped_name_dotted_dir:
  assumes "CHR ''.'' \<in> set dir"
  shows "gunzipped_name (dir @ ''/'' @ base) = takeWhile (\<lambda>x. x \<noteq> CHR ''.'') dir @ ''.tar''"
  using assms by (simp add: gunzipped_name_eq)

lemma gunzipped_name_dotted_dir_witness:
  "gunzipped_name ''/home/u/.hydrogen/data/kit.h2drumkit'' = ''/home/u/.tar''"
  using gunzipped_name_dotted_dir[of "''/home/u/.hydrogen/data''" "''kit.h2drumkit''"] by simp

text \<open>
  C24. For a data directory and drumkit name free of the characters that stay special
  inside double quotes, \<open>removeDrumkit\<close> hands the shell exactly one command,
  \<open>rm -rf\<close> of the data directory and the name concatenated, and throws
  \<open>H2Exception\<close> exactly when that command fails.
\<close>

theorem removeDrumkit_plain_name:
  assumes "sh_plain (dataDir @ sDrumkitName)"
  shows "System (removeDrumkit_cmd dataDir sDrumkitName) \<in> set (snd (Drumkit_removeDrumkit system dataDir sDrumkitName)) \<and>
    sh_commands (removeDrumkit_cmd dataDir sDrumkitName) = [[''rm'', ''-rf'', dataDir @ sDrumkitName]] \<and>
    (fst (Drumkit_removeDrumkit system dataDir sDrumkitName) = Inr () \<longleftrightarrow>
      system (removeDrumkit_cmd dataDir sDrumkitName) = 0)"
proof -
  have "CHR 0x22 \<notin> set (dataDir @ sDrumkitName)" using assms by (rule sh_plain_no_quote)
  then have "sh_commands (removeDrumkit_cmd dataDir sDrumkitName) = [[''rm'', ''-rf'', dataDir @ sDrumkitName]]"
    unfolding removeDrumkit_cmd_eq by (rule sh_commands_rm)
  then show ?thesis by (simp add: Drumkit_removeDrumkit_def Let_def)
qed

lemma removeDrumkit_plain_name_witness:
  "sh_commands (removeDrumkit_cmd ''/usr/share/hydrogen/data/drumkits/'' ''GMkit; 2'') =
     [[''rm'', ''-rf'', ''/usr/share/hydrogen/data/drumkits/GMkit; 2'']]"
proof -
  have "sh_plain (''/usr/share/hydrogen/data/drumkits/'' @ ''GMkit; 2'')" by (simp add: sh_plain_def)
  from removeDrumkit_plain_name[OF this, of "\<lambda>_. 0"] show ?thesis by simp
qed

text \<open>
  C25. The drumkit name is pasted into the command between double quotes without
  escaping: a name that closes the quote can append any command, here a second
  \<open>rm -rf\<close> of an arbitrary path \<open>p\<close>.
\<close>

theorem removeDrumkit_quote_injection:
  assumes "sh_plain (dataDir @ x)" "sh_plain p"
  shows "sh_commands (removeDrumkit_cmd dataDir (x @ CHR 0x22 # '';rm -rf '' @ CHR 0x22 # p)) =
    [[''rm'', ''-rf'', dataDir @ x], [''rm'', ''-rf'', p]]"
proof -
  have q: "CHR 0x22 \<notin> set (dataDir @ x)" "CHR 0x22 \<notin> set p"
    using assms by (simp_all add: sh_plain_no_quote)
  have "removeDrumkit_cmd dataDir (x @ CHR 0x22 # '';rm -rf '' @ CHR 0x22 # p) =
    ''rm -rf '' @ CHR 0x22 # (dataDir @ x) @ CHR 0x22 # '';'' @ (''rm -rf '' @ CHR 0x22 # p @ CHR 0x22 # [])"
    by (simp add: removeDrumkit_cmd_def)
  moreover have "sh_lex False (Some (dataDir @ x)) ('';'' @ (''rm -rf '' @ CHR 0x22 # p @ CHR 0x22 # [])) =
      ShWord (dataDir @ x) # ShSep # ShWord ''rm'' # ShWord ''-rf'' # [ShWord p]"
    using sh_lex_rm[OF q(2), of "[]"] by (simp add: sh_flush_def)
  ultimately show ?thesis using sh_lex_rm[OF q(1)] by (simp add: sh_commands_def)
qed

lemma removeDrumkit_quote_injection_witness:
  "sh_commands (removeDrumkit_cmd ''/home/u/.hydrogen/data/'' (''kit'' @ CHR 0x22 # '';rm -rf '' @ CHR 0x22 # ''/home/u'')) =
    [[''rm'', ''-rf'', ''/home/u/.hydrogen/data/kit''], [''rm'', ''-rf'', ''/home/u'']]"
proof -
  have "sh_plain (''/home/u/.hydrogen/data/'' @ ''kit'')" "sh_plain ''/home/u''" by (simp_all add: sh_plain_def)
  from removeDrumkit_quote_injection[OF this] show ?thesis by simp
qed

end
