(* ===== verification/DrumkitSave.thy ===== *)
theory DrumkitSave
  imports Complex_Main Drumkit
begin

text \<open>
  \<open>Drumkit::save\<close> of sound_library.cpp (lines 173--236): it builds a new \<open>Drumkit\<close>
  holding a copy of every instrument of the current song, with each layer's sample
  reduced to its file name, hands it to \<open>LocalFileMng::saveDrumkit\<close>, and deletes it,
  unless saving fails, in which case it throws. The instrument classes are declared
  outside the sources; their records hold exactly the members \<open>save\<close> reads and writes,
  and the members the instrument constructor initialises without \<open>save\<close> setting them
  come from a parameter \<open>base\<close>. The envelope is the \<open>ADSR\<close> class of
  \<^verbatim>\<open>src/src/lib/ADSR.h\<close>; its copy constructor (declared there, defined in ADSR.cpp)
  is taken to copy every member. \<open>float\<close> members are \<open>real\<close>: they are only copied.
  A layer whose sample pointer is \<open>NULL\<close> makes \<open>save\<close> dereference it (line 208); that
  undefined behaviour is the outcome \<open>SaveNullSample\<close>, reached before anything is handed
  to \<open>saveDrumkit\<close>.
\<close>

section \<open>Envelope data (ADSR.h)\<close>

datatype ADSRState = ATTACK | DECAY | SUSTAIN | RELEASE | IDLE

record ADSR =
  m_fAttack :: real
  m_fDecay :: real
  m_fSustain :: real
  m_fRelease :: real
  m_state :: ADSRState
  m_fTicks :: real
  m_fValue :: real
  m_fReleaseValue :: real

section \<open>Instruments\<close>

record Sample =
  sample_filename :: string
  sample_nFrames :: nat

text \<open>A layer points to its sample; the pointer may be \<open>NULL\<close> (\<open>None\<close>), which
  \<open>Drumkit::dump\<close> tests for (line 116).\<close>

record InstrumentLayer =
  layer_sample :: "Sample option"
  layer_gain :: real
  layer_pitch :: real
  layer_start_velocity :: real
  layer_end_velocity :: real

record Instrument =
  instr_id :: string
  instr_name :: string
  instr_adsr :: ADSR
  instr_volume :: real
  instr_pan_l :: real
  instr_pan_r :: real
  instr_muted :: bool
  instr_random_pitch_factor :: real
  instr_mute_group :: int
  instr_filter_active :: bool
  instr_filter_cutoff :: real
  instr_filter_resonance :: real
  instr_drumkit_name :: string
  instr_layers :: "InstrumentLayer option list"

section \<open>The drumkit object\<close>

text \<open>
  The \<open>Drumkit\<close> class of sound_library.cpp: name, author, information and the pointer
  \<open>m_pInstrumentList\<close> (\<open>None\<close> is \<open>NULL\<close>). The constructor (lines 61--65) leaves
  the strings empty (\<open>QString()\<close>) and the pointer \<open>NULL\<close>.
\<close>

record DrumkitObj =
  m_sName :: string
  m_sAuthor :: string
  m_sInfo :: string
  m_pInstrumentList :: "Instrument list option"

definition Drumkit_ctor :: DrumkitObj where
  "Drumkit_ctor = \<lparr>m_sName = [], m_sAuthor = [], m_sInfo = [], m_pInstrumentList = None\<rparr>"

text \<open>\<open>MAX_LAYERS\<close> of hydrogen/globals.h.\<close>

definition MAX_LAYERS :: nat where "MAX_LAYERS = 16"

section \<open>The copy\<close>

text \<open>
  Lines 206--213: a layer becomes a new layer around \<open>new Sample(0, filename)\<close> with the
  old layer's gain, pitch and velocity range. Reading the file name dereferences the old
  sample pointer without a check: \<open>None\<close> is that null dereference.
\<close>

definition copy_layer :: "InstrumentLayer \<Rightarrow> InstrumentLayer option" where
  "copy_layer l = map_option (\<lambda>pSample.
     \<lparr>layer_sample = Some \<lparr>sample_filename = sample_filename pSample, sample_nFrames = 0\<rparr>,
      layer_gain = layer_gain l, layer_pitch = layer_pitch l,
      layer_start_velocity = layer_start_velocity l, layer_end_velocity = layer_end_velocity l\<rparr>)
     (layer_sample l)"

text \<open>The layer loop (lines 203--219): \<open>set_layer\<close> of the copy or of \<open>NULL\<close>, slot by slot;
  \<open>None\<close> when a copy dereferences a null sample.\<close>

fun copy_layers :: "Instrument \<Rightarrow> Instrument \<Rightarrow> nat list \<Rightarrow> Instrument option" where
  "copy_layers old new [] = Some new"
| "copy_layers old new (nLayer # ns) =
     (case instr_layers old ! nLayer of
        None \<Rightarrow> copy_layers old (new\<lparr>instr_layers := (instr_layers new)[nLayer := None]\<rparr>) ns
      | Some pOldLayer \<Rightarrow> (case copy_layer pOldLayer of
          None \<Rightarrow> None
        | Some pLayer \<Rightarrow> copy_layers old (new\<lparr>instr_layers := (instr_layers new)[nLayer := Some pLayer]\<rparr>) ns))"

text \<open>
  Lines 187--220: the constructor \<open>Instrument(id, name, new ADSR(adsr))\<close> on top of the
  constructor's defaults \<open>base\<close>, then the nine setters and the layer loop. The drumkit
  name is read into \<open>sInstrDrumkit\<close> (line 201) and never used.
\<close>

definition copy_instrument :: "Instrument \<Rightarrow> Instrument \<Rightarrow> Instrument option" where
  "copy_instrument base old =
     copy_layers old
       (base\<lparr>instr_id := instr_id old, instr_name := instr_name old, instr_adsr := instr_adsr old,
             instr_volume := instr_volume old, instr_pan_l := instr_pan_l old, instr_pan_r := instr_pan_r old,
             instr_muted := instr_muted old, instr_random_pitch_factor := instr_random_pitch_factor old,
             instr_mute_group := instr_mute_group old, instr_filter_active := instr_filter_active old,
             instr_filter_cutoff := instr_filter_cutoff old,
             instr_filter_resonance := instr_filter_resonance old\<rparr>)
       [0..<MAX_LAYERS]"

text \<open>
  The whole function. \<open>saveDrumkit\<close> is the result \<open>LocalFileMng::saveDrumkit\<close>
  returns for the drumkit it is given; the trace records the log lines, the drumkit handed
  to \<open>saveDrumkit\<close> and the final \<open>delete pDrumkitInfo\<close>. The outcome is a normal
  return, the exception thrown at line 229, or the null dereference of line 208.
\<close>

datatype save_call = SaveLogInfo string | SaveLogError string | SaveDrumkit DrumkitObj | DeleteDrumkit

datatype save_outcome = SaveReturned | SaveThrows h2_exception | SaveNullSample

definition Drumkit_save ::
  "(DrumkitObj \<Rightarrow> int) \<Rightarrow> Instrument \<Rightarrow> string \<Rightarrow> string \<Rightarrow> string \<Rightarrow> Instrument list \<Rightarrow>
   save_outcome \<times> save_call list" where
  "Drumkit_save saveDrumkit base sName sAuthor sInfo songInstruments = (
     case those (map (copy_instrument base) songInstruments) of
       None \<Rightarrow> (SaveNullSample, [SaveLogInfo ''Saving drumkit''])
     | Some pInstrumentList \<Rightarrow>
         (let pDrumkitInfo = Drumkit_ctor\<lparr>m_sName := sName, m_sAuthor := sAuthor, m_sInfo := sInfo,
                               m_pInstrumentList := Some pInstrumentList\<rparr>;
              tr = [SaveLogInfo ''Saving drumkit'', SaveDrumkit pDrumkitInfo]
          in if saveDrumkit pDrumkitInfo \<noteq> 0
             then (SaveThrows (H2Exception ''Error saving the drumkit''), tr @ [SaveLogError ''Error saving the drumkit''])
             else (SaveReturned, tr @ [DeleteDrumkit])))"

text \<open>Every layer of an instrument has a sample.\<close>

definition samples_present :: "Instrument \<Rightarrow> bool" where
  "samples_present i = list_all (\<lambda>x. case x of None \<Rightarrow> True | Some l \<Rightarrow> layer_sample l \<noteq> None) (instr_layers i)"

text \<open>What a saved instrument is meant to keep: everything but the sample data and the
  drumkit name.\<close>

definition layer_view :: "InstrumentLayer \<Rightarrow> InstrumentLayer" where
  "layer_view l = l\<lparr>layer_sample := map_option (\<lambda>s. s\<lparr>sample_nFrames := 0\<rparr>) (layer_sample l)\<rparr>"

definition instr_view :: "Instrument \<Rightarrow> Instrument" where
  "instr_view i = i\<lparr>instr_drumkit_name := [], instr_layers := map (map_option layer_view) (instr_layers i)\<rparr>"

text \<open>An instrument for the concrete checks: a kick with one layer in slot 0.\<close>

definition instrument_example :: Instrument where
  "instrument_example =
     \<lparr>instr_id = ''0'', instr_name = ''Kick'',
      instr_adsr = \<lparr>m_fAttack = 0, m_fDecay = 0, m_fSustain = 1, m_fRelease = 1000, m_state = ATTACK,
                    m_fTicks = 0, m_fValue = 0, m_fReleaseValue = 0\<rparr>,
      instr_volume = 1, instr_pan_l = 1, instr_pan_r = 1, instr_muted = False, instr_random_pitch_factor = 0,
      instr_mute_group = -1, instr_filter_active = False, instr_filter_cutoff = 1, instr_filter_resonance = 0,
      instr_drumkit_name = ''GMkit'',
      instr_layers = Some \<lparr>layer_sample = Some \<lparr>sample_filename = ''kick.wav'', sample_nFrames = 4410\<rparr>,
        layer_gain = 1, layer_pitch = 0, layer_start_velocity = 0, layer_end_velocity = 1\<rparr>
        # replicate (MAX_LAYERS - 1) None\<rparr>"

section \<open>The layer loop\<close>

lemma copy_layers_eq:
  "copy_layers old new ns =
     (if \<exists>n\<in>set ns. \<exists>l. instr_layers old ! n = Some l \<and> layer_sample l = None then None
      else Some (new\<lparr>instr_layers := foldl (\<lambda>ls n. ls[n := Option.bind (instr_layers old ! n) copy_layer])
                                         (instr_layers new) ns\<rparr>))"
proof (induction ns arbitrary: new)
  case (Cons n ns)
  show ?case
  proof (cases "instr_layers old ! n")
    case (Some l)
    show ?thesis
    proof (cases "copy_layer l")
      case None
      then have "layer_sample l = None" by (simp add: copy_layer_def)
      with Some None show ?thesis by auto
    next
      case (Some l')
      then have "layer_sample l \<noteq> None" by (auto simp: copy_layer_def)
      with \<open>instr_layers old ! n = Some l\<close> Some Cons[of "new\<lparr>instr_layers := (instr_layers new)[n := Some l']\<rparr>"]
      show ?thesis by auto
    qed
  qed (use Cons in simp)
qed simp

lemma foldl_update_nth:
  "length (foldl (\<lambda>ls n. ls[n := g n]) ls ns) = length ls \<and>
   (\<forall>k<length ls. foldl (\<lambda>ls n. ls[n := g n]) ls ns ! k = (if k \<in> set ns then g k else ls ! k))"
  by (induction ns arbitrary: ls) (auto simp: nth_list_update)

lemma copy_layers_all:
  assumes "length (instr_layers new) = MAX_LAYERS" "length (instr_layers old) = MAX_LAYERS"
  shows "copy_layers old new [0..<MAX_LAYERS] =
    (if samples_present old then Some (new\<lparr>instr_layers := map (\<lambda>x. Option.bind x copy_layer) (instr_layers old)\<rparr>)
     else None)"
proof -
  have "(\<exists>n\<in>set [0..<MAX_LAYERS]. \<exists>l. instr_layers old ! n = Some l \<and> layer_sample l = None) \<longleftrightarrow>
      \<not> samples_present old"
    using assms(2) by (fastforce simp: samples_present_def list_all_length split: option.splits)
  moreover have "foldl (\<lambda>ls n. ls[n := Option.bind (instr_layers old ! n) copy_layer]) (instr_layers new) [0..<MAX_LAYERS] =
      map (\<lambda>x. Option.bind x copy_layer) (instr_layers old)"
    using foldl_update_nth[of "\<lambda>n. Option.bind (instr_layers old ! n) copy_layer" "instr_layers new" "[0..<MAX_LAYERS]"] assms
    by (intro nth_equalityI) auto
  ultimately show ?thesis by (simp add: copy_layers_eq)
qed


lemma copy_instrument_eq:
  assumes "length (instr_layers base) = MAX_LAYERS" "length (instr_layers old) = MAX_LAYERS"
  shows "copy_instrument base old = (if samples_present old then Some
    (base\<lparr>instr_id := instr_id old, instr_name := instr_name old, instr_adsr := instr_adsr old,
          instr_volume := instr_volume old, instr_pan_l := instr_pan_l old, instr_pan_r := instr_pan_r old,
          instr_muted := instr_muted old, instr_random_pitch_factor := instr_random_pitch_factor old,
          instr_mute_group := instr_mute_group old, instr_filter_active := instr_filter_active old,
          instr_filter_cutoff := instr_filter_cutoff old, instr_filter_resonance := instr_filter_resonance old,
          instr_layers := map (\<lambda>x. Option.bind x copy_layer) (instr_layers old)\<rparr>) else None)"
  unfolding copy_instrument_def by (subst copy_layers_all) (simp_all add: assms)

lemma copy_layer_view:
  "(case x of None \<Rightarrow> True | Some l \<Rightarrow> layer_sample l \<noteq> None) \<Longrightarrow>
     map_option layer_view (Option.bind x copy_layer) = map_option layer_view x"
  by (auto simp: layer_view_def copy_layer_def split: option.splits)

lemma copy_layer_frames:
  assumes "Some l = Option.bind x copy_layer"
  shows "map_option sample_nFrames (layer_sample l) = Some 0"
proof -
  obtain a s where "x = Some a" "layer_sample a = Some s" using assms
    by (cases x; cases "layer_sample (the x)") (simp_all add: copy_layer_def)
  with assms show ?thesis by (simp add: copy_layer_def)
qed

lemma copy_instrument_view:
  assumes "length (instr_layers base) = MAX_LAYERS" "length (instr_layers old) = MAX_LAYERS" "samples_present old"
  shows "\<exists>j. copy_instrument base old = Some j \<and> instr_view j = instr_view old \<and>
    instr_drumkit_name j = instr_drumkit_name base \<and>
    (\<forall>l. Some l \<in> set (instr_layers j) \<longrightarrow> map_option sample_nFrames (layer_sample l) = Some 0)"
proof -
  have "map (map_option layer_view) (map (\<lambda>x. Option.bind x copy_layer) (instr_layers old)) =
      map (map_option layer_view) (instr_layers old)"
    using assms(3) by (auto simp: samples_present_def list_all_iff copy_layer_view)
  then show ?thesis using assms by (auto simp: copy_instrument_eq instr_view_def dest: copy_layer_frames)
qed

lemma those_map_None: "those (map f xs) = None \<longleftrightarrow> (\<exists>x\<in>set xs. f x = None)"
  by (induction xs) (auto split: option.splits)

section \<open>Properties of saving\<close>

text \<open>
  C28. When every layer of every song instrument has a sample, the drumkit \<open>save\<close> hands to
  \<open>saveDrumkit\<close> has the given name, author and information, and one instrument per song
  instrument, in order, equal to it in every member but two: every layer's sample keeps
  only its file name, and the drumkit name is not copied (the constructor's value stays),
  although \<open>save\<close> reads it.
\<close>

theorem save_copies_instruments:
  assumes "length (instr_layers base) = MAX_LAYERS"
    and "list_all (\<lambda>i. length (instr_layers i) = MAX_LAYERS \<and> samples_present i) songInstruments"
  shows "\<exists>kit l. SaveDrumkit kit \<in> set (snd (Drumkit_save saveDrumkit base sName sAuthor sInfo songInstruments)) \<and>
    m_sName kit = sName \<and> m_sAuthor kit = sAuthor \<and> m_sInfo kit = sInfo \<and> m_pInstrumentList kit = Some l \<and>
    map instr_view l = map instr_view songInstruments \<and>
    (\<forall>j\<in>set l. instr_drumkit_name j = instr_drumkit_name base \<and>
       (\<forall>x. Some x \<in> set (instr_layers j) \<longrightarrow> map_option sample_nFrames (layer_sample x) = Some 0))"
  using assms(2)
proof (induction songInstruments)
  case Nil
  then show ?case by (simp add: Drumkit_save_def Drumkit_ctor_def Let_def)
next
  case (Cons i ins)
  obtain j where j: "copy_instrument base i = Some j" "instr_view j = instr_view i"
    "instr_drumkit_name j = instr_drumkit_name base"
    "\<forall>l. Some l \<in> set (instr_layers j) \<longrightarrow> map_option sample_nFrames (layer_sample l) = Some 0"
    using copy_instrument_view[OF assms(1), of i] Cons.prems by auto
  have "list_all (\<lambda>i. length (instr_layers i) = MAX_LAYERS \<and> samples_present i) ins" using Cons.prems by simp
  from Cons.IH[OF this] obtain kit l where k: "SaveDrumkit kit \<in> set (snd (Drumkit_save saveDrumkit base sName sAuthor sInfo ins))"
    "m_pInstrumentList kit = Some l" "map instr_view l = map instr_view ins"
    "\<forall>j\<in>set l. instr_drumkit_name j = instr_drumkit_name base \<and>
       (\<forall>x. Some x \<in> set (instr_layers j) \<longrightarrow> map_option sample_nFrames (layer_sample x) = Some 0)"
    by blast
  then have "those (map (copy_instrument base) ins) = Some l"
    by (auto simp: Drumkit_save_def Drumkit_ctor_def Let_def split: option.splits if_splits)
  with j k(3,4) show ?case by (auto simp: Drumkit_save_def Drumkit_ctor_def Let_def)
qed

lemma save_copies_instruments_witness:
  "\<exists>kit l. SaveDrumkit kit \<in> set (snd (Drumkit_save (\<lambda>_. 0)
      (instrument_example\<lparr>instr_layers := replicate MAX_LAYERS None, instr_drumkit_name := []\<rparr>)
      ''MyKit'' ''me'' ''demo'' [instrument_example])) \<and> m_pInstrumentList kit = Some l \<and>
    map instr_view l = map instr_view [instrument_example] \<and>
    (\<forall>j\<in>set l. instr_drumkit_name j = [])"
proof -
  have "length (instr_layers (instrument_example\<lparr>instr_layers := replicate MAX_LAYERS None, instr_drumkit_name := []\<rparr>)) = MAX_LAYERS"
    by simp
  moreover have "list_all (\<lambda>i. length (instr_layers i) = MAX_LAYERS \<and> samples_present i) [instrument_example]"
    by (simp add: instrument_example_def MAX_LAYERS_def samples_present_def list_all_iff)
  ultimately show ?thesis
    using save_copies_instruments[of "instrument_example\<lparr>instr_layers := replicate MAX_LAYERS None, instr_drumkit_name := []\<rparr>"
        "[instrument_example]" "\<lambda>_. 0" "''MyKit''" "''me''" "''demo''"]
    by fastforce
qed

text \<open>
  C29. \<open>save\<close> dereferences a \<open>NULL\<close> sample exactly when some layer of a song instrument
  has none, and then nothing has been handed to \<open>saveDrumkit\<close>. Otherwise it throws
  exactly when \<open>saveDrumkit\<close> fails, and on that path it never deletes the drumkit it
  allocated (nor the instrument list, instruments, layers and samples it owns).
\<close>

theorem save_error_leaks:
  assumes "length (instr_layers base) = MAX_LAYERS"
    and "list_all (\<lambda>i. length (instr_layers i) = MAX_LAYERS) songInstruments"
  shows "(fst (Drumkit_save saveDrumkit base sName sAuthor sInfo songInstruments) = SaveNullSample \<longleftrightarrow>
       \<not> list_all samples_present songInstruments) \<and>
    (\<not> list_all samples_present songInstruments \<longrightarrow>
       snd (Drumkit_save saveDrumkit base sName sAuthor sInfo songInstruments) = [SaveLogInfo ''Saving drumkit'']) \<and>
    (list_all samples_present songInstruments \<longrightarrow>
     (\<exists>kit. SaveDrumkit kit \<in> set (snd (Drumkit_save saveDrumkit base sName sAuthor sInfo songInstruments)) \<and>
       fst (Drumkit_save saveDrumkit base sName sAuthor sInfo songInstruments) =
         (if saveDrumkit kit = 0 then SaveReturned else SaveThrows (H2Exception ''Error saving the drumkit'')) \<and>
       (DeleteDrumkit \<in> set (snd (Drumkit_save saveDrumkit base sName sAuthor sInfo songInstruments)) \<longleftrightarrow>
          saveDrumkit kit = 0)))"
proof -
  have none: "those (map (copy_instrument base) songInstruments) = None \<longleftrightarrow> \<not> list_all samples_present songInstruments"
    using assms by (auto simp: those_map_None list_all_iff copy_instrument_eq)
  show ?thesis
  proof (cases "those (map (copy_instrument base) songInstruments)")
    case None
    with none show ?thesis by (simp add: Drumkit_save_def)
  next
    case (Some l)
    with none show ?thesis by (auto simp: Drumkit_save_def Let_def)
  qed
qed

lemma save_error_leaks_witness:
  "Drumkit_save (\<lambda>_. 1) (instrument_example\<lparr>instr_layers := replicate MAX_LAYERS None\<rparr>) ''MyKit'' ''me'' ''demo''
     [instrument_example\<lparr>instr_layers := Some \<lparr>layer_sample = None, layer_gain = 1, layer_pitch = 0,
        layer_start_velocity = 0, layer_end_velocity = 1\<rparr> # replicate (MAX_LAYERS - 1) None\<rparr>] =
   (SaveNullSample, [SaveLogInfo ''Saving drumkit''])"
proof -
  let ?i = "instrument_example\<lparr>instr_layers := Some \<lparr>layer_sample = None, layer_gain = 1, layer_pitch = 0,
        layer_start_velocity = 0, layer_end_velocity = 1\<rparr> # replicate (MAX_LAYERS - 1) None\<rparr>"
  have b: "length (instr_layers (instrument_example\<lparr>instr_layers := replicate MAX_LAYERS None\<rparr>)) = MAX_LAYERS" by simp
  have l: "list_all (\<lambda>i. length (instr_layers i) = MAX_LAYERS) [?i]" by (simp add: MAX_LAYERS_def)
  have n: "\<not> list_all samples_present [?i]" by (simp add: samples_present_def)
  show ?thesis using save_error_leaks[OF b l, of "\<lambda>_. 1" "''MyKit''" "''me''" "''demo''"] n
    by (metis prod.collapse)
qed

end
