(* ===== verification/DrumkitObject.thy ===== *)
theory DrumkitObject
  imports DrumkitSave
begin

text \<open>
  The operations of the \<open>Drumkit\<close> object of sound_library.cpp besides \<open>install\<close>,
  \<open>removeDrumkit\<close> and \<open>save\<close>: the destructor (lines 69--72), \<open>load\<close> and the two
  drumkit lists (lines 77--97), and \<open>dump\<close> (lines 101--128). The first three only call
  \<open>LocalFileMng\<close>, whose code is not part of the sources: its three operations are the
  fields of the interface record \<open>LocalFileMng\<close>, a parameter of the three functions,
  as \<open>saveDrumkit\<close> is of \<open>save\<close>. \<open>dump\<close> is modelled by the sequence of messages it hands to
  \<open>INFOLOG\<close>, and the null dereference it performs on a drumkit without instrument list
  as an error value after the messages written before it.
\<close>

text \<open>
  \<open>Instrument::get_layer\<close> reads the instrument's array of \<open>MAX_LAYERS\<close> slots; the
  slots a model instrument does not list are empty (\<open>NULL\<close>).
\<close>

definition get_layer :: "Instrument \<Rightarrow> nat \<Rightarrow> InstrumentLayer option" where
  "get_layer i n = (if n < length (instr_layers i) then instr_layers i ! n else None)"

text \<open>\<open>to_string\<close> of an unsigned counter: its decimal digits.\<close>

fun to_string :: "nat \<Rightarrow> string" where
  "to_string n = (if n < 10 then [] else to_string (n div 10)) @ [char_of (48 + n mod 10)]"

declare to_string.simps [simp del]

definition TAB :: char where "TAB = CHR 0x09"

datatype dump_fault = NullInstrumentList

section \<open>Destructor, load and the drumkit lists\<close>

text \<open>\<open>~Drumkit\<close> deletes its instrument list; the model returns what it frees (\<open>None\<close>:
  \<open>delete NULL\<close>, which frees nothing).\<close>

definition Drumkit_dtor :: "DrumkitObj \<Rightarrow> Instrument list option" where
  "Drumkit_dtor d = m_pInstrumentList d"

text \<open>The interface of \<open>LocalFileMng\<close> the drumkit functions use: \<open>loadDrumkit\<close>
  returns a new drumkit or \<open>NULL\<close>, the lists return directory names.\<close>

record LocalFileMng =
  loadDrumkit :: "string \<Rightarrow> DrumkitObj option"
  getUserDrumkitList :: "string list"
  getSystemDrumkitList :: "string list"

definition Drumkit_load :: "LocalFileMng \<Rightarrow> string \<Rightarrow> DrumkitObj option" where
  "Drumkit_load mng sFilename = loadDrumkit mng sFilename"

definition Drumkit_getUserDrumkitList :: "LocalFileMng \<Rightarrow> string list" where
  "Drumkit_getUserDrumkitList mng = getUserDrumkitList mng"

definition Drumkit_getSystemDrumkitList :: "LocalFileMng \<Rightarrow> string list" where
  "Drumkit_getSystemDrumkitList mng = getSystemDrumkitList mng"

section \<open>Dump\<close>

text \<open>The inner loop (lines 112--125): one line per layer slot.\<close>

fun dump_layers :: "Instrument \<Rightarrow> nat list \<Rightarrow> string list" where
  "dump_layers pInstr [] = []"
| "dump_layers pInstr (nLayer # ns) =
     (case get_layer pInstr nLayer of
        Some pLayer \<Rightarrow> (case layer_sample pLayer of
            Some pSample \<Rightarrow> [TAB, TAB] @ ''   |- '' @ sample_filename pSample
          | None \<Rightarrow> [TAB, TAB] @ ''   |- NULL sample'')
      | None \<Rightarrow> [TAB, TAB] @ ''   |- NULL Layer'') # dump_layers pInstr ns"

text \<open>The outer loop (lines 109--127); \<open>sz\<close> is \<open>m_pInstrumentList->get_size()\<close>.\<close>

fun dump_instruments :: "nat \<Rightarrow> nat \<Rightarrow> Instrument list \<Rightarrow> string list" where
  "dump_instruments sz nInstrument [] = []"
| "dump_instruments sz nInstrument (pInstr # pis) =
     ([TAB, TAB] @ ''|- ('' @ to_string nInstrument @ '' of '' @ to_string sz @ '') Name = '' @ instr_name pInstr)
     # dump_layers pInstr [0..<MAX_LAYERS] @ dump_instruments sz (Suc nInstrument) pis"

definition Drumkit_dump :: "DrumkitObj \<Rightarrow> (dump_fault + unit) \<times> string list" where
  "Drumkit_dump d = (
     let hdr = [''Drumkit dump'', TAB # ''|- Name = '' @ m_sName d, TAB # ''|- Author = '' @ m_sAuthor d,
                TAB # ''|- Info = '' @ m_sInfo d, TAB # ''|- Instrument list'']
     in case m_pInstrumentList d of
          None \<Rightarrow> (Inl NullInstrumentList, hdr)
        | Some l \<Rightarrow> (Inr (), hdr @ dump_instruments (length l) 0 l))"

section \<open>Properties\<close>

lemma length_dump_layers [simp]: "length (dump_layers i ns) = length ns"
  by (induction ns) simp_all

lemma length_dump_instruments [simp]:
  "length (dump_instruments sz n pis) = length pis * (1 + MAX_LAYERS)"
  by (induction pis arbitrary: n) simp_all

text \<open>With an instrument list, \<open>dump\<close> writes the five header lines and, per instrument, a
  title line and one line per layer slot.\<close>

lemma Drumkit_dump_ok:
  "m_pInstrumentList d = Some l \<Longrightarrow>
     fst (Drumkit_dump d) = Inr () \<and>
     length (snd (Drumkit_dump d)) = 5 + length l * (1 + MAX_LAYERS)"
  by (simp add: Drumkit_dump_def)

lemma Drumkit_dump_faults:
  "fst (Drumkit_dump d) = Inl NullInstrumentList \<longleftrightarrow> m_pInstrumentList d = None"
  by (simp add: Drumkit_dump_def Let_def split: option.split)

text \<open>Composition with \<open>save\<close>: when \<open>save\<close> gets as far as \<open>saveDrumkit\<close>, the
  drumkit it hands over has an instrument list, so it can be dumped: one title line and
  \<open>MAX_LAYERS\<close> layer lines per song instrument after the header.\<close>

lemma save_then_dump:
  "SaveDrumkit kit \<in> set (snd (Drumkit_save saveDrumkit base sName sAuthor sInfo songInstruments)) \<Longrightarrow>
     fst (Drumkit_dump kit) = Inr () \<and>
     length (snd (Drumkit_dump kit)) = 5 + length songInstruments * (1 + MAX_LAYERS)"
  by (auto simp: Drumkit_save_def Drumkit_ctor_def Drumkit_dump_def Let_def dest: those_Some_length
      split: option.splits if_splits)

text \<open>
  C31. \<open>dump\<close> dereferences \<open>m_pInstrumentList\<close> without a check: on a drumkit that has no
  instrument list, which is what the constructor builds, it writes the five header lines
  and then reads through a null pointer.
\<close>

theorem Drumkit_dump_null_list:
  assumes "m_pInstrumentList d = None"
  shows "Drumkit_dump d = (Inl NullInstrumentList,
    [''Drumkit dump'', TAB # ''|- Name = '' @ m_sName d, TAB # ''|- Author = '' @ m_sAuthor d,
     TAB # ''|- Info = '' @ m_sInfo d, TAB # ''|- Instrument list''])"
  using assms by (simp add: Drumkit_dump_def)

lemma Drumkit_dump_null_list_witness:
  "Drumkit_dump Drumkit_ctor = (Inl NullInstrumentList,
    [''Drumkit dump'', TAB # ''|- Name = '', TAB # ''|- Author = '', TAB # ''|- Info = '',
     TAB # ''|- Instrument list''])"
  using Drumkit_dump_null_list[of Drumkit_ctor] by (simp add: Drumkit_ctor_def)

end
