(* ===== verification/Preferences.thy ===== *)
theory Preferences
  imports Complex_Main Prelude
begin

text \<open>
  The user preferences of \<^verbatim>\<open>src/libs/hydrogen/include/hydrogen/Preferences.h\<close>:
  the value classes \<open>WindowProperties\<close>, \<open>H2RGBColor\<close> and \<open>UIStyle\<close> as
  records, the singleton \<open>Preferences\<close> as a record of all its data members, and one
  definition per inline accessor of the header (getters read a field, setters return the
  record with the field replaced). The fixed array \<open>m_ladspaProperties[MAX_FX]\<close> is
  a list of length \<open>MAX_FX\<close>; its two accessors do not check the index, and an index
  out of range, undefined behaviour in C++, is \<open>None\<close>. The setters are collected as
  a \<open>pref_op\<close> datatype with a step function: the interface through which the rest of
  the program changes preferences. Loading and saving the XML file, the singleton's
  construction and \<open>setRecentFiles\<close> are defined in Preferences.cpp, which is not
  part of the sources.
\<close>

section \<open>Constants\<close>

text \<open>The meter falloff speeds (lines 40--42), \<open>float\<close> constants written as the decimal
  values of the source; like every \<open>float\<close> of the model they are only stored and copied.\<close>

definition FALLOFF_SLOW :: real where "FALLOFF_SLOW = 1.08"
definition FALLOFF_NORMAL :: real where "FALLOFF_NORMAL = 1.1"
definition FALLOFF_FAST :: real where "FALLOFF_FAST = 1.5"

text \<open>The two unnamed enumerations of \<open>Preferences\<close> (lines 129--138): the JACK transport
  modes and the track output modes stored in \<open>m_nJackTrackOutputMode\<close>.\<close>

definition USE_JACK_TRANSPORT :: c_int where "USE_JACK_TRANSPORT = 0"
definition NO_JACK_TRANSPORT :: c_int where "NO_JACK_TRANSPORT = 1"
definition POST_FADER :: c_int where "POST_FADER = 0"
definition PRE_FADER :: c_int where "PRE_FADER = 1"

section \<open>Value classes\<close>

text \<open>\<open>WindowProperties\<close> (lines 48--59); its members \<open>x\<close>, \<open>y\<close>,
  \<open>width\<close>, \<open>height\<close>, \<open>visible\<close> carry the prefix \<open>wp_\<close>.\<close>

record WindowProperties =
  wp_x :: c_int
  wp_y :: c_int
  wp_width :: c_int
  wp_height :: c_int
  wp_visible :: bool

text \<open>\<open>H2RGBColor\<close> (lines 65--89) and its getters.\<close>

record H2RGBColor =
  m_red :: c_int
  m_green :: c_int
  m_blue :: c_int

definition getRed :: "H2RGBColor \<Rightarrow> c_int" where "getRed c = m_red c"
definition getGreen :: "H2RGBColor \<Rightarrow> c_int" where "getGreen c = m_green c"
definition getBlue :: "H2RGBColor \<Rightarrow> c_int" where "getBlue c = m_blue c"

text \<open>\<open>UIStyle\<close> (lines 96--118).\<close>

record UIStyle =
  m_songEditor_backgroundColor :: H2RGBColor
  m_songEditor_alternateRowColor :: H2RGBColor
  m_songEditor_selectedRowColor :: H2RGBColor
  m_songEditor_lineColor :: H2RGBColor
  m_songEditor_textColor :: H2RGBColor
  m_songEditor_pattern1Color :: H2RGBColor
  m_patternEditor_backgroundColor :: H2RGBColor
  m_patternEditor_alternateRowColor :: H2RGBColor
  m_patternEditor_selectedRowColor :: H2RGBColor
  m_patternEditor_textColor :: H2RGBColor
  m_patternEditor_noteColor :: H2RGBColor
  m_patternEditor_lineColor :: H2RGBColor
  m_patternEditor_line1Color :: H2RGBColor
  m_patternEditor_line2Color :: H2RGBColor
  m_patternEditor_line3Color :: H2RGBColor
  m_patternEditor_line4Color :: H2RGBColor
  m_patternEditor_line5Color :: H2RGBColor

text \<open>The number of effect slots, \<open>MAX_FX\<close> of hydrogen/globals.h.\<close>

definition MAX_FX :: nat where "MAX_FX = 4"

section \<open>The preferences singleton\<close>

text \<open>
  The data members of \<open>Preferences\<close> (public lines 140--176, private lines 409--449);
  \<open>float\<close> members are \<open>real\<close> (they are only stored and returned), the
  \<open>UIStyle*\<close> member is the style it points to.
\<close>

record Preferences =
  m_sPreferencesFilename :: string
  m_sPreferencesDirectory :: string
  m_bFollowPlayhead :: bool
  sServerList :: "string list"
  m_sAudioDriver :: string
  m_bUseMetronome :: bool
  m_fMetronomeVolume :: real
  m_nMaxNotes :: c_unsigned
  m_nBufferSize :: c_unsigned
  m_nSampleRate :: c_unsigned
  m_sOSSDevice :: string
  m_sMidiDriver :: string
  m_sMidiPortName :: string
  m_nMidiChannelFilter :: c_int
  m_bMidiNoteOffIgnore :: bool
  m_bUseMidiTransport :: bool
  m_sAlsaAudioDevice :: string
  m_sJackPortName1 :: string
  m_sJackPortName2 :: string
  m_bJackTransportMode :: bool
  m_bJackConnectDefaults :: bool
  m_nJackTrackOutputMode :: c_int
  m_sDefaultEditor :: string
  m_sDataDirectory :: string
  demoPath :: string
  restoreLastSong :: bool
  m_bShowDevelWarning :: bool
  lastSongFilename :: string
  hearNewNotes :: bool
  m_recentFiles :: "string list"
  m_ladspaPathVect :: "string list"
  quantizeEvents :: bool
  recordEvents :: bool
  m_sLastNews :: string
  m_sQTStyle :: string
  applicationFontFamily :: string
  applicationFontPointSize :: c_int
  mixerFontFamily :: string
  mixerFontPointSize :: c_int
  mixerFalloffSpeed :: real
  m_nPatternEditorGridResolution :: c_int
  m_bPatternEditorUsingTriplets :: bool
  m_bShowInstrumentPeaks :: bool
  m_bIsFXTabVisible :: bool
  m_nPatternEditorGridHeight :: c_unsigned
  m_nPatternEditorGridWidth :: c_unsigned
  mainFormProperties :: WindowProperties
  mixerProperties :: WindowProperties
  patternEditorProperties :: WindowProperties
  songEditorProperties :: WindowProperties
  drumkitManagerProperties :: WindowProperties
  audioEngineInfoProperties :: WindowProperties
  m_ladspaProperties :: "WindowProperties list"
  m_pDefaultUIStyle :: UIStyle

section \<open>Accessors\<close>

text \<open>The inline getters of Preferences.h return the field (by value or by constant reference).\<close>

definition getDemoPath :: "Preferences \<Rightarrow> string" where
  "getDemoPath p = demoPath p"

definition getDataDirectory :: "Preferences \<Rightarrow> string" where
  "getDataDirectory p = m_sDataDirectory p"

definition getDefaultEditor :: "Preferences \<Rightarrow> string" where
  "getDefaultEditor p = m_sDefaultEditor p"

definition getShowDevelWarning :: "Preferences \<Rightarrow> bool" where
  "getShowDevelWarning p = m_bShowDevelWarning p"

definition isRestoreLastSongEnabled :: "Preferences \<Rightarrow> bool" where
  "isRestoreLastSongEnabled p = restoreLastSong p"

definition getLastSongFilename :: "Preferences \<Rightarrow> string" where
  "getLastSongFilename p = lastSongFilename p"

definition getHearNewNotes :: "Preferences \<Rightarrow> bool" where
  "getHearNewNotes p = hearNewNotes p"

definition getRecordEvents :: "Preferences \<Rightarrow> bool" where
  "getRecordEvents p = recordEvents p"

definition getQuantizeEvents :: "Preferences \<Rightarrow> bool" where
  "getQuantizeEvents p = quantizeEvents p"

definition getRecentFiles :: "Preferences \<Rightarrow> string list" where
  "getRecentFiles p = m_recentFiles p"

definition getLadspaPath :: "Preferences \<Rightarrow> string list" where
  "getLadspaPath p = m_ladspaPathVect p"

definition getLastNews :: "Preferences \<Rightarrow> string" where
  "getLastNews p = m_sLastNews p"

definition getQTStyle :: "Preferences \<Rightarrow> string" where
  "getQTStyle p = m_sQTStyle p"

definition getApplicationFontFamily :: "Preferences \<Rightarrow> string" where
  "getApplicationFontFamily p = applicationFontFamily p"

definition getApplicationFontPointSize :: "Preferences \<Rightarrow> c_int" where
  "getApplicationFontPointSize p = applicationFontPointSize p"

definition getMixerFontFamily :: "Preferences \<Rightarrow> string" where
  "getMixerFontFamily p = mixerFontFamily p"

definition getMixerFontPointSize :: "Preferences \<Rightarrow> c_int" where
  "getMixerFontPointSize p = mixerFontPointSize p"

definition getMixerFalloffSpeed :: "Preferences \<Rightarrow> real" where
  "getMixerFalloffSpeed p = mixerFalloffSpeed p"

definition showInstrumentPeaks :: "Preferences \<Rightarrow> bool" where
  "showInstrumentPeaks p = m_bShowInstrumentPeaks p"

definition getPatternEditorGridResolution :: "Preferences \<Rightarrow> c_int" where
  "getPatternEditorGridResolution p = m_nPatternEditorGridResolution p"

definition isPatternEditorUsingTriplets :: "Preferences \<Rightarrow> bool" where
  "isPatternEditorUsingTriplets p = m_bPatternEditorUsingTriplets p"

definition isFXTabVisible :: "Preferences \<Rightarrow> bool" where
  "isFXTabVisible p = m_bIsFXTabVisible p"

definition getPatternEditorGridHeight :: "Preferences \<Rightarrow> c_unsigned" where
  "getPatternEditorGridHeight p = m_nPatternEditorGridHeight p"

definition getPatternEditorGridWidth :: "Preferences \<Rightarrow> c_unsigned" where
  "getPatternEditorGridWidth p = m_nPatternEditorGridWidth p"

definition getMainFormProperties :: "Preferences \<Rightarrow> WindowProperties" where
  "getMainFormProperties p = mainFormProperties p"

definition getMixerProperties :: "Preferences \<Rightarrow> WindowProperties" where
  "getMixerProperties p = mixerProperties p"

definition getPatternEditorProperties :: "Preferences \<Rightarrow> WindowProperties" where
  "getPatternEditorProperties p = patternEditorProperties p"

definition getSongEditorProperties :: "Preferences \<Rightarrow> WindowProperties" where
  "getSongEditorProperties p = songEditorProperties p"

definition getDrumkitManagerProperties :: "Preferences \<Rightarrow> WindowProperties" where
  "getDrumkitManagerProperties p = drumkitManagerProperties p"

definition getAudioEngineInfoProperties :: "Preferences \<Rightarrow> WindowProperties" where
  "getAudioEngineInfoProperties p = audioEngineInfoProperties p"

definition getDefaultUIStyle :: "Preferences \<Rightarrow> UIStyle" where
  "getDefaultUIStyle p = m_pDefaultUIStyle p"

text \<open>The inline setters assign the field and return.\<close>

definition setDefaultEditor :: "Preferences \<Rightarrow> string \<Rightarrow> Preferences" where
  "setDefaultEditor p editor = p\<lparr>m_sDefaultEditor := editor\<rparr>"

definition setRestoreLastSongEnabled :: "Preferences \<Rightarrow> bool \<Rightarrow> Preferences" where
  "setRestoreLastSongEnabled p restore = p\<lparr>restoreLastSong := restore\<rparr>"

definition setShowDevelWarning :: "Preferences \<Rightarrow> bool \<Rightarrow> Preferences" where
  "setShowDevelWarning p b = p\<lparr>m_bShowDevelWarning := b\<rparr>"

definition setLastSongFilename :: "Preferences \<Rightarrow> string \<Rightarrow> Preferences" where
  "setLastSongFilename p filename = p\<lparr>lastSongFilename := filename\<rparr>"

definition setHearNewNotes :: "Preferences \<Rightarrow> bool \<Rightarrow> Preferences" where
  "setHearNewNotes p b = p\<lparr>hearNewNotes := b\<rparr>"

definition setRecordEvents :: "Preferences \<Rightarrow> bool \<Rightarrow> Preferences" where
  "setRecordEvents p b = p\<lparr>recordEvents := b\<rparr>"

definition setQuantizeEvents :: "Preferences \<Rightarrow> bool \<Rightarrow> Preferences" where
  "setQuantizeEvents p b = p\<lparr>quantizeEvents := b\<rparr>"

definition setLadspaPath :: "Preferences \<Rightarrow> string list \<Rightarrow> Preferences" where
  "setLadspaPath p pathVect = p\<lparr>m_ladspaPathVect := pathVect\<rparr>"

definition setLastNews :: "Preferences \<Rightarrow> string \<Rightarrow> Preferences" where
  "setLastNews p sNews = p\<lparr>m_sLastNews := sNews\<rparr>"

definition setQTStyle :: "Preferences \<Rightarrow> string \<Rightarrow> Preferences" where
  "setQTStyle p sStyle = p\<lparr>m_sQTStyle := sStyle\<rparr>"

definition setApplicationFontFamily :: "Preferences \<Rightarrow> string \<Rightarrow> Preferences" where
  "setApplicationFontFamily p family = p\<lparr>applicationFontFamily := family\<rparr>"

definition setApplicationFontPointSize :: "Preferences \<Rightarrow> c_int \<Rightarrow> Preferences" where
  "setApplicationFontPointSize p sz = p\<lparr>applicationFontPointSize := sz\<rparr>"

definition setMixerFontFamily :: "Preferences \<Rightarrow> string \<Rightarrow> Preferences" where
  "setMixerFontFamily p family = p\<lparr>mixerFontFamily := family\<rparr>"

definition setMixerFontPointSize :: "Preferences \<Rightarrow> c_int \<Rightarrow> Preferences" where
  "setMixerFontPointSize p sz = p\<lparr>mixerFontPointSize := sz\<rparr>"

definition setMixerFalloffSpeed :: "Preferences \<Rightarrow> real \<Rightarrow> Preferences" where
  "setMixerFalloffSpeed p v = p\<lparr>mixerFalloffSpeed := v\<rparr>"

definition setInstrumentPeaks :: "Preferences \<Rightarrow> bool \<Rightarrow> Preferences" where
  "setInstrumentPeaks p b = p\<lparr>m_bShowInstrumentPeaks := b\<rparr>"

definition setPatternEditorGridResolution :: "Preferences \<Rightarrow> c_int \<Rightarrow> Preferences" where
  "setPatternEditorGridResolution p v = p\<lparr>m_nPatternEditorGridResolution := v\<rparr>"

definition setPatternEditorUsingTriplets :: "Preferences \<Rightarrow> bool \<Rightarrow> Preferences" where
  "setPatternEditorUsingTriplets p b = p\<lparr>m_bPatternEditorUsingTriplets := b\<rparr>"

definition setFXTabVisible :: "Preferences \<Rightarrow> bool \<Rightarrow> Preferences" where
  "setFXTabVisible p b = p\<lparr>m_bIsFXTabVisible := b\<rparr>"

definition setPatternEditorGridHeight :: "Preferences \<Rightarrow> c_unsigned \<Rightarrow> Preferences" where
  "setPatternEditorGridHeight p v = p\<lparr>m_nPatternEditorGridHeight := v\<rparr>"

definition setPatternEditorGridWidth :: "Preferences \<Rightarrow> c_unsigned \<Rightarrow> Preferences" where
  "setPatternEditorGridWidth p v = p\<lparr>m_nPatternEditorGridWidth := v\<rparr>"

definition setMainFormProperties :: "Preferences \<Rightarrow> WindowProperties \<Rightarrow> Preferences" where
  "setMainFormProperties p prop = p\<lparr>mainFormProperties := prop\<rparr>"

definition setMixerProperties :: "Preferences \<Rightarrow> WindowProperties \<Rightarrow> Preferences" where
  "setMixerProperties p prop = p\<lparr>mixerProperties := prop\<rparr>"

definition setPatternEditorProperties :: "Preferences \<Rightarrow> WindowProperties \<Rightarrow> Preferences" where
  "setPatternEditorProperties p prop = p\<lparr>patternEditorProperties := prop\<rparr>"

definition setSongEditorProperties :: "Preferences \<Rightarrow> WindowProperties \<Rightarrow> Preferences" where
  "setSongEditorProperties p prop = p\<lparr>songEditorProperties := prop\<rparr>"

definition setDrumkitManagerProperties :: "Preferences \<Rightarrow> WindowProperties \<Rightarrow> Preferences" where
  "setDrumkitManagerProperties p prop = p\<lparr>drumkitManagerProperties := prop\<rparr>"

definition setAudioEngineInfoProperties :: "Preferences \<Rightarrow> WindowProperties \<Rightarrow> Preferences" where
  "setAudioEngineInfoProperties p prop = p\<lparr>audioEngineInfoProperties := prop\<rparr>"

text \<open>
  \<open>getLadspaProperties\<close> and \<open>setLadspaProperties\<close> (lines 395--400) index the
  array without a check; an index of \<open>MAX_FX\<close> or more is undefined behaviour.
\<close>

definition getLadspaProperties :: "Preferences \<Rightarrow> c_unsigned \<Rightarrow> WindowProperties option" where
  "getLadspaProperties p nFX =
     (if unat nFX < MAX_FX then Some (m_ladspaProperties p ! unat nFX) else None)"

definition setLadspaProperties :: "Preferences \<Rightarrow> c_unsigned \<Rightarrow> WindowProperties \<Rightarrow> Preferences option" where
  "setLadspaProperties p nFX prop =
     (if unat nFX < MAX_FX then Some (p\<lparr>m_ladspaProperties := (m_ladspaProperties p)[unat nFX := prop]\<rparr>) else None)"

section \<open>Changing preferences\<close>

text \<open>The header's setters as operations, and runs of them.\<close>

datatype pref_op =
     SetDefaultEditor string
  |  SetRestoreLastSongEnabled bool
  |  SetShowDevelWarning bool
  |  SetLastSongFilename string
  |  SetHearNewNotes bool
  |  SetRecordEvents bool
  |  SetQuantizeEvents bool
  |  SetLadspaPath "string list"
  |  SetLastNews string
  |  SetQTStyle string
  |  SetApplicationFontFamily string
  |  SetApplicationFontPointSize c_int
  |  SetMixerFontFamily string
  |  SetMixerFontPointSize c_int
  |  SetMixerFalloffSpeed real
  |  SetInstrumentPeaks bool
  |  SetPatternEditorGridResolution c_int
  |  SetPatternEditorUsingTriplets bool
  |  SetFXTabVisible bool
  |  SetPatternEditorGridHeight c_unsigned
  |  SetPatternEditorGridWidth c_unsigned
  |  SetMainFormProperties WindowProperties
  |  SetMixerProperties WindowProperties
  |  SetPatternEditorProperties WindowProperties
  |  SetSongEditorProperties WindowProperties
  |  SetDrumkitManagerProperties WindowProperties
  |  SetAudioEngineInfoProperties WindowProperties
| SetLadspaProperties c_unsigned WindowProperties

fun pref_step :: "Preferences \<Rightarrow> pref_op \<Rightarrow> Preferences option" where
  "pref_step p (SetDefaultEditor v) = Some (setDefaultEditor p v)"
  | "pref_step p (SetRestoreLastSongEnabled v) = Some (setRestoreLastSongEnabled p v)"
  | "pref_step p (SetShowDevelWarning v) = Some (setShowDevelWarning p v)"
  | "pref_step p (SetLastSongFilename v) = Some (setLastSongFilename p v)"
  | "pref_step p (SetHearNewNotes v) = Some (setHearNewNotes p v)"
  | "pref_step p (SetRecordEvents v) = Some (setRecordEvents p v)"
  | "pref_step p (SetQuantizeEvents v) = Some (setQuantizeEvents p v)"
  | "pref_step p (SetLadspaPath v) = Some (setLadspaPath p v)"
  | "pref_step p (SetLastNews v) = Some (setLastNews p v)"
  | "pref_step p (SetQTStyle v) = Some (setQTStyle p v)"
  | "pref_step p (SetApplicationFontFamily v) = Some (setApplicationFontFamily p v)"
  | "pref_step p (SetApplicationFontPointSize v) = Some (setApplicationFontPointSize p v)"
  | "pref_step p (SetMixerFontFamily v) = Some (setMixerFontFamily p v)"
  | "pref_step p (SetMixerFontPointSize v) = Some (setMixerFontPointSize p v)"
  | "pref_step p (SetMixerFalloffSpeed v) = Some (setMixerFalloffSpeed p v)"
  | "pref_step p (SetInstrumentPeaks v) = Some (setInstrumentPeaks p v)"
  | "pref_step p (SetPatternEditorGridResolution v) = Some (setPatternEditorGridResolution p v)"
  | "pref_step p (SetPatternEditorUsingTriplets v) = Some (setPatternEditorUsingTriplets p v)"
  | "pref_step p (SetFXTabVisible v) = Some (setFXTabVisible p v)"
  | "pref_step p (SetPatternEditorGridHeight v) = Some (setPatternEditorGridHeight p v)"
  | "pref_step p (SetPatternEditorGridWidth v) = Some (setPatternEditorGridWidth p v)"
  | "pref_step p (SetMainFormProperties v) = Some (setMainFormProperties p v)"
  | "pref_step p (SetMixerProperties v) = Some (setMixerProperties p v)"
  | "pref_step p (SetPatternEditorProperties v) = Some (setPatternEditorProperties p v)"
  | "pref_step p (SetSongEditorProperties v) = Some (setSongEditorProperties p v)"
  | "pref_step p (SetDrumkitManagerProperties v) = Some (setDrumkitManagerProperties p v)"
  | "pref_step p (SetAudioEngineInfoProperties v) = Some (setAudioEngineInfoProperties p v)"
| "pref_step p (SetLadspaProperties nFX prop) = setLadspaProperties p nFX prop"

fun pref_run :: "Preferences \<Rightarrow> pref_op list \<Rightarrow> Preferences option" where
  "pref_run p [] = Some p"
| "pref_run p (op # ops) = pref_step p op \<bind> (\<lambda>p'. pref_run p' ops)"

text \<open>The invariant of the object: the effect array has its declared size.\<close>

definition wf_prefs :: "Preferences \<Rightarrow> bool" where
  "wf_prefs p \<longleftrightarrow> length (m_ladspaProperties p) = MAX_FX"

text \<open>A preferences object for the concrete checks below: every window at the origin, every
  colour the default \<open>H2RGBColor()\<close>, the falloff speed \<open>FALLOFF_NORMAL\<close>.\<close>

definition prefs_example :: Preferences where
  "prefs_example = (let wp0 = \<lparr>wp_x = 0, wp_y = 0, wp_width = 0, wp_height = 0, wp_visible = False\<rparr>;
     c0 = \<lparr>m_red = -1, m_green = -1, m_blue = -1\<rparr>;
     style0 = \<lparr>m_songEditor_backgroundColor = c0, m_songEditor_alternateRowColor = c0, m_songEditor_selectedRowColor = c0, m_songEditor_lineColor = c0, m_songEditor_textColor = c0, m_songEditor_pattern1Color = c0, m_patternEditor_backgroundColor = c0, m_patternEditor_alternateRowColor = c0, m_patternEditor_selectedRowColor = c0, m_patternEditor_textColor = c0, m_patternEditor_noteColor = c0, m_patternEditor_lineColor = c0, m_patternEditor_line1Color = c0, m_patternEditor_line2Color = c0, m_patternEditor_line3Color = c0, m_patternEditor_line4Color = c0, m_patternEditor_line5Color = c0\<rparr> in
    \<lparr>m_sPreferencesFilename = '''',
     m_sPreferencesDirectory = '''',
     m_bFollowPlayhead = False,
     sServerList = [],
     m_sAudioDriver = '''',
     m_bUseMetronome = False,
     m_fMetronomeVolume = 1.1,
     m_nMaxNotes = 0,
     m_nBufferSize = 0,
     m_nSampleRate = 0,
     m_sOSSDevice = '''',
     m_sMidiDriver = '''',
     m_sMidiPortName = '''',
     m_nMidiChannelFilter = 0,
     m_bMidiNoteOffIgnore = False,
     m_bUseMidiTransport = False,
     m_sAlsaAudioDevice = '''',
     m_sJackPortName1 = '''',
     m_sJackPortName2 = '''',
     m_bJackTransportMode = False,
     m_bJackConnectDefaults = False,
     m_nJackTrackOutputMode = POST_FADER,
     m_sDefaultEditor = '''',
     m_sDataDirectory = ''/usr/share/hydrogen/data/'',
     demoPath = '''',
     restoreLastSong = False,
     m_bShowDevelWarning = False,
     lastSongFilename = '''',
     hearNewNotes = False,
     m_recentFiles = [],
     m_ladspaPathVect = [],
     quantizeEvents = False,
     recordEvents = False,
     m_sLastNews = '''',
     m_sQTStyle = '''',
     applicationFontFamily = '''',
     applicationFontPointSize = 0,
     mixerFontFamily = '''',
     mixerFontPointSize = 0,
     mixerFalloffSpeed = FALLOFF_NORMAL,
     m_nPatternEditorGridResolution = 0,
     m_bPatternEditorUsingTriplets = False,
     m_bShowInstrumentPeaks = False,
     m_bIsFXTabVisible = False,
     m_nPatternEditorGridHeight = 0,
     m_nPatternEditorGridWidth = 0,
     mainFormProperties = wp0,
     mixerProperties = wp0,
     patternEditorProperties = wp0,
     songEditorProperties = wp0,
     drumkitManagerProperties = wp0,
     audioEngineInfoProperties = wp0,
     m_ladspaProperties = replicate MAX_FX wp0,
     m_pDefaultUIStyle = style0\<rparr>)"

lemmas pref_setters = setDefaultEditor_def setRestoreLastSongEnabled_def setShowDevelWarning_def setLastSongFilename_def setHearNewNotes_def setRecordEvents_def setQuantizeEvents_def setLadspaPath_def setLastNews_def setQTStyle_def setApplicationFontFamily_def setApplicationFontPointSize_def setMixerFontFamily_def setMixerFontPointSize_def setMixerFalloffSpeed_def setInstrumentPeaks_def setPatternEditorGridResolution_def setPatternEditorUsingTriplets_def setFXTabVisible_def setPatternEditorGridHeight_def setPatternEditorGridWidth_def setMainFormProperties_def setMixerProperties_def setPatternEditorProperties_def setSongEditorProperties_def setDrumkitManagerProperties_def setAudioEngineInfoProperties_def

section \<open>Runs of setters\<close>

lemma pref_step_frame:
  "pref_step p op = Some p' \<Longrightarrow> m_sDataDirectory p' = m_sDataDirectory p \<and> demoPath p' = demoPath p"
  by (cases op) (auto simp: pref_setters setLadspaProperties_def split: if_splits)

lemma pref_run_induct_step:
  assumes "\<And>p op p'. P p \<Longrightarrow> pref_step p op = Some p' \<Longrightarrow> P p'"
  shows "P p \<Longrightarrow> pref_run p ops = Some p' \<Longrightarrow> P p'"
proof (induction ops arbitrary: p)
  case Nil
  then show ?case by simp
next
  case (Cons op ops)
  then obtain p1 where "pref_step p op = Some p1" "pref_run p1 ops = Some p'"
    by (cases "pref_step p op") auto
  with Cons.IH assms Cons.prems(1) show ?case by blast
qed

lemma pref_run_frame:
  "pref_run p ops = Some p' \<Longrightarrow> m_sDataDirectory p' = m_sDataDirectory p \<and> demoPath p' = demoPath p"
proof (induction ops arbitrary: p)
  case Nil
  then show ?case by simp
next
  case (Cons op ops)
  then obtain p1 where "pref_step p op = Some p1" "pref_run p1 ops = Some p'"
    by (cases "pref_step p op") auto
  with Cons.IH pref_step_frame show ?case by metis
qed

lemma prefs_example_wf: "wf_prefs prefs_example"
  by (simp add: wf_prefs_def prefs_example_def Let_def)

section \<open>Properties of the preferences object\<close>

text \<open>
  C22. No setter of the header writes the data directory or the demo path: after any run
  of setters they are what they were, so every component that reads
  \<open>getDataDirectory\<close> (the drumkit installer and remover) sees one fixed directory.
\<close>

theorem pref_run_keeps_data_directory:
  assumes "pref_run p ops = Some p'"
  shows "getDataDirectory p' = getDataDirectory p \<and> getDemoPath p' = getDemoPath p"
  using pref_run_frame[OF assms] by (simp add: getDataDirectory_def getDemoPath_def)

lemma pref_run_keeps_data_directory_witness:
  "getDataDirectory (the (pref_run prefs_example [SetQTStyle ''Plastique'', SetLastNews ''n''])) =
     ''/usr/share/hydrogen/data/''"
proof -
  have r: "pref_run prefs_example [SetQTStyle ''Plastique'', SetLastNews ''n''] =
      Some (setLastNews (setQTStyle prefs_example ''Plastique'') ''n'')" by simp
  have "getDataDirectory prefs_example = ''/usr/share/hydrogen/data/''"
    by (simp add: getDataDirectory_def prefs_example_def Let_def)
  with pref_run_keeps_data_directory[OF r] show ?thesis by (simp add: r)
qed

text \<open>
  C23. Within range, \<open>setLadspaProperties\<close> stores the window properties of one effect
  slot: \<open>getLadspaProperties\<close> returns them for that slot and what it returned before for
  every other slot.
\<close>

theorem ladspa_properties_roundtrip:
  assumes "wf_prefs p" "unat nFX < MAX_FX"
  shows "\<exists>p'. setLadspaProperties p nFX prop = Some p' \<and> wf_prefs p' \<and>
    getLadspaProperties p' nFX = Some prop \<and>
    (\<forall>m. m \<noteq> nFX \<longrightarrow> getLadspaProperties p' m = getLadspaProperties p m)"
proof -
  have "\<And>m. m \<noteq> nFX \<Longrightarrow> unat nFX \<noteq> unat m" by (simp add: word_unat_eq_iff)
  with assms show ?thesis
    by (auto simp: setLadspaProperties_def getLadspaProperties_def wf_prefs_def nth_list_update_neq)
qed

lemma ladspa_properties_roundtrip_witness:
  "getLadspaProperties (the (setLadspaProperties prefs_example 2
     \<lparr>wp_x = 1, wp_y = 2, wp_width = 3, wp_height = 4, wp_visible = True\<rparr>)) 2 =
   Some \<lparr>wp_x = 1, wp_y = 2, wp_width = 3, wp_height = 4, wp_visible = True\<rparr>"
  using ladspa_properties_roundtrip[OF prefs_example_wf, of 2
      "\<lparr>wp_x = 1, wp_y = 2, wp_width = 3, wp_height = 4, wp_visible = True\<rparr>"]
  by (auto simp: MAX_FX_def)

text \<open>
  C24. Neither accessor checks its index: from \<open>MAX_FX\<close> on, reading or writing an
  effect slot is out of the array's bounds, and so is a run of setters that contains such
  a write, whatever the object.
\<close>

theorem ladspa_properties_unchecked:
  assumes "MAX_FX \<le> unat nFX"
  shows "getLadspaProperties p nFX = None \<and> setLadspaProperties p nFX prop = None \<and>
    pref_run p (ops @ SetLadspaProperties nFX prop # ops') = None"
proof -
  have "pref_run q (ops @ SetLadspaProperties nFX prop # ops') = None" for q
    using assms by (induction ops arbitrary: q) (auto simp: setLadspaProperties_def split: Option.bind_split)
  with assms show ?thesis by (simp add: getLadspaProperties_def setLadspaProperties_def)
qed

lemma ladspa_properties_unchecked_witness:
  "getLadspaProperties prefs_example 4 = None"
  using ladspa_properties_unchecked[of 4 prefs_example] by (simp add: MAX_FX_def)

end
