(* ===== verification/Spec2Isabelle.thy ===== *)
theory Spec2Isabelle
  imports SMFGrammar DrumkitObject Preferences
begin

text \<open>
  \<^bold>\<open>A verified model of Hydrogen's MIDI file encoder, drumkit installer and preferences.\<close>

  \<^medskip>\<^bold>\<open>The program.\<close> Hydrogen is a drum machine. The sources of this repository
  are four files. \<^verbatim>\<open>src/src/lib/smf/SMFEvent.cpp\<close> is the core of the Standard
  MIDI File (SMF) export: the byte sink \<open>SMFBuffer\<close> with its typed writers (byte,
  big-endian word and double word, MIDI variable-length quantity, length-prefixed string)
  and the event classes \<open>SMFNoteOnEvent\<close>, \<open>SMFNoteOffEvent\<close> and
  \<open>SMFTrackNameMetaEvent\<close>, each of which serialises itself through a fresh
  \<open>SMFBuffer\<close>. \<^verbatim>\<open>src/libs/hydrogen/src/sound_library.cpp\<close> installs a drumkit
  archive (gunzip into a temporary tar file, then untar into the data directory) and
  removes one with a shell command. \<^verbatim>\<open>Preferences.h\<close> declares the preferences
  singleton with its inline accessors; the installer and remover read the data
  directory from it. \<^verbatim>\<open>src/src/lib/ADSR.h\<close> only declares an envelope class.

  \<^medskip>\<^bold>\<open>Library layout.\<close>
  \<^item> \<open>Prelude\<close>: the C integer types as words (\<open>byte\<close>, \<open>c_short\<close>, \<open>c_int\<close>,
    \<open>c_unsigned\<close>, \<open>c_long\<close>; LP64), the little-endian value \<open>le_nat\<close> of a byte
    list that relates a \<open>long\<close> register to the bytes it holds, shared bit and
    conversion lemmas, the collection \<open>smf_eval\<close> of evaluation rules, and the
    admissibility fact for proving that a \<^theory_text>\<open>partial_function (option)\<close> loop never
    returns.
  \<^item> \<open>VarLen\<close>: the contract of the variable-length quantity, from the spec: the
    reference encoder \<open>vlq_encode\<close> (7-bit groups, most significant first, continuation
    bit on all but the last byte) and the decoder \<open>readVarLen\<close>.
  \<^item> \<open>SMFBuffer\<close>: \<open>SMFBuffer\<close> (SMFEvent.cpp lines 27--88) as a record of the byte
    vector with one definition per writer. \<open>writeVarLen\<close> keeps the source's two loops:
    \<open>varlen_pack\<close> (a \<^theory_text>\<open>function\<close>, terminating on the measure \<open>sint value\<close>)
    and \<open>varlen_emit\<close> (the \<^verbatim>\<open>while (true)\<close> output loop, a
    \<^theory_text>\<open>partial_function (option)\<close> in which \<open>None\<close> means the loop never ends).
    The character loop of \<open>writeString\<close>, \<open>write_chars\<close>, is another such loop,
    over the source's 32-bit \<open>unsigned\<close> counter. The writers are also collected as a \<open>buffer_op\<close> datatype with a step function.
  \<^item> \<open>SMFEvent\<close>: the event classes (lines 93--187). A constructor returns the object and
    the diagnostics it logs; \<open>SMFEvent_getBuffer\<close> is the virtual \<open>getBuffer\<close>,
    dispatching to one definition per class. A decoder of single events
    (\<open>parse_event\<close>, from the spec's byte grammar) returns abstract MIDI messages.
  \<^item> \<open>SMFTrack\<close>: the track and file writer, whose code is not under
    \<^verbatim>\<open>src/\<close> and which follows spec section 4.4: \<open>assign_deltas\<close> (absolute ticks to
    delta-times, with \<open>OrderingViolation\<close> and \<open>EncodingRangeError\<close>),
    \<open>track_body\<close> (the events' \<open>getBuffer\<close> bytes and the end-of-track event),
    \<open>track_chunk\<close> and \<open>smf_header\<close> (framing with \<open>writeDWord\<close>/\<open>writeWord\<close>)
    and \<open>smf_file\<close>; a reader of tracks and files (\<open>parse_track_events\<close>,
    \<open>parse_file\<close>) and the abstract timeline \<open>track_spec\<close> are its contract.
  \<^item> \<open>SMFGrammar\<close>: the byte grammar of spec section 6 as \<^theory_text>\<open>inductive\<close> predicates
    (\<open>is_vlq\<close>, \<open>smf_event\<close>, \<open>smf_track\<close>, \<open>smf_chunks\<close>,
    \<open>smf_typed_file\<close>): the type of a track body and of a whole file.
  \<^item> \<open>Drumkit\<close>: \<open>Drumkit::install\<close> and \<open>Drumkit::removeDrumkit\<close> of
    sound_library.cpp, with the Qt string functions they use. zlib, libtar and
    \<^verbatim>\<open>system()\<close> are modelled by their results (\<open>install_env\<close>, a \<open>system\<close>
    function); the calls made are a trace of \<open>io_call\<close>s; undefined behaviour is a
    \<open>ub\<close> value. \<open>sh_commands\<close> models how \<^verbatim>\<open>/bin/sh\<close> splits a command line.
  \<^item> \<open>DrumkitSave\<close>: \<open>Drumkit::save\<close>: the envelope data of ADSR.h, records for
    the instrument classes with the members \<open>save\<close> uses, the per-layer and
    per-instrument copy (\<open>copy_layer\<close>, the layer loop \<open>copy_layers\<close>,
    \<open>copy_instrument\<close>), the \<open>Drumkit\<close> object (\<open>DrumkitObj\<close>, its instrument
    list a pointer: \<open>None\<close> is \<open>NULL\<close>) with its constructor (lines 61--65), and
    \<open>Drumkit_save\<close> with \<open>saveDrumkit\<close>'s result as a parameter; a layer's sample
    pointer may be \<open>NULL\<close>, and the copy's unchecked dereference of it is the outcome
    \<open>SaveNullSample\<close>.
  \<^item> \<open>DrumkitObject\<close>: the destructor, \<open>Drumkit::load\<close> and the two drumkit lists
    (lines 69--97) over an interface record \<open>LocalFileMng\<close> of the manager they call,
    and \<open>Drumkit::dump\<close> (lines 101--128) as the list of messages it logs.
  \<^item> \<open>Preferences\<close>: the records of Preferences.h, its falloff constants and member
    enumerations, one definition per inline accessor,
    and the setters as a \<open>pref_op\<close> datatype with \<open>pref_step\<close>/\<open>pref_run\<close>.

  \<^medskip>\<^bold>\<open>What is proved.\<close>
  \<^item> Variable-length quantities (C1--C5): \<open>writeVarLen\<close> equals the reference encoding
    on \<open>0 \<le> v < 2^56\<close> (C1) and round-trips through the decoder in at most four bytes
    below \<open>2^28\<close> (C2); it never returns from \<open>2^56\<close> on (C3, fixpoint induction on
    \<open>varlen_emit\<close>), writes five or more bytes without an error from \<open>2^28\<close> on (C4),
    and writes a negative value as the single byte \<open>value & 0x7f\<close> (C5).
  \<^item> The byte sink (C6--C8): every run of writes only appends (C6); \<open>writeDWord\<close> and
    \<open>writeWord\<close> are big-endian (C7); \<open>writeString\<close> returns exactly on strings shorter
    than \<open>2^32\<close>, with the length prefix and the bytes, and never returns on longer ones,
    where the 32-bit counter of its character loop wraps (C8).
  \<^item> Events (C9, C10, C12, C14): every well-formed event round-trips through the decoder
    (C9); a channel of 16 or more is only logged, so a note-off on channel \<open>ch + 16\<close> is
    written as a note-on on channel \<open>ch\<close> and a note-on gets status \<open>0xA0 + ch\<close> (C10);
    an unassigned delta-time is written as \<open>0x7F\<close> (C12); serialisation fails to return
    exactly on a track name of \<open>2^32\<close> characters or more (C14).
  \<^item> Tracks and files (C11, C13, C25--C27, C30), over the spec-modelled writer: the file
    writer always returns and fails exactly when a track's delta assignment fails, with the
    first failing track's error (C11); an accepted track's body is exactly \<open>track_size\<close>
    bytes, at most seven per note and ten plus the name per track name (C13, a bound by
    \<open>sum_list\<close>); an accepted track is read back as the spec's delta-times and messages
    (C25, a refinement of \<open>track_body\<close> to \<open>track_spec\<close>); chunk framing round-trips
    and its length field is the body length (C26); whole files round-trip when every
    track's \<open>track_size\<close> fits the 32-bit length field (C27); every accepted file is
    typed by the spec's grammar, from the header's track count and the chunk lengths down
    to each event (C30). A decreasing tick is reported as an \<open>OrderingViolation\<close> at its
    index (lemma \<open>ordering_violation\<close>).
  \<^item> Drumkits (C15--C21): the temporary tar file is the archive padded with stale bytes
    to a multiple of 4096 (C15); a failed \<open>tar_open\<close> leads to use of an unset handle
    (C16); extraction errors are only logged (C17); long names overflow the 1024-byte
    arrays (C18); a dot in the directory path misplaces the tar file (C19); plain names
    give exactly one \<open>rm -rf\<close> (C20), a double quote in the name injects commands (C21).
  \<^item> Saving and dumping drumkits (C28, C29, C31): when every layer has a sample, the saved
    drumkit holds a copy of every song instrument equal to it but for sample data and the
    drumkit name, which is read and dropped (C28); \<open>save\<close> dereferences a \<open>NULL\<close>
    sample exactly when some layer has none, before anything is saved, and otherwise a
    failed save throws and leaks the drumkit it built (C29); \<open>dump\<close> of a drumkit
    without instrument list, such as a freshly constructed one, dereferences \<open>NULL\<close>
    after its five header lines (C31); a drumkit \<open>save\<close> hands over can be dumped
    (lemma \<open>save_then_dump\<close>).
  \<^item> Preferences (C22--C24): no setter changes the data directory or the demo path (C22);
    the effect-slot accessors store and return per slot (C23) and do not check their index
    (C24).

  \<^medskip>\<^bold>\<open>Bounds.\<close> \<open>long\<close> is 64 bits (LP64, the platform the code assumes for
  \<open>long\<close> and \<open>size_t\<close>); the packed register holds eight groups, which is why
  \<open>2^56\<close> is the exact limit of termination of \<open>writeVarLen\<close>. \<open>unsigned\<close> is 32
  bits, which is why \<open>2^32\<close> is the exact limit of termination of \<open>writeString\<close>. No
  fuel is used: the two loops that may not return are \<^theory_text>\<open>partial_function (option)\<close>s,
  non-termination is proved by fixpoint induction and termination as statements over
  \<open>Some\<close>. The copy loop of \<open>install\<close> terminates on the length of the remaining
  decompressed data, the track reader on the length of the remaining bytes.
  \<open>MAX_FX = 4\<close> and \<open>MAX_LAYERS = 16\<close> are the values in hydrogen/globals.h. A
  track's gaps are bounded by \<open>2^28\<close> (the spec's four-byte limit), a file by \<open>2^16\<close>
  tracks and bodies by \<open>2^32\<close> bytes, the widths of the header fields.

  \<^medskip>\<^bold>\<open>Not modelled.\<close> The behaviour of the envelope (\<open>ADSR::getValue\<close>,
  \<open>ADSR::release\<close>, the constructors) lives in ADSR.cpp, absent here; only its data is
  modelled. The instrument classes used by \<open>save\<close> are declared outside
  \<^verbatim>\<open>src/\<close>; their records hold what \<open>save\<close> and \<open>dump\<close> touch, a layer's
  sample pointer included. \<open>LocalFileMng\<close>, which \<open>load\<close>, the drumkit lists and
  \<open>save\<close> call, has no code here: it is a parameter (an interface record, or
  \<open>saveDrumkit\<close>'s result), so what is proved holds for every implementation of it. The
  track and file writer is not under \<^verbatim>\<open>src/\<close>: it is modelled from spec section 4.4,
  including the delta-time 0 of track names, and its theorems are about that model over
  the code's serialisers. \<open>float\<close> values are reals: \<open>FALLOFF_SLOW = 1.08f\<close> is taken
  as the decimal it is written as, not the nearest float; no theorem reads these
  constants. The constructor and destructor of \<open>SoundLibrary\<close> are empty. The remaining
  unmapped lines of the four files are licence text, includes, declarations of functions
  defined elsewhere and blank lines. The XML persistence of preferences, the singleton
  construction, the audio engine and the GUI have no code under \<^verbatim>\<open>src/\<close>.
\<close>

end
